theory Spec2Isabelle
  imports Complex_Main "HOL-Library.Sublist"
begin

section \<open>JavaScript values, exceptions and effects\<close>

text \<open>
  The quota governor is the class \<open>GeminiService\<close> (the service source carried in
  src/README.md, from \<open>class GeminiService\<close> on) and the turn state machine is the React
  component \<open>PracticeDebate\<close> (src/src/components/PracticeDebate.tsx). Both are sequential
  code that mutates fields, reads the clock, talks to \<open>localStorage\<close> and to the AI
  provider, and throws and catches exceptions. The embedding makes each of these explicit:
  a method is a function from the object's state to an outcome (a thrown \<open>error\<close> or a
  returned value) and the state it leaves behind.

  Counters and timestamps are JavaScript numbers that hold integers (\<open>Date.now()\<close>, values
  produced by \<open>++\<close>, \<open>+=\<close> and \<open>Math.ceil\<close>); they are modelled as \<open>int\<close>, and the
  quotients under \<open>Math.ceil\<close> and \<open>Math.floor\<close> as \<open>rat\<close>, which is exact for
  integers of the size of a timestamp. Strings are \<open>string\<close>.
\<close>

datatype error =
    Error string
  | TypeError string
  | SyntaxError string
  | DOMException string

fun message :: "error \<Rightarrow> string" where
  "message (Error m) = m"
| "message (TypeError m) = m"
| "message (SyntaxError m) = m"
| "message (DOMException m) = m"

text \<open>What \<open>JSON.parse\<close> returns. Numbers are finite; a property that is absent reads as
  \<open>undefined\<close>, modelled as \<open>None\<close> of a \<open>jsval option\<close>.\<close>

datatype jsval =
    JNull
  | JBool bool
  | JNum rat
  | JStr string
  | JArr "jsval list"
  | JObj "(string \<times> jsval) list"

text \<open>A computation over a state \<open>'s\<close>: it throws or returns, and leaves a state either
  way (an exception does not undo the assignments made before it).\<close>

type_synonym ('a, 's) js = "'s \<Rightarrow> (error + 'a) \<times> 's"

definition js_return :: "'a \<Rightarrow> ('a, 's) js" where
  "js_return x = (\<lambda>s. (Inr x, s))"

definition js_throw :: "error \<Rightarrow> ('a, 's) js" where
  "js_throw e = (\<lambda>s. (Inl e, s))"

definition js_bind :: "('a, 's) js \<Rightarrow> ('a \<Rightarrow> ('b, 's) js) \<Rightarrow> ('b, 's) js" where
  "js_bind m f = (\<lambda>s. case m s of (Inl e, s') \<Rightarrow> (Inl e, s') | (Inr x, s') \<Rightarrow> f x s')"

definition js_then :: "('a, 's) js \<Rightarrow> ('b, 's) js \<Rightarrow> ('b, 's) js" where
  "js_then m k = js_bind m (\<lambda>_. k)"

text \<open>\<open>try { m } catch (e) { h e }\<close>.\<close>

definition js_try :: "('a, 's) js \<Rightarrow> (error \<Rightarrow> ('a, 's) js) \<Rightarrow> ('a, 's) js" where
  "js_try m h = (\<lambda>s. case m s of (Inl e, s') \<Rightarrow> h e s' | (Inr x, s') \<Rightarrow> (Inr x, s'))"

definition js_read :: "('s \<Rightarrow> 'a) \<Rightarrow> ('a, 's) js" where
  "js_read f = (\<lambda>s. (Inr (f s), s))"

definition js_modify :: "('s \<Rightarrow> 's) \<Rightarrow> (unit, 's) js" where
  "js_modify f = (\<lambda>s. (Inr (), f s))"

definition js_when :: "bool \<Rightarrow> (unit, 's) js \<Rightarrow> (unit, 's) js" where
  "js_when b m = (if b then m else js_return ())"

subsection \<open>Strings\<close>

text \<open>\<open>String(n)\<close> for an integer \<open>n\<close>: its decimal digits.\<close>

function show_nat :: "nat \<Rightarrow> string" where
  "show_nat n =
     (if n < 10 then [''0123456789'' ! n]
      else show_nat (n div 10) @ [''0123456789'' ! (n mod 10)])"
  by pat_completeness auto
termination
  by (relation "measure id") auto

declare show_nat.simps [simp del]

definition show_int :: "int \<Rightarrow> string" where
  "show_int i = (if i < 0 then ''-'' @ show_nat (nat (- i)) else show_nat (nat i))"

text \<open>\<open>s.includes(sub)\<close>.\<close>

fun str_includes :: "string \<Rightarrow> string \<Rightarrow> bool" where
  "str_includes [] sub = (sub = [])"
| "str_includes (c # cs) sub = (prefix sub (c # cs) \<or> str_includes cs sub)"

subsection \<open>The browser's key-value store\<close>

text \<open>
  \<open>localStorage\<close>: \<open>getItem\<close> returns the stored string or \<open>null\<close>, \<open>setItem\<close> stores one.
  Both can throw (storage disabled, quota of the store exhausted), which is why the source
  wraps every access in \<open>try\<close>/\<open>catch\<close>; the two flags say whether this store does.
\<close>

record LocalStorage =
  items :: "string \<rightharpoonup> string"
  getItem_throws :: bool
  setItem_throws :: bool

definition getItem :: "LocalStorage \<Rightarrow> string \<Rightarrow> error + string option" where
  "getItem st k = (if getItem_throws st then Inl (DOMException ''SecurityError'') else Inr (items st k))"

definition setItem :: "LocalStorage \<Rightarrow> string \<Rightarrow> string \<Rightarrow> error + LocalStorage" where
  "setItem st k v =
     (if setItem_throws st then Inl (DOMException ''QuotaExceededError'')
      else Inr (st\<lparr>items := (items st)(k \<mapsto> v)\<rparr>))"

text \<open>The store after a \<open>setItem\<close> whose exception, if any, is swallowed.\<close>

definition store_attempt :: "LocalStorage \<Rightarrow> string \<Rightarrow> string \<Rightarrow> LocalStorage" where
  "store_attempt st k v = (case setItem st k v of Inl _ \<Rightarrow> st | Inr st' \<Rightarrow> st')"

subsection \<open>Builtins and the clock\<close>

text \<open>
  Builtins of the JavaScript runtime that the service and the component call. They are
  not code of the repository and are taken as parameters: \<open>JSON.parse\<close> (which throws on
  text that is not JSON), \<open>JSON.stringify\<close>, the conversions of \<open>Number(v)\<close> on strings
  and on objects, and \<open>String.prototype.trim\<close>, which strips the white space and the line
  terminators of ECMAScript, among them the no-break space U+00A0, U+FEFF and the other
  space characters of Unicode.
\<close>

datatype jsnum = NaN | Infinity | NegInfinity | Fin rat

record Runtime =
  JSON_parse :: "string \<Rightarrow> error + jsval"
  JSON_stringify :: "jsval \<Rightarrow> string"
  StringToNumber :: "string \<Rightarrow> jsnum"
  ObjectToNumber :: "jsval \<Rightarrow> jsnum"
  String_trim :: "string \<Rightarrow> string"

text \<open>One reading of the clock: \<open>new Date().toDateString()\<close>, \<open>Date.now()\<close> in
  milliseconds, and the milliseconds until the next local midnight.\<close>

record Clock =
  toDateString :: string
  now_ms :: int
  until_midnight_ms :: int

section \<open>The quota governor: class GeminiService\<close>

record Call =
  timestamp :: int
  tokens :: int

text \<open>
  The fields of the class, and with them the two things outside of it that its methods
  change: the browser's \<open>localStorage\<close> and the prompts handed to the provider's
  \<open>model.generateContent\<close>, in order (\<open>generateContent_log\<close>).
\<close>

record GeminiService =
  hasGenAI :: bool
  hasModel :: bool
  apiKeyValid :: bool
  callCount :: int
  dailyCallCount :: int
  dailyTokenCount :: int
  lastResetDate :: string
  callHistory :: "Call list"
  isQuotaExceeded :: bool
  localStorage :: LocalStorage
  generateContent_log :: "string list"

definition DAILY_CALL_LIMIT :: int where "DAILY_CALL_LIMIT = 50"
definition DAILY_TOKEN_LIMIT :: int where "DAILY_TOKEN_LIMIT = 15000"
definition CALLS_PER_MINUTE :: int where "CALLS_PER_MINUTE = 1"

definition stats_key :: string where "stats_key = ''gemini_daily_stats''"

text \<open>The object literal that \<open>saveDailyStats\<close> serialises.\<close>

definition stats_object :: "GeminiService \<Rightarrow> jsval" where
  "stats_object s = JObj
     [(''callCount'', JNum (of_int (dailyCallCount s))),
      (''tokenCount'', JNum (of_int (dailyTokenCount s))),
      (''lastResetDate'', JStr (lastResetDate s)),
      (''isQuotaExceeded'', JBool (isQuotaExceeded s))]"

definition saveDailyStats :: "Runtime \<Rightarrow> (unit, GeminiService) js" where
  "saveDailyStats rt =
     js_try
       (\<lambda>s. case setItem (localStorage s) stats_key (JSON_stringify rt (stats_object s)) of
               Inl e \<Rightarrow> (Inl e, s)
             | Inr st' \<Rightarrow> (Inr (), s\<lparr>localStorage := st'\<rparr>))
       (\<lambda>e. js_return ())"

definition resetDailyStatsIfNeeded :: "Runtime \<Rightarrow> Clock \<Rightarrow> (unit, GeminiService) js" where
  "resetDailyStatsIfNeeded rt clk =
     js_bind (js_read lastResetDate) (\<lambda>last.
       js_when (last \<noteq> toDateString clk)
         (js_then
            (js_modify (\<lambda>s. s\<lparr>dailyCallCount := 0, dailyTokenCount := 0,
                                 lastResetDate := toDateString clk, isQuotaExceeded := False\<rparr>))
            (saveDailyStats rt)))"

record QuotaCheck =
  canMakeCall :: bool
  reason :: "string option"
  waitTime :: "int option"

definition call_limit_reason :: string where
  "call_limit_reason =
     ''Daily call limit reached ('' @ show_int DAILY_CALL_LIMIT
       @ ''/day). Quota resets at 12:00 AM Pacific Time.''"

definition token_limit_reason :: string where
  "token_limit_reason =
     ''Daily token limit reached ('' @ show_int DAILY_TOKEN_LIMIT
       @ ''/day). Quota resets at 12:00 AM Pacific Time.''"

definition rate_limit_reason :: "int \<Rightarrow> string" where
  "rate_limit_reason w =
     ''Rate limit: '' @ show_int CALLS_PER_MINUTE @ '' call per minute. Please wait ''
       @ show_int w @ '' seconds.''"

text \<open>\<open>callHistory.filter(call => call.timestamp > oneMinuteAgo)\<close>.\<close>

definition recentCalls :: "int \<Rightarrow> Call list \<Rightarrow> Call list" where
  "recentCalls now h = filter (\<lambda>call. timestamp call > now - 60 * 1000) h"

text \<open>
  The rate-limit branch takes the minimum of the recent timestamps; it is entered with at
  least \<open>CALLS_PER_MINUTE = 1\<close> of them, so the minimum is that of a non-empty list.
\<close>

definition checkQuotaLimits :: "Runtime \<Rightarrow> Clock \<Rightarrow> (QuotaCheck, GeminiService) js" where
  "checkQuotaLimits rt clk =
     js_then (resetDailyStatsIfNeeded rt clk)
       (js_bind (js_read dailyCallCount) (\<lambda>calls.
          if calls \<ge> DAILY_CALL_LIMIT then
            js_then (js_modify (\<lambda>s. s\<lparr>isQuotaExceeded := True\<rparr>))
              (js_then (saveDailyStats rt)
                 (js_return \<lparr>canMakeCall = False, reason = Some call_limit_reason,
                             waitTime = None\<rparr>))
          else
            js_bind (js_read dailyTokenCount) (\<lambda>toks.
              if toks \<ge> DAILY_TOKEN_LIMIT then
                js_then (js_modify (\<lambda>s. s\<lparr>isQuotaExceeded := True\<rparr>))
                  (js_then (saveDailyStats rt)
                     (js_return \<lparr>canMakeCall = False, reason = Some token_limit_reason,
                                 waitTime = None\<rparr>))
              else
                js_bind (js_read callHistory) (\<lambda>h.
                  let now = now_ms clk;
                      recent = recentCalls now h
                  in if int (length recent) \<ge> CALLS_PER_MINUTE then
                       let oldestCall = min_list (map timestamp recent);
                           wait = \<lceil>(of_int (oldestCall + 60 * 1000 - now) :: rat) / 1000\<rceil>
                       in js_return \<lparr>canMakeCall = False, reason = Some (rate_limit_reason wait),
                                      waitTime = Some wait\<rparr>
                     else js_return \<lparr>canMakeCall = True, reason = None, waitTime = None\<rparr>))))"

text \<open>\<open>callHistory.slice(-60)\<close>, applied when the list is longer than 60.\<close>

definition keep_last_60 :: "Call list \<Rightarrow> Call list" where
  "keep_last_60 h = (if length h > 60 then drop (length h - 60) h else h)"

definition updateQuotaUsage :: "Runtime \<Rightarrow> Clock \<Rightarrow> int \<Rightarrow> (unit, GeminiService) js" where
  "updateQuotaUsage rt clk toks =
     js_then
       (js_modify (\<lambda>s. s\<lparr>dailyCallCount := dailyCallCount s + 1\<rparr>))
       (js_then
          (js_modify (\<lambda>s. s\<lparr>dailyTokenCount := dailyTokenCount s + toks\<rparr>))
          (js_then
             (js_modify (\<lambda>s. s\<lparr>callHistory :=
                 callHistory s @ [\<lparr>timestamp = now_ms clk, tokens = toks\<rparr>]\<rparr>))
             (js_then
                (js_modify (\<lambda>s. s\<lparr>callHistory := keep_last_60 (callHistory s)\<rparr>))
                (saveDailyStats rt))))"

text \<open>The remainder \<open>a % b\<close> of JavaScript on integers: it takes the sign of \<open>a\<close>.\<close>

definition js_rem :: "int \<Rightarrow> int \<Rightarrow> int" where
  "js_rem a b = sgn a * (\<bar>a\<bar> mod \<bar>b\<bar>)"

definition getNextResetTime :: "Clock \<Rightarrow> string" where
  "getNextResetTime clk =
     (let timeUntilReset = until_midnight_ms clk;
          hours = \<lfloor>(of_int timeUntilReset :: rat) / (1000 * 60 * 60)\<rfloor>;
          minutes = \<lfloor>(of_int (js_rem timeUntilReset (1000 * 60 * 60)) :: rat) / (1000 * 60)\<rfloor>
      in show_int hours @ ''h '' @ show_int minutes @ ''m until quota reset'')"

record QuotaStatus =
  status_dailyCallCount :: int
  status_dailyCallLimit :: int
  status_dailyTokenCount :: int
  status_dailyTokenLimit :: int
  callsRemaining :: int
  tokensRemaining :: int
  status_isQuotaExceeded :: bool
  nextReset :: string
  rateLimitInfo :: string

definition getQuotaStatus :: "Runtime \<Rightarrow> Clock \<Rightarrow> (QuotaStatus, GeminiService) js" where
  "getQuotaStatus rt clk =
     js_then (resetDailyStatsIfNeeded rt clk)
       (js_read (\<lambda>s.
          \<lparr>status_dailyCallCount = dailyCallCount s,
           status_dailyCallLimit = DAILY_CALL_LIMIT,
           status_dailyTokenCount = dailyTokenCount s,
           status_dailyTokenLimit = DAILY_TOKEN_LIMIT,
           callsRemaining = max 0 (DAILY_CALL_LIMIT - dailyCallCount s),
           tokensRemaining = max 0 (DAILY_TOKEN_LIMIT - dailyTokenCount s),
           status_isQuotaExceeded = isQuotaExceeded s,
           nextReset = getNextResetTime clk,
           rateLimitInfo = ''Maximum '' @ show_int CALLS_PER_MINUTE @ '' call per minute''\<rparr>))"

definition resetQuota :: "Runtime \<Rightarrow> (unit, GeminiService) js" where
  "resetQuota rt =
     js_then
       (js_modify (\<lambda>s. s\<lparr>dailyCallCount := 0, dailyTokenCount := 0, isQuotaExceeded := False,
                            callHistory := []\<rparr>))
       (saveDailyStats rt)"

definition isConfigured :: "GeminiService \<Rightarrow> bool" where
  "isConfigured s = (hasGenAI s \<and> hasModel s \<and> apiKeyValid s)"

subsection \<open>Loading the persisted record\<close>

text \<open>
  \<open>loadDailyStats\<close> assigns what \<open>JSON.parse\<close> delivered to the four persisted fields.
  TypeScript's annotations are erased when the code runs and \<open>stats\<close> has type \<open>any\<close>, so
  after loading a field holds whatever value the stored text gave it; the fields are
  therefore modelled here as JavaScript values. \<open>initial_fields\<close> are the field
  initialisers of the class, which is the state the constructor calls \<open>loadDailyStats\<close> in.
\<close>

record StatsFields =
  loaded_dailyCallCount :: jsval
  loaded_dailyTokenCount :: jsval
  loaded_lastResetDate :: jsval
  loaded_isQuotaExceeded :: jsval

definition initial_fields :: "Clock \<Rightarrow> StatsFields" where
  "initial_fields clk =
     \<lparr>loaded_dailyCallCount = JNum 0, loaded_dailyTokenCount = JNum 0,
      loaded_lastResetDate = JStr (toDateString clk), loaded_isQuotaExceeded = JBool False\<rparr>"

definition js_lift :: "error + 'a \<Rightarrow> ('a, 's) js" where
  "js_lift r = (\<lambda>s. (r, s))"

text \<open>Reading the property \<open>name\<close> of a parsed value: \<open>null.name\<close> throws a TypeError, an
  object gives the property or \<open>undefined\<close>, and a boolean, number, string or array has
  none of the property names used here.\<close>

fun get_prop :: "jsval \<Rightarrow> string \<Rightarrow> error + jsval option" where
  "get_prop JNull name = Inl (TypeError (''Cannot read properties of null (reading '' @ name @ '')''))"
| "get_prop (JObj kvs) name = Inr (map_of kvs name)"
| "get_prop v name = Inr None"

fun truthy :: "jsval \<Rightarrow> bool" where
  "truthy JNull = False"
| "truthy (JBool b) = b"
| "truthy (JNum q) = (q \<noteq> 0)"
| "truthy (JStr str) = (str \<noteq> [])"
| "truthy (JArr xs) = True"
| "truthy (JObj kvs) = True"

text \<open>\<open>x || d\<close>.\<close>

definition js_or :: "jsval option \<Rightarrow> jsval \<Rightarrow> jsval" where
  "js_or x d = (case x of None \<Rightarrow> d | Some v \<Rightarrow> if truthy v then v else d)"

definition loadDailyStats :: "Runtime \<Rightarrow> Clock \<Rightarrow> LocalStorage \<Rightarrow> (unit, StatsFields) js" where
  "loadDailyStats rt clk store =
     js_try
       (js_bind (js_lift (getItem store stats_key)) (\<lambda>saved.
          case saved of
            None \<Rightarrow> js_return ()
          | Some text \<Rightarrow>
              if text = [] then js_return ()
              else
                js_bind (js_lift (JSON_parse rt text)) (\<lambda>stats.
                js_bind (js_lift (get_prop stats ''callCount'')) (\<lambda>c.
                js_then (js_modify (\<lambda>f. f\<lparr>loaded_dailyCallCount := js_or c (JNum 0)\<rparr>))
               (js_bind (js_lift (get_prop stats ''tokenCount'')) (\<lambda>t.
                js_then (js_modify (\<lambda>f. f\<lparr>loaded_dailyTokenCount := js_or t (JNum 0)\<rparr>))
               (js_bind (js_lift (get_prop stats ''lastResetDate'')) (\<lambda>d.
                js_then (js_modify (\<lambda>f. f\<lparr>loaded_lastResetDate := js_or d (JStr (toDateString clk))\<rparr>))
               (js_bind (js_lift (get_prop stats ''isQuotaExceeded'')) (\<lambda>q.
                js_modify (\<lambda>f. f\<lparr>loaded_isQuotaExceeded := js_or q (JBool False)\<rparr>)))))))))))
       (\<lambda>e. js_return ())"

subsection \<open>Calls to the provider\<close>

datatype Side = pro | con

text \<open>\<open>Number(v)\<close>, \<open>x || 0\<close> on a number, \<open>Math.min\<close> and \<open>Math.max\<close> of two numbers.\<close>

fun Number :: "Runtime \<Rightarrow> jsval option \<Rightarrow> jsnum" where
  "Number rt None = NaN"
| "Number rt (Some JNull) = Fin 0"
| "Number rt (Some (JBool b)) = Fin (if b then 1 else 0)"
| "Number rt (Some (JNum q)) = Fin q"
| "Number rt (Some (JStr str)) = StringToNumber rt str"
| "Number rt (Some v) = ObjectToNumber rt v"

fun or_zero :: "jsnum \<Rightarrow> jsnum" where
  "or_zero NaN = Fin 0"
| "or_zero (Fin q) = (if q = 0 then Fin 0 else Fin q)"
| "or_zero n = n"

fun Math_min :: "jsnum \<Rightarrow> jsnum \<Rightarrow> jsnum" where
  "Math_min NaN b = NaN"
| "Math_min a NaN = NaN"
| "Math_min NegInfinity b = NegInfinity"
| "Math_min a NegInfinity = NegInfinity"
| "Math_min Infinity b = b"
| "Math_min a Infinity = a"
| "Math_min (Fin x) (Fin y) = Fin (min x y)"

fun Math_max :: "jsnum \<Rightarrow> jsnum \<Rightarrow> jsnum" where
  "Math_max NaN b = NaN"
| "Math_max a NaN = NaN"
| "Math_max Infinity b = Infinity"
| "Math_max a Infinity = Infinity"
| "Math_max NegInfinity b = b"
| "Math_max a NegInfinity = a"
| "Math_max (Fin x) (Fin y) = Fin (max x y)"

text \<open>\<open>s.split(sep)\<close> for a non-empty separator.\<close>

fun split_from :: "string \<Rightarrow> nat \<Rightarrow> string \<Rightarrow> string \<Rightarrow> string list" where
  "split_from sep skip acc [] = [rev acc]"
| "split_from sep skip acc (c # cs) =
     (if skip > 0 then split_from sep (skip - 1) acc cs
      else if sep \<noteq> [] \<and> prefix sep (c # cs)
        then rev acc # split_from sep (length sep - 1) [] cs
      else split_from sep 0 (c # acc) cs)"

definition split :: "string \<Rightarrow> string \<Rightarrow> string list" where
  "split sep str = split_from sep 0 [] str"

record Feedback =
  score :: jsnum
  strengths :: "jsval list"
  improvements :: "jsval list"
  fallaciesDetected :: "jsval list"
  suggestions :: "jsval list"

text \<open>
  The prompt texts are long template literals whose wording enters the service only
  through their length (the token estimate) and as the argument of \<open>generateContent\<close>;
  they are taken as parameters, and so are the three regular-expression replacements
  that strip call ids from a debate response.
\<close>

record Templates =
  buildAdvancedDebatePrompt :: "string \<Rightarrow> string \<Rightarrow> Side \<Rightarrow> int \<Rightarrow> string list \<Rightarrow> string \<Rightarrow> string"
  feedbackPrompt :: "string \<Rightarrow> string \<Rightarrow> Side \<Rightarrow> int \<Rightarrow> string \<Rightarrow> string"
  removeCallIds :: "string \<Rightarrow> string"

text \<open>
  \<open>await this.model.generateContent(prompt)\<close> followed by \<open>response.text()\<close>: the provider
  answers with a text or the call fails with an error. \<open>gen\<close> is the provider; every
  invocation is recorded in \<open>generateContent_log\<close>.
\<close>

definition call_provider :: "(string \<Rightarrow> error + string) \<Rightarrow> string \<Rightarrow> (string, GeminiService) js" where
  "call_provider gen prompt =
     (\<lambda>s. (gen prompt, s\<lparr>generateContent_log := generateContent_log s @ [prompt]\<rparr>))"

definition tag :: "string \<Rightarrow> string" where
  "tag callId = ''['' @ callId @ ''] ''"

definition reason_text :: "QuotaCheck \<Rightarrow> string" where
  "reason_text q = (case reason q of Some r \<Rightarrow> r | None \<Rightarrow> ''undefined'')"

definition estimateTokens :: "string \<Rightarrow> string \<Rightarrow> int" where
  "estimateTokens prompt text = \<lceil>(of_nat (length prompt + length text) :: rat) / 4\<rceil>"

definition invalidate_key :: "(unit, GeminiService) js" where
  "invalidate_key = js_modify (\<lambda>s. s\<lparr>apiKeyValid := False, hasGenAI := False, hasModel := False\<rparr>)"

definition message_or :: "error \<Rightarrow> string \<Rightarrow> string" where
  "message_or e d = (if message e \<noteq> [] then message e else d)"

definition debate_catch :: "string \<Rightarrow> error \<Rightarrow> (string, GeminiService) js" where
  "debate_catch callId e =
     (let m = message e in
      if str_includes m ''API key not valid'' \<or> str_includes m ''API_KEY_INVALID'' then
        js_then invalidate_key
          (js_throw (Error (tag callId @ ''Invalid API key. Please check your API key and try again.'')))
      else if str_includes m ''quota'' \<or> str_includes m ''limit'' then
        js_throw (Error (tag callId @ ''API quota exceeded. Please check your API usage limits.''))
      else if str_includes m ''network'' \<or> str_includes m ''fetch'' then
        js_throw (Error (tag callId
          @ ''Network error connecting to API. Please check your internet connection.''))
      else js_throw (Error (tag callId @ ''AI API error: '' @ message_or e ''Unknown error occurred'')))"

text \<open>
  The asynchronous methods are run to completion: \<open>clk\<close> is the clock when the method is
  called, \<open>clk_done\<close> the clock when the provider has answered.
\<close>

definition generateDebateResponse ::
  "Templates \<Rightarrow> Runtime \<Rightarrow> Clock \<Rightarrow> Clock \<Rightarrow> (string \<Rightarrow> error + string)
     \<Rightarrow> string \<Rightarrow> string \<Rightarrow> Side \<Rightarrow> int \<Rightarrow> string list \<Rightarrow> (string, GeminiService) js" where
  "generateDebateResponse tp rt clk clk_done gen topic userArgument aiSide round_no history =
     js_then (js_modify (\<lambda>s. s\<lparr>callCount := callCount s + 1\<rparr>))
    (js_bind (js_read callCount) (\<lambda>n.
       let callId = ''CALL-'' @ show_int n @ ''-'' @ show_int (now_ms clk) in
       js_bind (js_read isConfigured) (\<lambda>configured.
         if \<not> configured then
           js_throw (Error (tag callId
             @ ''AI API not configured. Please add your API key to enable AI responses.''))
         else
           js_bind (checkQuotaLimits rt clk) (\<lambda>quotaCheck.
             if \<not> canMakeCall quotaCheck then
               js_throw (Error (tag callId @ reason_text quotaCheck))
             else
               js_try
                 (let prompt = buildAdvancedDebatePrompt tp topic userArgument aiSide round_no
                                 history callId in
                  js_bind (call_provider gen prompt) (\<lambda>text.
                    if text = [] \<or> length (String_trim rt text) = 0 then
                      js_throw (Error (tag callId @ ''Empty response from AI API''))
                    else
                      let cleanedText = removeCallIds tp (String_trim rt text);
                          estimatedTokens = estimateTokens prompt text
                      in js_then (updateQuotaUsage rt clk_done estimatedTokens)
                           (js_return cleanedText)))
                 (debate_catch callId)))))"

text \<open>The text between the Markdown fences of the answer, if it has them.\<close>

definition fence :: string where
  "fence = replicate 3 (CHR 0x60)"

definition extract_json :: "Runtime \<Rightarrow> string \<Rightarrow> error + string" where
  "extract_json rt text =
     (let after = (\<lambda>parts.
            case parts of
              _ # p # _ \<Rightarrow>
                (case split fence p of
                   q # _ \<Rightarrow> Inr (String_trim rt q)
                 | [] \<Rightarrow> Inl (TypeError ''Cannot read properties of undefined (reading trim)''))
            | _ \<Rightarrow> Inl (TypeError ''Cannot read properties of undefined (reading split)''))
      in if str_includes text (fence @ ''json'') then after (split (fence @ ''json'') text)
         else if str_includes text fence then after (split fence text)
         else Inr text)"

text \<open>\<open>Array.isArray(v) ? v.slice(0, 3) : []\<close> and \<open>Array.isArray(v) ? v : []\<close>.\<close>

definition array_slice3 :: "jsval option \<Rightarrow> jsval list" where
  "array_slice3 v = (case v of Some (JArr xs) \<Rightarrow> take 3 xs | _ \<Rightarrow> [])"

definition array_or_empty :: "jsval option \<Rightarrow> jsval list" where
  "array_or_empty v = (case v of Some (JArr xs) \<Rightarrow> xs | _ \<Rightarrow> [])"

definition sum_bind :: "error + 'a \<Rightarrow> ('a \<Rightarrow> error + 'b) \<Rightarrow> error + 'b" where
  "sum_bind r f = (case r of Inl e \<Rightarrow> Inl e | Inr x \<Rightarrow> f x)"

definition validatedFeedback :: "Runtime \<Rightarrow> jsval \<Rightarrow> error + Feedback" where
  "validatedFeedback rt feedback =
     sum_bind (get_prop feedback ''score'') (\<lambda>sc.
     sum_bind (get_prop feedback ''strengths'') (\<lambda>st.
     sum_bind (get_prop feedback ''improvements'') (\<lambda>im.
     sum_bind (get_prop feedback ''fallaciesDetected'') (\<lambda>fa.
     sum_bind (get_prop feedback ''suggestions'') (\<lambda>su.
       Inr \<lparr>score = Math_max (Fin 0) (Math_min (Fin 100) (or_zero (Number rt sc))),
            strengths = array_slice3 st,
            improvements = array_slice3 im,
            fallaciesDetected = array_or_empty fa,
            suggestions = array_slice3 su\<rparr>)))))"

definition parse_feedback :: "Runtime \<Rightarrow> string \<Rightarrow> error + Feedback" where
  "parse_feedback rt text =
     sum_bind (extract_json rt text) (\<lambda>jsonText.
     sum_bind (JSON_parse rt jsonText) (\<lambda>feedback.
       validatedFeedback rt feedback))"

definition feedback_catch :: "string \<Rightarrow> error \<Rightarrow> (Feedback, GeminiService) js" where
  "feedback_catch callId e =
     (let m = message e in
      if str_includes m ''API key not valid'' \<or> str_includes m ''API_KEY_INVALID'' then
        js_then invalidate_key
          (js_throw (Error (tag callId @ ''Invalid API key. Please check your API key and try again.'')))
      else if str_includes m ''quota'' \<or> str_includes m ''limit'' then
        js_throw (Error (tag callId @ ''API quota exceeded. Please check your API usage limits.''))
      else if str_includes m ''parse'' \<or> str_includes m ''JSON'' then
        js_throw (Error (tag callId @ ''Failed to parse feedback from AI API. Please try again.''))
      else js_throw (Error (tag callId @ ''AI API feedback error: ''
             @ message_or e ''Unknown error occurred'')))"

definition analyzeFeedback ::
  "Templates \<Rightarrow> Runtime \<Rightarrow> Clock \<Rightarrow> Clock \<Rightarrow> (string \<Rightarrow> error + string)
     \<Rightarrow> string \<Rightarrow> string \<Rightarrow> Side \<Rightarrow> int \<Rightarrow> (Feedback, GeminiService) js" where
  "analyzeFeedback tp rt clk clk_done gen userArgument topic userSide round_no =
     js_then (js_modify (\<lambda>s. s\<lparr>callCount := callCount s + 1\<rparr>))
    (js_bind (js_read callCount) (\<lambda>n.
       let callId = ''FEEDBACK-'' @ show_int n @ ''-'' @ show_int (now_ms clk) in
       js_bind (js_read isConfigured) (\<lambda>configured.
         if \<not> configured then
           js_throw (Error (tag callId
             @ ''AI API not configured. Please add your API key to enable AI feedback analysis.''))
         else
           js_bind (checkQuotaLimits rt clk) (\<lambda>quotaCheck.
             if \<not> canMakeCall quotaCheck then
               js_throw (Error (tag callId @ reason_text quotaCheck))
             else
               js_try
                 (let prompt = feedbackPrompt tp userArgument topic userSide round_no callId in
                  js_bind (call_provider gen prompt) (\<lambda>raw.
                    let text = String_trim rt raw;
                        estimatedTokens = estimateTokens prompt text
                    in js_then (updateQuotaUsage rt clk_done estimatedTokens)
                         (js_try (js_lift (parse_feedback rt text))
                            (\<lambda>parseError. js_throw (Error (tag callId
                               @ ''Failed to parse feedback from AI API. Please try again.''))))))
                 (feedback_catch callId)))))"

section \<open>The turn state machine: component PracticeDebate\<close>

text \<open>
  The component's state is the tuple of its \<open>useState\<close> cells. A handler runs to its
  first \<open>await\<close> or to its end, and what it leaves in flight (a call to the service, a
  timer, a speech recognition, an utterance) is returned with the new state; the code
  after an \<open>await\<close> is a handler of its own, which runs when the call settles. A handler
  reads the cells of the render it was created in: that render is the argument \<open>snap\<close>
  of a handler that runs later than the render (a continuation, a timer, the \<open>onresult\<close>
  of a recognition), and it is the current state for a handler that the user triggers
  on the screen. What a handler writes goes to the current state \<open>st\<close>.

  The cells below are the ones that the handlers of a debate read or write. The cells
  of the topic chooser on the set-up screen (\<open>topicInput\<close>, \<open>suggestedTopics\<close>,
  \<open>topicValidation\<close> and the flags of its own calls to the service), \<open>speakingId\<close>,
  \<open>isRecording\<close>, \<open>recordingError\<close>, \<open>speechLang\<close>, \<open>aiSpeechSpeed\<close> and the confidence
  metrics of the webcam are left out: no handler of a debate reads them, except that
  the start button also waits for \<open>topicValidation\<close>; \<open>aiSpeechUtter\<close> is kept as the flag
  that it holds an utterance.
\<close>

datatype Speaker = user | ai

datatype DebateFormat = text_speech | direct_speech | webcam_speech

record DebateMessage =
  msg_id :: string
  speaker :: Speaker
  content :: string
  msg_timestamp :: int
  feedback :: "Feedback option"

record PracticeDebate =
  topic :: string
  userSide :: Side
  debateStarted :: bool
  messages :: "DebateMessage list"
  currentMessage :: string
  timeRemaining :: int
  argumentCount :: int
  userTurn :: bool
  debateEnded :: bool
  finalFeedback :: "Feedback option"
  isAiThinking :: bool
  aiConfigured :: bool
  apiError :: "string option"
  debateFormat :: DebateFormat
  directSpeechTurn :: Speaker
  showFirstInstruction :: bool
  isDirectRecording :: bool
  aiSpeech :: string
  aiSpeaking :: bool
  aiSpeechUtter :: bool

text \<open>
  What can be in flight. A call to the service carries the render that its continuation
  reads (\<open>AnalyzeFeedbackCall\<close>, \<open>WebcamFeedbackCall\<close>) or the arguments of the call;
  \<open>GenerateAIResponseTimer\<close> is the \<open>setTimeout\<close> that will call \<open>generateAIResponse\<close> of the
  render \<open>snap\<close>; a recognition carries the render in which it was started, whose handler
  its \<open>onresult\<close> keeps; \<open>TickTimer n\<close> is the countdown's \<open>setTimeout\<close> set in a render
  with \<open>timeRemaining = n\<close>.
\<close>

datatype in_flight =
    AnalyzeFeedbackCall PracticeDebate
  | GenerateAIResponseTimer PracticeDebate string int "string list"
  | GenerateDebateResponseCall string string Side int "string list"
  | WebcamRecognition PracticeDebate
  | WebcamFeedbackCall PracticeDebate string "jsval list"
  | DirectRecognition PracticeDebate
  | DirectSpeechCall string string Side int
  | MicRecognition
  | Utterance
  | TickTimer int
  | OnCompleteTimer jsnum

text \<open>The state of the first render: the defaults of the \<open>useState\<close> cells, with
  \<open>aiConfigured\<close> as the effect of the mount sets it (an API key is present or not).\<close>

definition mount :: "bool \<Rightarrow> PracticeDebate" where
  "mount key_present =
     \<lparr>topic = [], userSide = pro, debateStarted = False, messages = [], currentMessage = [],
      timeRemaining = 300, argumentCount = 0, userTurn = True, debateEnded = False,
      finalFeedback = None, isAiThinking = False, aiConfigured = key_present, apiError = None,
      debateFormat = text_speech, directSpeechTurn = user, showFirstInstruction = True,
      isDirectRecording = False, aiSpeech = [], aiSpeaking = False, aiSpeechUtter = False\<rparr>"

text \<open>The arguments of the \<open>geminiService.analyzeFeedback\<close> call that \<open>sendMessage\<close>
  makes in the render \<open>snap\<close>.\<close>

definition analyzeFeedback_args :: "PracticeDebate \<Rightarrow> string \<times> string \<times> Side \<times> int" where
  "analyzeFeedback_args snap = (currentMessage snap, topic snap, userSide snap, argumentCount snap + 1)"

definition sendMessage :: "Runtime \<Rightarrow> PracticeDebate \<Rightarrow> PracticeDebate \<times> in_flight list" where
  "sendMessage rt st =
     (if String_trim rt (currentMessage st) = [] \<or> \<not> userTurn st then (st, [])
      else (st\<lparr>userTurn := False, apiError := None, argumentCount := argumentCount st + 1\<rparr>,
            [AnalyzeFeedbackCall st]))"

definition speaker_name :: "Speaker \<Rightarrow> string" where
  "speaker_name sp = (case sp of user \<Rightarrow> ''user'' | ai \<Rightarrow> ''ai'')"

text \<open>After \<open>await geminiService.analyzeFeedback(...)\<close> has returned \<open>fb\<close>.\<close>

definition sendMessage_fulfilled ::
  "PracticeDebate \<Rightarrow> Clock \<Rightarrow> Feedback \<Rightarrow> PracticeDebate \<Rightarrow> PracticeDebate \<times> in_flight list" where
  "sendMessage_fulfilled snap clk fb st =
     (let userMessage = \<lparr>msg_id = show_int (now_ms clk), speaker = user,
                           content = currentMessage snap, msg_timestamp = now_ms clk,
                           feedback = Some fb\<rparr>;
          messageHistory = map (\<lambda>m. speaker_name (speaker m) @ '': '' @ content m) (messages snap)
                             @ [''user: '' @ currentMessage snap]
      in (st\<lparr>messages := messages st @ [userMessage], currentMessage := []\<rparr>,
          [GenerateAIResponseTimer snap (currentMessage snap) (argumentCount snap + 1)
             messageHistory]))"

text \<open>The \<open>catch\<close> branch of \<open>sendMessage\<close>: \<open>analyzeFeedback\<close> has thrown \<open>err\<close>.\<close>

definition sendMessage_rejected ::
  "PracticeDebate \<Rightarrow> Clock \<Rightarrow> error \<Rightarrow> PracticeDebate \<Rightarrow> PracticeDebate \<times> in_flight list" where
  "sendMessage_rejected snap clk err st =
     (let userMessage = \<lparr>msg_id = show_int (now_ms clk), speaker = user,
                           content = currentMessage snap, msg_timestamp = now_ms clk,
                           feedback = Some \<lparr>score = Fin 0, strengths = [], improvements = [],
                             fallaciesDetected = [],
                             suggestions = [JStr ''Unable to analyze - please check your Gemini API key'']\<rparr>\<rparr>
      in (st\<lparr>apiError := Some (message_or err ''Failed to analyze your message''),
              messages := messages st @ [userMessage], currentMessage := [], userTurn := True\<rparr>,
          []))"

definition other_side :: "Side \<Rightarrow> Side" where
  "other_side sd = (if sd = pro then con else pro)"

text \<open>\<open>generateAIResponse\<close> of the render \<open>snap\<close>, up to its \<open>await\<close>.\<close>

definition generateAIResponse ::
  "PracticeDebate \<Rightarrow> string \<Rightarrow> int \<Rightarrow> string list \<Rightarrow> PracticeDebate
     \<Rightarrow> PracticeDebate \<times> in_flight list" where
  "generateAIResponse snap userArgument currentArgument history st =
     (st\<lparr>isAiThinking := True, apiError := None\<rparr>,
      [GenerateDebateResponseCall (topic snap) userArgument (other_side (userSide snap))
         currentArgument history])"

text \<open>\<open>generateAIResponse\<close> after \<open>generateDebateResponse\<close> has returned \<open>response\<close>;
  \<open>random\<close> is the value of \<open>Math.random()\<close>.\<close>

definition generateAIResponse_fulfilled ::
  "Clock \<Rightarrow> rat \<Rightarrow> string \<Rightarrow> PracticeDebate \<Rightarrow> PracticeDebate \<times> in_flight list" where
  "generateAIResponse_fulfilled clk random response st =
     (let aiFeedback = \<lparr>score = Fin (of_int \<lfloor>random * 10\<rfloor> + 90),
                          strengths = [JStr ''Well-structured argument'', JStr ''Strong evidence'',
                                       JStr ''Clear reasoning''],
                          improvements = [JStr ''Could expand on examples''],
                          fallaciesDetected = [],
                          suggestions = [JStr ''Continue with strong rebuttals'']\<rparr>;
          aiMessage = \<lparr>msg_id = show_int (now_ms clk), speaker = ai, content = response,
                         msg_timestamp = now_ms clk, feedback = Some aiFeedback\<rparr>
      in (st\<lparr>messages := messages st @ [aiMessage], userTurn := True, isAiThinking := False\<rparr>, []))"

text \<open>The warning sign that opens the text of an error entry (U+26A0 U+FE0F, in UTF-8).\<close>

definition warning_sign :: string where
  "warning_sign = [CHR 0xE2, CHR 0x9A, CHR 0xA0, CHR 0xEF, CHR 0xB8, CHR 0x8F]"

text \<open>The \<open>catch\<close> branch of \<open>generateAIResponse\<close>.\<close>

definition generateAIResponse_rejected ::
  "Clock \<Rightarrow> error \<Rightarrow> PracticeDebate \<Rightarrow> PracticeDebate \<times> in_flight list" where
  "generateAIResponse_rejected clk err st =
     (let errorMessage = \<lparr>msg_id = show_int (now_ms clk), speaker = ai,
                            content = warning_sign @ '' AI Response Error: ''
                              @ message_or err ''Unable to generate response'',
                            msg_timestamp = now_ms clk,
                            feedback = Some \<lparr>score = Fin 0, strengths = [], improvements = [],
                              fallaciesDetected = [],
                              suggestions = [JStr ''Please check your Gemini API key and try again'']\<rparr>\<rparr>
      in (st\<lparr>apiError := Some (message_or err ''Failed to generate AI response''),
              userTurn := True, messages := messages st @ [errorMessage],
              isAiThinking := False\<rparr>, []))"

text \<open>
  \<open>endDebate\<close> sets the final feedback and schedules \<open>onComplete\<close> with the experience
  points. Both are computed from the transcript in floating-point arithmetic (a rounded
  mean of the scores); that scoring is application policy and is taken as a parameter.
\<close>

record Scoring =
  summarise :: "DebateMessage list \<Rightarrow> Feedback"
  totalXP :: "DebateMessage list \<Rightarrow> jsnum"

definition endDebate :: "Scoring \<Rightarrow> PracticeDebate \<Rightarrow> PracticeDebate \<times> in_flight list" where
  "endDebate sc st =
     (st\<lparr>debateEnded := True, userTurn := False, finalFeedback := Some (summarise sc (messages st))\<rparr>,
      [OnCompleteTimer (totalXP sc (messages st))])"

text \<open>The countdown: the body of the effect with the dependencies \<open>timeRemaining\<close>,
  \<open>debateStarted\<close> and \<open>debateEnded\<close>, and the timer it sets, which writes the
  \<open>timeRemaining\<close> of its render less 1.\<close>

definition timer_effect :: "Scoring \<Rightarrow> PracticeDebate \<Rightarrow> PracticeDebate \<times> in_flight list" where
  "timer_effect sc st =
     (if debateStarted st \<and> \<not> debateEnded st \<and> timeRemaining st > 0
      then (st, [TickTimer (timeRemaining st)])
      else if timeRemaining st = 0 \<and> debateStarted st then endDebate sc st
      else (st, []))"

definition tick :: "int \<Rightarrow> PracticeDebate \<Rightarrow> PracticeDebate" where
  "tick n st = st\<lparr>timeRemaining := n - 1\<rparr>"

definition startDebate :: "PracticeDebate \<Rightarrow> PracticeDebate \<times> in_flight list" where
  "startDebate st =
     (if topic st = [] then (st, [])
      else if \<not> aiConfigured st then
        (st\<lparr>apiError := Some
           ''Gemini API key required for AI debate responses. Please add your API key first.''\<rparr>, [])
      else (st\<lparr>debateStarted := True, messages := [], argumentCount := 0,
                userTurn := (userSide st = pro), apiError := None\<rparr>,
            if userSide st = con then [GenerateAIResponseTimer st [] 1 []] else []))"

definition resetDebate :: "PracticeDebate \<Rightarrow> PracticeDebate" where
  "resetDebate st =
     st\<lparr>debateStarted := False, debateEnded := False, messages := [], currentMessage := [],
        timeRemaining := 300, argumentCount := 0, userTurn := True, finalFeedback := None,
        isAiThinking := False, apiError := None, topic := [], userSide := pro\<rparr>"

text \<open>The microphone of the text format: \<open>onresult\<close> of the recognition that
  \<open>startRecording\<close> starts adds the transcript to the text box.\<close>

definition mic_onresult :: "string \<Rightarrow> PracticeDebate \<Rightarrow> PracticeDebate" where
  "mic_onresult transcript st =
     st\<lparr>currentMessage := (if currentMessage st \<noteq> [] then currentMessage st @ '' '' @ transcript
                            else transcript)\<rparr>"

text \<open>
  The webcam format. \<open>handleWebcamSpeechDetected\<close> is passed to the component
  \<open>WebcamDebate\<close>, whose continuous recognition calls the handler of the render in which
  the recording was started, with the final transcript and the suggestions of its
  confidence metrics. Its own canned reply comes back through \<open>onAISpeech\<close>.
\<close>

definition handleWebcamSpeechDetected ::
  "Runtime \<Rightarrow> PracticeDebate \<Rightarrow> string \<Rightarrow> jsval list \<Rightarrow> PracticeDebate
     \<Rightarrow> PracticeDebate \<times> in_flight list" where
  "handleWebcamSpeechDetected rt snap transcript confidence_suggestions st =
     (if String_trim rt transcript = [] \<or> \<not> userTurn snap then (st, [])
      else (st\<lparr>userTurn := False, apiError := None, argumentCount := argumentCount snap + 1\<rparr>,
            [WebcamFeedbackCall snap transcript confidence_suggestions]))"

definition handleWebcamSpeechDetected_fulfilled ::
  "PracticeDebate \<Rightarrow> string \<Rightarrow> jsval list \<Rightarrow> Clock \<Rightarrow> Feedback \<Rightarrow> PracticeDebate
     \<Rightarrow> PracticeDebate \<times> in_flight list" where
  "handleWebcamSpeechDetected_fulfilled snap transcript confidence_suggestions clk fb st =
     (let enhancedFeedback = fb\<lparr>suggestions := suggestions fb @ confidence_suggestions\<rparr>;
          userMessage = \<lparr>msg_id = show_int (now_ms clk), speaker = user, content = transcript,
                           msg_timestamp = now_ms clk, feedback = Some enhancedFeedback\<rparr>
      in (st\<lparr>messages := messages st @ [userMessage], currentMessage := []\<rparr>,
          [GenerateAIResponseTimer snap transcript (argumentCount snap + 1)
             (map content (messages snap))]))"

definition handleWebcamSpeechDetected_rejected ::
  "error \<Rightarrow> PracticeDebate \<Rightarrow> PracticeDebate \<times> in_flight list" where
  "handleWebcamSpeechDetected_rejected err st =
     (st\<lparr>apiError := Some (message_or err ''Failed to analyze speech''), userTurn := True\<rparr>, [])"

definition onAISpeech :: "Clock \<Rightarrow> string \<Rightarrow> PracticeDebate \<Rightarrow> PracticeDebate" where
  "onAISpeech clk aiResponse st =
     st\<lparr>messages := messages st @ [\<lparr>msg_id = show_int (now_ms clk), speaker = ai,
          content = aiResponse, msg_timestamp = now_ms clk, feedback = None\<rparr>]\<rparr>"

text \<open>
  The direct-speech format, in a browser with speech recognition. \<open>startDirectRecording\<close>
  starts a recognition; its \<open>onresult\<close> calls \<open>generateDebateResponse\<close> itself, with
  \<open>topic\<close>, \<open>userSide\<close> and \<open>argumentCount\<close> of the render of the click, and writes neither
  \<open>userTurn\<close> nor \<open>messages\<close>. The call is not inside a \<open>try\<close>: when it throws, the rest
  of \<open>onresult\<close> does not run. \<open>playAiSpeech\<close> speaks the answer; when the utterance
  ends (or is cancelled by the next one) the turn goes back to the user.
\<close>

definition startDirectRecording :: "PracticeDebate \<Rightarrow> PracticeDebate \<times> in_flight list" where
  "startDirectRecording st = (st\<lparr>isDirectRecording := True\<rparr>, [DirectRecognition st])"

definition direct_onresult ::
  "PracticeDebate \<Rightarrow> string \<Rightarrow> PracticeDebate \<Rightarrow> PracticeDebate \<times> in_flight list" where
  "direct_onresult snap transcript st =
     (st\<lparr>isDirectRecording := False, showFirstInstruction := False, directSpeechTurn := ai\<rparr>,
      [DirectSpeechCall (topic snap) transcript (other_side (userSide snap))
         (argumentCount snap + 1)])"

definition playAiSpeech :: "PracticeDebate \<Rightarrow> PracticeDebate \<times> in_flight list" where
  "playAiSpeech st = (st\<lparr>aiSpeaking := True, aiSpeechUtter := True\<rparr>, [Utterance])"

definition direct_onresult_fulfilled ::
  "string \<Rightarrow> PracticeDebate \<Rightarrow> PracticeDebate \<times> in_flight list" where
  "direct_onresult_fulfilled aiResponse st =
     playAiSpeech (st\<lparr>aiSpeech := aiResponse, argumentCount := argumentCount st + 1\<rparr>)"

definition direct_onend :: "PracticeDebate \<Rightarrow> PracticeDebate" where
  "direct_onend st = st\<lparr>isDirectRecording := False\<rparr>"

definition utterance_onend :: "PracticeDebate \<Rightarrow> PracticeDebate" where
  "utterance_onend st = st\<lparr>aiSpeaking := False, directSpeechTurn := user, aiSpeechUtter := False\<rparr>"

definition handleAiReplay :: "PracticeDebate \<Rightarrow> PracticeDebate \<times> in_flight list" where
  "handleAiReplay st = (if aiSpeech st \<noteq> [] then playAiSpeech st else (st, []))"

definition handleAiSpeedChange :: "PracticeDebate \<Rightarrow> PracticeDebate \<times> in_flight list" where
  "handleAiSpeedChange st =
     (if aiSpeaking st \<and> aiSpeechUtter st then playAiSpeech st else (st, []))"

section \<open>Runs of the governor and example values\<close>

text \<open>A sequence of \<open>updateQuotaUsage\<close> calls, each with the clock it runs at and its
  token amount, and the entry that such a call pushes onto \<open>callHistory\<close>.\<close>

fun recordUsages :: "Runtime \<Rightarrow> (Clock \<times> int) list \<Rightarrow> (unit, GeminiService) js" where
  "recordUsages rt [] = js_return ()"
| "recordUsages rt ((clk, toks) # rest) =
     js_then (updateQuotaUsage rt clk toks) (recordUsages rt rest)"

definition entry :: "Clock \<times> int \<Rightarrow> Call" where
  "entry c = \<lparr>timestamp = now_ms (fst c), tokens = snd c\<rparr>"

definition last_n :: "nat \<Rightarrow> 'a list \<Rightarrow> 'a list" where
  "last_n n xs = drop (length xs - n) xs"

text \<open>The state that \<open>resetDailyStatsIfNeeded\<close> leaves when the date has changed.\<close>

definition rolled_over :: "Runtime \<Rightarrow> Clock \<Rightarrow> GeminiService \<Rightarrow> GeminiService" where
  "rolled_over rt clk s =
     (let z = s\<lparr>dailyCallCount := 0, dailyTokenCount := 0,
                 lastResetDate := toDateString clk, isQuotaExceeded := False\<rparr>
      in z\<lparr>localStorage :=
           store_attempt (localStorage s) stats_key (JSON_stringify rt (stats_object z))\<rparr>)"

text \<open>
  Example values. \<open>example_stringify\<close> is \<open>JSON.stringify\<close> on flat objects of integers,
  booleans and strings that need no escaping (the shape of the persisted record);
  \<open>example_parse\<close> is \<open>JSON.parse\<close> on the texts used in the examples.
\<close>

definition dq :: string where
  "dq = [CHR 0x22]"

fun stringify_atom :: "jsval \<Rightarrow> string" where
  "stringify_atom JNull = ''null''"
| "stringify_atom (JBool b) = (if b then ''true'' else ''false'')"
| "stringify_atom (JNum q) = show_int \<lfloor>q\<rfloor>"
| "stringify_atom (JStr str) = dq @ str @ dq"
| "stringify_atom (JArr xs) = ''[]''"
| "stringify_atom (JObj kvs) = ''{}''"

fun stringify_members :: "(string \<times> jsval) list \<Rightarrow> string" where
  "stringify_members [] = []"
| "stringify_members [(k, v)] = dq @ k @ dq @ '':'' @ stringify_atom v"
| "stringify_members ((k, v) # rest) =
     dq @ k @ dq @ '':'' @ stringify_atom v @ '','' @ stringify_members rest"

fun example_stringify :: "jsval \<Rightarrow> string" where
  "example_stringify (JObj kvs) = ''{'' @ stringify_members kvs @ ''}''"
| "example_stringify v = stringify_atom v"

definition wrong_shape_text :: string where
  \<open>wrong_shape_text = ''{"callCount":"abc"}''\<close>

definition feedback_text :: string where
  \<open>feedback_text = ''{"score":120,"strengths":["a","b","c","d"],"improvements":"none"}''\<close>

definition example_parse :: "string \<Rightarrow> error + jsval" where
  "example_parse text =
     (if text = wrong_shape_text then Inr (JObj [(''callCount'', JStr ''abc'')])
      else if text = feedback_text then
        Inr (JObj [(''score'', JNum 120),
                   (''strengths'', JArr [JStr ''a'', JStr ''b'', JStr ''c'', JStr ''d'']),
                   (''improvements'', JStr ''none'')])
      else if text = ''null'' then Inr JNull
      else if text = ''[]'' then Inr (JArr [])
      else Inl (SyntaxError ''Unexpected token''))"

text \<open>\<open>String.prototype.trim\<close> on ASCII text, which is what the examples use.\<close>

definition is_ascii_space :: "char \<Rightarrow> bool" where
  "is_ascii_space c = (c \<in> set [CHR '' '', CHR 0x09, CHR 0x0A, CHR 0x0B, CHR 0x0C, CHR 0x0D])"

definition ascii_trim :: "string \<Rightarrow> string" where
  "ascii_trim str = rev (dropWhile is_ascii_space (rev (dropWhile is_ascii_space str)))"

definition example_runtime :: Runtime where
  "example_runtime =
     \<lparr>JSON_parse = example_parse, JSON_stringify = example_stringify,
      StringToNumber = (\<lambda>_. NaN), ObjectToNumber = (\<lambda>_. NaN), String_trim = ascii_trim\<rparr>"

definition example_templates :: Templates where
  "example_templates =
     \<lparr>buildAdvancedDebatePrompt = (\<lambda>topic userArgument aiSide round_no history callId.
          ''DEBATE TOPIC: '' @ topic @ '' HUMAN JUST SAID: '' @ userArgument),
      feedbackPrompt = (\<lambda>userArgument topic userSide round_no callId.
          ''DEBATE TOPIC: '' @ topic @ '' ARGUMENT: '' @ userArgument),
      removeCallIds = (\<lambda>text. text)\<rparr>"

definition empty_store :: LocalStorage where
  "empty_store = \<lparr>items = Map.empty, getItem_throws = False, setItem_throws = False\<rparr>"

text \<open>A configured service on the day \<open>Mon Nov 02 2026\<close> with the given counters and history.\<close>

definition example_service :: "int \<Rightarrow> int \<Rightarrow> Call list \<Rightarrow> GeminiService" where
  "example_service calls toks history =
     \<lparr>hasGenAI = True, hasModel = True, apiKeyValid = True, callCount = 0,
      dailyCallCount = calls, dailyTokenCount = toks, lastResetDate = ''Mon Nov 02 2026'',
      callHistory = history, isQuotaExceeded = False, localStorage = empty_store,
      generateContent_log = []\<rparr>"

definition clock_at :: "string \<Rightarrow> int \<Rightarrow> Clock" where
  "clock_at day ms = \<lparr>toDateString = day, now_ms = ms, until_midnight_ms = 3600000\<rparr>"

text \<open>Results of \<open>checkQuotaLimits\<close>, and the state it leaves when a daily limit is reached.\<close>

definition allowed :: QuotaCheck where
  "allowed = \<lparr>canMakeCall = True, reason = None, waitTime = None\<rparr>"

definition denied :: "string \<Rightarrow> int option \<Rightarrow> QuotaCheck" where
  "denied r w = \<lparr>canMakeCall = False, reason = Some r, waitTime = w\<rparr>"

definition marked_exceeded :: "Runtime \<Rightarrow> GeminiService \<Rightarrow> GeminiService" where
  "marked_exceeded rt s =
     s\<lparr>isQuotaExceeded := True,
       localStorage := store_attempt (localStorage s) stats_key
          (JSON_stringify rt (stats_object (s\<lparr>isQuotaExceeded := True\<rparr>)))\<rparr>"

definition persisted_example :: string where
  \<open>persisted_example =
     ''{"callCount":50,"tokenCount":1200,"lastResetDate":"Mon Nov 02 2026","isQuotaExceeded":true}''\<close>

text \<open>The counters that a denied attempt leaves: those of the state after the lazy
  rollover.\<close>

definition counters_after_check :: "Clock \<Rightarrow> GeminiService \<Rightarrow> int \<times> int" where
  "counters_after_check clk s =
     (if toDateString clk = lastResetDate s then (dailyCallCount s, dailyTokenCount s) else (0, 0))"

definition late_call_service :: GeminiService where
  "late_call_service = example_service 5 700 [\<lparr>timestamp = 86390000, tokens = 700\<rparr>]"

definition example_provider :: "string \<Rightarrow> error + string" where
  "example_provider prompt = Inr feedback_text"

text \<open>A store that holds \<open>wrong_shape_text\<close> under the key of the persisted record.\<close>

definition wrong_shape_store :: LocalStorage where
  "wrong_shape_store = empty_store\<lparr>items := [stats_key \<mapsto> wrong_shape_text]\<rparr>"

section \<open>Runs of the turn state machine\<close>

text \<open>
  The component shows one of five screens, chosen at the top of its render in this
  order: the results once \<open>debateEnded\<close> and \<open>finalFeedback\<close> are set, the set-up screen
  before \<open>debateStarted\<close>, and then the screen of the chosen format.
\<close>

datatype Screen = ResultsScreen | SetupScreen | WebcamScreen | DirectScreen | TextScreen

definition screen :: "PracticeDebate \<Rightarrow> Screen" where
  "screen st =
     (if debateEnded st \<and> finalFeedback st \<noteq> None then ResultsScreen
      else if \<not> debateStarted st then SetupScreen
      else if debateFormat st = webcam_speech then WebcamScreen
      else if debateFormat st = direct_speech then DirectScreen
      else TextScreen)"

text \<open>
  A configuration is the state, what is in flight, and the dependencies
  (\<open>timeRemaining\<close>, \<open>debateStarted\<close>, \<open>debateEnded\<close>) that the countdown effect last ran
  with. An event is something the user does on the screen that offers it, the countdown
  effect running after a render that changed its dependencies, or the settling of the
  item at a position of the list in flight, with the clock and the \<open>Math.random()\<close> value
  its handler reads. An item settles by its result (\<open>GotFeedback\<close>, \<open>GotText\<close>), by an
  error (\<open>Failed\<close>), by a transcript with the suggestions of the confidence metrics
  (\<open>Heard\<close>), or by just firing or ending (\<open>Fired\<close>). The Back button calls the
  parent's \<open>onBack\<close>, which writes no cell of this component, and is not an event.
\<close>

record Config =
  component :: PracticeDebate
  pending :: "in_flight list"
  timer_deps :: "(int \<times> bool \<times> bool) option"

datatype outcome =
    GotFeedback Feedback
  | GotText string
  | Failed error
  | Heard string "jsval list"
  | Fired

datatype event =
    ChooseTopic string
  | ChooseSide Side
  | ChooseFormat DebateFormat
  | StartDebate
  | TimerEffect
  | TypeText string
  | MicClick
  | SendMessage
  | WebcamRecord
  | WebcamAISpeech Clock string
  | DirectMicClick
  | AiReplay
  | AiSpeedChange
  | EndDebate
  | ResetDebate
  | Settle nat Clock rat outcome

definition deps :: "PracticeDebate \<Rightarrow> int \<times> bool \<times> bool" where
  "deps st = (timeRemaining st, debateStarted st, debateEnded st)"

fun is_tick :: "in_flight \<Rightarrow> bool" where
  "is_tick (TickTimer n) = True"
| "is_tick x = False"

fun is_webcam_recognition :: "in_flight \<Rightarrow> bool" where
  "is_webcam_recognition (WebcamRecognition snap) = True"
| "is_webcam_recognition x = False"

definition remove_at :: "nat \<Rightarrow> 'a list \<Rightarrow> 'a list" where
  "remove_at i xs = take i xs @ drop (Suc i) xs"

text \<open>The format buttons that each screen offers.\<close>

definition format_offered :: "Screen \<Rightarrow> DebateFormat \<Rightarrow> bool" where
  "format_offered scr f =
     (case scr of
        SetupScreen \<Rightarrow> True
      | WebcamScreen \<Rightarrow> f = text_speech \<or> f = direct_speech
      | DirectScreen \<Rightarrow> f = text_speech \<or> f = webcam_speech
      | TextScreen \<Rightarrow> f = direct_speech
      | ResultsScreen \<Rightarrow> False)"

text \<open>The handler that runs when the item \<open>x\<close> settles with the outcome \<open>out\<close>: the new
  state and what the handler leaves in flight. A continuous recognition stays in
  flight after a result. \<open>onComplete\<close> belongs to the parent and writes no cell of this
  component.\<close>

definition settle ::
  "Runtime \<Rightarrow> Clock \<Rightarrow> rat \<Rightarrow> in_flight \<Rightarrow> outcome \<Rightarrow> PracticeDebate
     \<Rightarrow> (PracticeDebate \<times> in_flight list) option" where
  "settle rt clk random x out st =
     (case x of
        AnalyzeFeedbackCall snap \<Rightarrow>
          (case out of
             GotFeedback fb \<Rightarrow> Some (sendMessage_fulfilled snap clk fb st)
           | Failed err \<Rightarrow> Some (sendMessage_rejected snap clk err st)
           | _ \<Rightarrow> None)
      | GenerateAIResponseTimer snap userArgument currentArgument history \<Rightarrow>
          (case out of
             Fired \<Rightarrow> Some (generateAIResponse snap userArgument currentArgument history st)
           | _ \<Rightarrow> None)
      | GenerateDebateResponseCall subject userArgument sd currentArgument history \<Rightarrow>
          (case out of
             GotText response \<Rightarrow> Some (generateAIResponse_fulfilled clk random response st)
           | Failed err \<Rightarrow> Some (generateAIResponse_rejected clk err st)
           | _ \<Rightarrow> None)
      | WebcamRecognition snap \<Rightarrow>
          (case out of
             Heard transcript confidence_suggestions \<Rightarrow>
               (case handleWebcamSpeechDetected rt snap transcript confidence_suggestions st of
                  (st', new) \<Rightarrow> Some (st', WebcamRecognition snap # new))
           | Fired \<Rightarrow> Some (st, [])
           | _ \<Rightarrow> None)
      | WebcamFeedbackCall snap transcript confidence_suggestions \<Rightarrow>
          (case out of
             GotFeedback fb \<Rightarrow>
               Some (handleWebcamSpeechDetected_fulfilled snap transcript confidence_suggestions
                       clk fb st)
           | Failed err \<Rightarrow> Some (handleWebcamSpeechDetected_rejected err st)
           | _ \<Rightarrow> None)
      | DirectRecognition snap \<Rightarrow>
          (case out of
             Heard transcript confidence_suggestions \<Rightarrow> Some (direct_onresult snap transcript st)
           | Failed err \<Rightarrow> Some (direct_onend st, [])
           | Fired \<Rightarrow> Some (direct_onend st, [])
           | _ \<Rightarrow> None)
      | DirectSpeechCall subject transcript sd currentArgument \<Rightarrow>
          (case out of
             GotText aiResponse \<Rightarrow> Some (direct_onresult_fulfilled aiResponse st)
           | Failed err \<Rightarrow> Some (st, [])
           | _ \<Rightarrow> None)
      | MicRecognition \<Rightarrow>
          (case out of
             Heard transcript confidence_suggestions \<Rightarrow> Some (mic_onresult transcript st, [])
           | Failed err \<Rightarrow> Some (st, [])
           | Fired \<Rightarrow> Some (st, [])
           | _ \<Rightarrow> None)
      | Utterance \<Rightarrow>
          (case out of
             Fired \<Rightarrow> Some (utterance_onend st, [])
           | Failed err \<Rightarrow> Some (utterance_onend st, [])
           | _ \<Rightarrow> None)
      | TickTimer n \<Rightarrow> (case out of Fired \<Rightarrow> Some (tick n st, []) | _ \<Rightarrow> None)
      | OnCompleteTimer xp \<Rightarrow> (case out of Fired \<Rightarrow> Some (st, []) | _ \<Rightarrow> None))"

text \<open>The render after a handler: the new state, with what the handler left in flight
  added. \<open>WebcamDebate\<close> stops its recognition when it leaves the screen.\<close>

definition render :: "Config \<Rightarrow> PracticeDebate \<times> in_flight list \<Rightarrow> Config" where
  "render c r =
     c\<lparr>component := fst r,
       pending := (if screen (fst r) = WebcamScreen then pending c @ snd r
                   else filter (\<lambda>x. \<not> is_webcam_recognition x) (pending c @ snd r))\<rparr>"

text \<open>One event: the next configuration, or \<open>None\<close> when the screen does not offer the
  event (or nothing is in flight at the position).\<close>

definition handle :: "Runtime \<Rightarrow> Scoring \<Rightarrow> event \<Rightarrow> Config \<Rightarrow> Config option" where
  "handle rt sc ev c =
     (let st = component c; scr = screen st in
      case ev of
        ChooseTopic t \<Rightarrow>
          if scr = SetupScreen then Some (render c (st\<lparr>topic := t\<rparr>, [])) else None
      | ChooseSide sd \<Rightarrow>
          if scr = SetupScreen then Some (render c (st\<lparr>userSide := sd\<rparr>, [])) else None
      | ChooseFormat f \<Rightarrow>
          if format_offered scr f then Some (render c (st\<lparr>debateFormat := f\<rparr>, [])) else None
      | StartDebate \<Rightarrow>
          if scr = SetupScreen then Some (render c (startDebate st)) else None
      | TimerEffect \<Rightarrow>
          if timer_deps c \<noteq> Some (deps st)
          then Some (render (c\<lparr>pending := filter (\<lambda>x. \<not> is_tick x) (pending c),
                                timer_deps := Some (deps st)\<rparr>) (timer_effect sc st))
          else None
      | TypeText t \<Rightarrow>
          if scr = TextScreen \<and> userTurn st
          then Some (render c (st\<lparr>currentMessage := t\<rparr>, [])) else None
      | MicClick \<Rightarrow>
          if scr = TextScreen \<and> userTurn st \<and> \<not> isAiThinking st
          then Some (render c (st, [MicRecognition])) else None
      | SendMessage \<Rightarrow>
          if scr = TextScreen then Some (render c (sendMessage rt st)) else None
      | WebcamRecord \<Rightarrow>
          if scr = WebcamScreen then Some (render c (st, [WebcamRecognition st])) else None
      | WebcamAISpeech clk aiResponse \<Rightarrow>
          if scr = WebcamScreen then Some (render c (onAISpeech clk aiResponse st, [])) else None
      | DirectMicClick \<Rightarrow>
          if scr = DirectScreen \<and> directSpeechTurn st = user \<and> \<not> isDirectRecording st
          then Some (render c (startDirectRecording st)) else None
      | AiReplay \<Rightarrow>
          if scr = DirectScreen \<and> directSpeechTurn st = ai
          then Some (render c (handleAiReplay st)) else None
      | AiSpeedChange \<Rightarrow>
          if scr = DirectScreen \<and> directSpeechTurn st = ai \<and> aiSpeech st \<noteq> []
          then Some (render c (handleAiSpeedChange st)) else None
      | EndDebate \<Rightarrow>
          if scr = WebcamScreen \<or> scr = DirectScreen \<or> scr = TextScreen
          then Some (render c (endDebate sc st)) else None
      | ResetDebate \<Rightarrow>
          if scr = ResultsScreen then Some (render c (resetDebate st, [])) else None
      | Settle i clk random out \<Rightarrow>
          if i < length (pending c)
          then (case settle rt clk random (pending c ! i) out st of
                  None \<Rightarrow> None
                | Some r \<Rightarrow> Some (render (c\<lparr>pending := remove_at i (pending c)\<rparr>) r))
          else None)"

fun run :: "Runtime \<Rightarrow> Scoring \<Rightarrow> event list \<Rightarrow> Config \<Rightarrow> Config option" where
  "run rt sc [] c = Some c"
| "run rt sc (ev # evs) c =
     (case handle rt sc ev c of None \<Rightarrow> None | Some c' \<Rightarrow> run rt sc evs c')"

text \<open>The configuration of the first render.\<close>

definition mounted :: "bool \<Rightarrow> Config" where
  "mounted key_present = \<lparr>component = mount key_present, pending = [], timer_deps = None\<rparr>"

text \<open>The items in flight that belong to an exchange with the opponent: a call to the
  service, or the timer that will make it.\<close>

fun is_request :: "in_flight \<Rightarrow> bool" where
  "is_request (AnalyzeFeedbackCall snap) = True"
| "is_request (GenerateAIResponseTimer snap arg n hist) = True"
| "is_request (GenerateDebateResponseCall subject arg sd n hist) = True"
| "is_request (WebcamFeedbackCall snap transcript sugg) = True"
| "is_request (DirectSpeechCall subject transcript sd n) = True"
| "is_request x = False"

definition requests :: "in_flight list \<Rightarrow> in_flight list" where
  "requests fl = filter is_request fl"

text \<open>The events of a session that stays with the typed submissions of the text
  format: no recording is started in the direct-speech or the webcam format, and the
  session is not reset.\<close>

fun typed_session :: "event \<Rightarrow> bool" where
  "typed_session WebcamRecord = False"
| "typed_session DirectMicClick = False"
| "typed_session ResetDebate = False"
| "typed_session ev = True"

fun speech_item :: "in_flight \<Rightarrow> bool" where
  "speech_item (WebcamRecognition snap) = True"
| "speech_item (WebcamFeedbackCall snap transcript sugg) = True"
| "speech_item (DirectRecognition snap) = True"
| "speech_item (DirectSpeechCall subject transcript sd n) = True"
| "speech_item x = False"

definition one_request_at_a_time :: "Config \<Rightarrow> bool" where
  "one_request_at_a_time c =
     (list_all (\<lambda>x. \<not> speech_item x) (pending c)
      \<and> length (requests (pending c)) \<le> 1
      \<and> (requests (pending c) \<noteq> [] \<longrightarrow> \<not> userTurn (component c) \<and> debateStarted (component c)))"

definition ended_shows_results :: "Config \<Rightarrow> bool" where
  "ended_shows_results c = (debateEnded (component c) \<longrightarrow> finalFeedback (component c) \<noteq> None)"

text \<open>One submission run to its end: \<open>fb\<close> is the outcome of \<open>analyzeFeedback\<close> and
  \<open>resp\<close> that of \<open>generateDebateResponse\<close>, an error when the call throws.\<close>

definition exchange ::
  "Runtime \<Rightarrow> Clock \<Rightarrow> rat \<Rightarrow> error + Feedback \<Rightarrow> error + string \<Rightarrow> PracticeDebate
     \<Rightarrow> PracticeDebate" where
  "exchange rt clk random fb resp st =
     (case sendMessage rt st of
        (st1, AnalyzeFeedbackCall snap # _) \<Rightarrow>
          (case fb of
             Inl err \<Rightarrow> fst (sendMessage_rejected snap clk err st1)
           | Inr feedback_value \<Rightarrow>
               (case sendMessage_fulfilled snap clk feedback_value st1 of
                  (st2, GenerateAIResponseTimer snap2 arg n hist # _) \<Rightarrow>
                    (let st3 = fst (generateAIResponse snap2 arg n hist st2) in
                     case resp of
                       Inl err \<Rightarrow> fst (generateAIResponse_rejected clk err st3)
                     | Inr response \<Rightarrow> fst (generateAIResponse_fulfilled clk random response st3))
                | (st2, _) \<Rightarrow> st2))
      | (st1, _) \<Rightarrow> st1)"

definition example_scoring :: Scoring where
  "example_scoring = \<lparr>summarise = (\<lambda>ms. \<lparr>score = Fin 75, strengths = [], improvements = [],
                          fallaciesDetected = [], suggestions = []\<rparr>),
                      totalXP = (\<lambda>ms. Fin 187)\<rparr>"

text \<open>A debate in progress in the text format: the human argues for the topic and has
  typed an argument.\<close>

definition example_debate :: PracticeDebate where
  "example_debate =
     (mount True)\<lparr>topic := ''Homework should be banned'', debateStarted := True,
       currentMessage := ''It wastes time''\<rparr>"

definition example_feedback :: Feedback where
  "example_feedback = \<lparr>score = Fin 80, strengths = [], improvements = [], fallaciesDetected = [],
                        suggestions = []\<rparr>"

text \<open>
  A session in the text format. The user enters the topic, starts the debate, types an
  argument and sends it; then the feedback arrives, the response timer fires, and the
  user ends the debate while the response is in flight. In \<open>late_events\<close> the response
  arrives after that; in \<open>late_failure_events\<close> the call fails instead.
\<close>

definition typed_events :: "event list" where
  "typed_events =
     [ChooseTopic ''Homework should be banned'', StartDebate, TimerEffect,
      TypeText ''It wastes time'', SendMessage]"

definition answered_events :: "event list" where
  "answered_events =
     typed_events @
     [Settle 1 (clock_at ''Mon Nov 02 2026'' 6000) 0 (GotFeedback example_feedback),
      Settle 1 (clock_at ''Mon Nov 02 2026'' 7500) 0 Fired]"

definition ended_events :: "event list" where
  "ended_events = answered_events @ [EndDebate, TimerEffect]"


text \<open>
  A session that starts in the direct-speech format. The user speaks an argument, and
  while the call that \<open>onresult\<close> makes is in flight switches to the text format, types
  an argument and sends it.
\<close>

definition spoken_events :: "event list" where
  "spoken_events =
     [ChooseTopic ''Homework should be banned'', ChooseFormat direct_speech, StartDebate,
      TimerEffect, DirectMicClick,
      Settle 1 (clock_at ''Mon Nov 02 2026'' 5000) 0 (Heard ''It wastes time'' []),
      ChooseFormat text_speech, TypeText ''And it is boring'']"

definition session :: "event list \<Rightarrow> Config option" where
  "session evs = run example_runtime example_scoring evs (mounted True)"

text \<open>The configurations that these sessions reach.\<close>

definition sent_config :: Config where
  "sent_config =
     \<lparr>component = example_debate\<lparr>userTurn := False, argumentCount := 1\<rparr>,
      pending = [TickTimer 300, AnalyzeFeedbackCall example_debate],
      timer_deps = Some (300, True, False)\<rparr>"

definition ended_debate :: PracticeDebate where
  "ended_debate =
     example_debate\<lparr>userTurn := False, argumentCount := 1, currentMessage := [],
       messages := [\<lparr>msg_id = ''6000'', speaker = user, content = ''It wastes time'',
                     msg_timestamp = 6000, feedback = Some example_feedback\<rparr>],
       isAiThinking := True, debateEnded := True,
       finalFeedback := Some \<lparr>score = Fin 75, strengths = [], improvements = [],
                                fallaciesDetected = [], suggestions = []\<rparr>\<rparr>"

definition ended_config :: Config where
  "ended_config =
     \<lparr>component = ended_debate,
      pending = [GenerateDebateResponseCall ''Homework should be banned'' ''It wastes time'' con 1
                   [''user: It wastes time''],
                 OnCompleteTimer (Fin 187)],
      timer_deps = Some (300, True, True)\<rparr>"

definition spoken_debate :: PracticeDebate where
  "spoken_debate =
     (mount True)\<lparr>topic := ''Homework should be banned'', debateStarted := True,
       currentMessage := ''And it is boring'', showFirstInstruction := False,
       directSpeechTurn := ai\<rparr>"

definition spoken_config :: Config where
  "spoken_config =
     \<lparr>component = spoken_debate,
      pending = [TickTimer 300,
                 DirectSpeechCall ''Homework should be banned'' ''It wastes time'' con 1],
      timer_deps = Some (300, True, False)\<rparr>"

section \<open>Properties of the quota governor\<close>

subsection \<open>What the basic operations compute\<close>

lemma saveDailyStats_eq:
  "saveDailyStats rt s =
     (Inr (), s\<lparr>localStorage :=
        store_attempt (localStorage s) stats_key (JSON_stringify rt (stats_object s))\<rparr>)"
  by (simp add: saveDailyStats_def js_try_def js_return_def store_attempt_def split: sum.splits)

lemma resetDailyStatsIfNeeded_same:
  "lastResetDate s = toDateString clk \<Longrightarrow> resetDailyStatsIfNeeded rt clk s = (Inr (), s)"
  by (simp add: resetDailyStatsIfNeeded_def js_bind_def js_read_def js_when_def js_return_def)

lemma resetDailyStatsIfNeeded_other:
  "lastResetDate s \<noteq> toDateString clk \<Longrightarrow>
   resetDailyStatsIfNeeded rt clk s = (Inr (), rolled_over rt clk s)"
  by (simp add: resetDailyStatsIfNeeded_def js_bind_def js_read_def js_when_def js_then_def
      js_modify_def saveDailyStats_eq rolled_over_def Let_def)

lemma keep_last_60_eq: "keep_last_60 h = last_n 60 h"
  by (simp add: keep_last_60_def last_n_def)

lemma last_n_snoc: "last_n n (last_n n xs @ [e]) = last_n n (xs @ [e])"
proof -
  have "Suc (length xs) - (length xs - n + n) + (length xs - n) = Suc (length xs) - n"
    by arith
  then show ?thesis by (simp add: last_n_def)
qed

lemma last_n_append: "last_n n (last_n n xs @ ys) = last_n n (xs @ ys)"
proof (induction ys rule: rev_induct)
  case Nil
  then show ?case by (simp add: last_n_def)
next
  case (snoc y ys)
  have "last_n n (last_n n xs @ ys @ [y]) = last_n n (last_n n (last_n n xs @ ys) @ [y])"
    using last_n_snoc [of n "last_n n xs @ ys" y] by simp
  also have "\<dots> = last_n n (last_n n (xs @ ys) @ [y])" using snoc by simp
  also have "\<dots> = last_n n ((xs @ ys) @ [y])" by (rule last_n_snoc)
  finally show ?case by simp
qed

lemma updateQuotaUsage_eq:
  "updateQuotaUsage rt clk toks s =
     (let u = s\<lparr>dailyCallCount := dailyCallCount s + 1,
                 dailyTokenCount := dailyTokenCount s + toks,
                 callHistory := keep_last_60 (callHistory s @ [\<lparr>timestamp = now_ms clk, tokens = toks\<rparr>])\<rparr>
      in (Inr (), u\<lparr>localStorage :=
            store_attempt (localStorage s) stats_key (JSON_stringify rt (stats_object u))\<rparr>))"
  by (simp add: updateQuotaUsage_def js_then_def js_bind_def js_modify_def saveDailyStats_eq Let_def)

lemma recordUsages_general:
  "\<exists>s'. recordUsages rt calls s = (Inr (), s')
      \<and> dailyCallCount s' = dailyCallCount s + int (length calls)
      \<and> dailyTokenCount s' = dailyTokenCount s + sum_list (map snd calls)
      \<and> callHistory s' = (if calls = [] then callHistory s else last_n 60 (callHistory s @ map entry calls))
      \<and> lastResetDate s' = lastResetDate s \<and> isQuotaExceeded s' = isQuotaExceeded s"
proof (induction calls arbitrary: s)
  case Nil
  then show ?case by (simp add: js_return_def)
next
  case (Cons c calls)
  obtain clk toks where c: "c = (clk, toks)" by (cases c)
  obtain u where u: "updateQuotaUsage rt clk toks s = (Inr (), u)"
    and u1: "dailyCallCount u = dailyCallCount s + 1"
    and u2: "dailyTokenCount u = dailyTokenCount s + toks"
    and u3: "callHistory u = last_n 60 (callHistory s @ [entry c])"
    and u4: "lastResetDate u = lastResetDate s" "isQuotaExceeded u = isQuotaExceeded s"
    by (simp add: updateQuotaUsage_eq Let_def keep_last_60_eq entry_def c)
  from Cons.IH [of u] obtain s' where s': "recordUsages rt calls u = (Inr (), s')"
    and r1: "dailyCallCount s' = dailyCallCount u + int (length calls)"
    and r2: "dailyTokenCount s' = dailyTokenCount u + sum_list (map snd calls)"
    and r3: "callHistory s' = (if calls = [] then callHistory u else last_n 60 (callHistory u @ map entry calls))"
    and r4: "lastResetDate s' = lastResetDate u" "isQuotaExceeded s' = isQuotaExceeded u"
    by blast
  have run: "recordUsages rt (c # calls) s = (Inr (), s')"
    by (simp add: c js_then_def js_bind_def u s')
  have h: "callHistory s' = last_n 60 (callHistory s @ map entry (c # calls))"
  proof (cases "calls = []")
    case True
    then show ?thesis using r3 u3 by simp
  next
    case False
    have "last_n 60 (last_n 60 (callHistory s @ [entry c]) @ map entry calls)
        = last_n 60 ((callHistory s @ [entry c]) @ map entry calls)"
      by (rule last_n_append)
    then show ?thesis using False r3 u3 by simp
  qed
  show ?case
    using run r1 r2 h r4 u1 u2 u4 by (simp add: c)
qed

lemma show_int_50: "show_int 50 = ''50''"
  by (simp add: show_int_def show_nat.simps)

subsection \<open>Recording usage\<close>

text \<open>
  Claim C5. Starting from zeroed counters and an empty history, after any sequence of
  \<open>updateQuotaUsage\<close> calls \<open>dailyCallCount\<close> is the number of calls and \<open>dailyTokenCount\<close>
  the sum of their token amounts; each call appends its entry \<open>{timestamp: now, tokens}\<close>
  to \<open>callHistory\<close>, and \<open>callHistory\<close> holds the most recent 60 entries and never more.
  \<open>updateQuotaUsage\<close> does not look at the date, so this holds for calls within one day
  whatever the clock of each call reads. None of the calls throws.
\<close>

theorem recordUsages_counts:
  assumes "dailyCallCount s = 0" and "dailyTokenCount s = 0" and "callHistory s = []"
  shows "\<exists>s'. recordUsages rt calls s = (Inr (), s')
      \<and> dailyCallCount s' = int (length calls)
      \<and> dailyTokenCount s' = sum_list (map snd calls)
      \<and> callHistory s' = drop (length calls - 60) (map entry calls)
      \<and> length (callHistory s') \<le> 60
      \<and> (\<forall>t clk toks. \<exists>t'. updateQuotaUsage rt clk toks t = (Inr (), t')
            \<and> callHistory t' = keep_last_60 (callHistory t @ [\<lparr>timestamp = now_ms clk, tokens = toks\<rparr>])
            \<and> last (callHistory t') = \<lparr>timestamp = now_ms clk, tokens = toks\<rparr>)"
proof -
  from recordUsages_general [of rt calls s] obtain s' where
    run: "recordUsages rt calls s = (Inr (), s')"
    and c1: "dailyCallCount s' = dailyCallCount s + int (length calls)"
    and c2: "dailyTokenCount s' = dailyTokenCount s + sum_list (map snd calls)"
    and c3: "callHistory s' = (if calls = [] then callHistory s else last_n 60 (callHistory s @ map entry calls))"
    by blast
  have h: "callHistory s' = drop (length calls - 60) (map entry calls)"
    using c3 assms by (simp add: last_n_def)
  have step: "\<exists>t'. updateQuotaUsage rt clk toks t = (Inr (), t')
      \<and> callHistory t' = keep_last_60 (callHistory t @ [\<lparr>timestamp = now_ms clk, tokens = toks\<rparr>])
      \<and> last (callHistory t') = \<lparr>timestamp = now_ms clk, tokens = toks\<rparr>" for t clk toks
    by (simp add: updateQuotaUsage_eq Let_def keep_last_60_def)
  show ?thesis
    using run c1 c2 h assms step by simp
qed

theorem recordUsages_counts_witness:
  "\<exists>s'. recordUsages example_runtime (replicate 61 (clock_at ''Mon Nov 02 2026'' 1000, 10))
           (example_service 0 0 []) = (Inr (), s')
      \<and> dailyCallCount s' = 61 \<and> dailyTokenCount s' = 610
      \<and> callHistory s' = replicate 60 \<lparr>timestamp = 1000, tokens = 10\<rparr>"
proof -
  have z: "dailyCallCount (example_service 0 0 []) = 0" "dailyTokenCount (example_service 0 0 []) = 0"
      "callHistory (example_service 0 0 []) = []"
    by (simp_all add: example_service_def)
  from recordUsages_counts [OF z, of example_runtime
      "replicate 61 (clock_at ''Mon Nov 02 2026'' 1000, 10)"]
  show ?thesis
    by (auto simp add: entry_def clock_at_def sum_list_replicate)
qed

lemma checkQuotaLimits_same_day:
  assumes "lastResetDate s = toDateString clk"
  shows "checkQuotaLimits rt clk s =
     (if dailyCallCount s \<ge> DAILY_CALL_LIMIT then
        (Inr (denied call_limit_reason None), marked_exceeded rt s)
      else if dailyTokenCount s \<ge> DAILY_TOKEN_LIMIT then
        (Inr (denied token_limit_reason None), marked_exceeded rt s)
      else if recentCalls (now_ms clk) (callHistory s) \<noteq> [] then
        (let w = \<lceil>(of_int (min_list (map timestamp (recentCalls (now_ms clk) (callHistory s)))
                        + 60 * 1000 - now_ms clk) :: rat) / 1000\<rceil>
         in (Inr (denied (rate_limit_reason w) (Some w)), s))
      else (Inr allowed, s))"
  using assms
  by (simp add: checkQuotaLimits_def js_then_def js_bind_def js_read_def js_modify_def
      js_return_def resetDailyStatsIfNeeded_same saveDailyStats_eq marked_exceeded_def
      denied_def allowed_def CALLS_PER_MINUTE_def Let_def Suc_le_eq)

lemma lastResetDate_rolled_over [simp]: "lastResetDate (rolled_over rt clk s) = toDateString clk"
  by (simp add: rolled_over_def Let_def)

lemma checkQuotaLimits_other_day:
  assumes "lastResetDate s \<noteq> toDateString clk"
  shows "checkQuotaLimits rt clk s = checkQuotaLimits rt clk (rolled_over rt clk s)"
  using assms
  by (simp add: checkQuotaLimits_def js_then_def js_bind_def resetDailyStatsIfNeeded_same
      resetDailyStatsIfNeeded_other)

lemma call_limit_reason_text:
  "call_limit_reason = ''Daily call limit reached (50/day). Quota resets at 12:00 AM Pacific Time.''"
  by (simp add: call_limit_reason_def DAILY_CALL_LIMIT_def show_int_50)


lemma marked_exceeded_fields [simp]:
  "isQuotaExceeded (marked_exceeded rt s)"
  "dailyCallCount (marked_exceeded rt s) = dailyCallCount s"
  "dailyTokenCount (marked_exceeded rt s) = dailyTokenCount s"
  "callHistory (marked_exceeded rt s) = callHistory s"
  "lastResetDate (marked_exceeded rt s) = lastResetDate s"
  "generateContent_log (marked_exceeded rt s) = generateContent_log s"
  "localStorage (marked_exceeded rt s) =
     store_attempt (localStorage s) stats_key
       (JSON_stringify rt (stats_object (s\<lparr>isQuotaExceeded := True\<rparr>)))"
  by (simp_all add: marked_exceeded_def)

lemma store_attempt_accepts:
  "\<not> setItem_throws st \<Longrightarrow> items (store_attempt st k v) k = Some v"
  by (simp add: store_attempt_def setItem_def)

subsection \<open>The daily call limit\<close>

text \<open>
  Claim C1. In every state with \<open>dailyCallCount \<ge> 50\<close> whose \<open>lastResetDate\<close> is the
  current date, \<open>checkQuotaLimits\<close> returns \<open>canMakeCall = false\<close> with the reason
  "Daily call limit reached (50/day). ...", sets \<open>isQuotaExceeded\<close> and persists the record
  with the flag set: it calls \<open>localStorage.setItem\<close> with the serialised record, so the
  store holds it whenever the store accepts the write (\<open>saveDailyStats\<close> swallows a
  refused write). In the scenario, a state with \<open>dailyCallCount = 49\<close> and the other limits
  unmet is allowed; \<open>updateQuotaUsage(100)\<close> then brings the count to 50, and the next
  check on the same day is denied for the call limit with \<open>isQuotaExceeded\<close> set.
\<close>

theorem daily_call_limit_denies:
  "(DAILY_CALL_LIMIT \<le> dailyCallCount s \<and> toDateString clk = lastResetDate s \<longrightarrow>
      (\<exists>s'. checkQuotaLimits rt clk s =
              (Inr \<lparr>canMakeCall = False,
                    reason = Some ''Daily call limit reached (50/day). Quota resets at 12:00 AM Pacific Time.'',
                    waitTime = None\<rparr>, s')
         \<and> isQuotaExceeded s'
         \<and> localStorage s' = store_attempt (localStorage s) stats_key
              (JSON_stringify rt (JObj
                 [(''callCount'', JNum (of_int (dailyCallCount s))),
                  (''tokenCount'', JNum (of_int (dailyTokenCount s))),
                  (''lastResetDate'', JStr (lastResetDate s)),
                  (''isQuotaExceeded'', JBool True)]))
         \<and> (\<not> setItem_throws (localStorage s) \<longrightarrow>
              items (localStorage s') stats_key = Some (JSON_stringify rt (JObj
                 [(''callCount'', JNum (of_int (dailyCallCount s))),
                  (''tokenCount'', JNum (of_int (dailyTokenCount s))),
                  (''lastResetDate'', JStr (lastResetDate s)),
                  (''isQuotaExceeded'', JBool True)])))))
   \<and> (dailyCallCount s = 49 \<and> dailyTokenCount s < DAILY_TOKEN_LIMIT
        \<and> recentCalls (now_ms clk1) (callHistory s) = []
        \<and> toDateString clk1 = lastResetDate s \<and> toDateString clk3 = lastResetDate s \<longrightarrow>
      (\<exists>s2 r s3.
         checkQuotaLimits rt clk1 s = (Inr \<lparr>canMakeCall = True, reason = None, waitTime = None\<rparr>, s)
         \<and> updateQuotaUsage rt clk2 100 s = (Inr (), s2) \<and> dailyCallCount s2 = 50
         \<and> checkQuotaLimits rt clk3 s2 = (Inr r, s3)
         \<and> \<not> canMakeCall r
         \<and> reason r = Some ''Daily call limit reached (50/day). Quota resets at 12:00 AM Pacific Time.''
         \<and> isQuotaExceeded s3))"
proof (intro conjI impI)
  assume a: "DAILY_CALL_LIMIT \<le> dailyCallCount s \<and> toDateString clk = lastResetDate s"
  let ?v = "JSON_stringify rt (JObj
                 [(''callCount'', JNum (of_int (dailyCallCount s))),
                  (''tokenCount'', JNum (of_int (dailyTokenCount s))),
                  (''lastResetDate'', JStr (lastResetDate s)),
                  (''isQuotaExceeded'', JBool True)])"
  have v: "JSON_stringify rt (stats_object (s\<lparr>isQuotaExceeded := True\<rparr>)) = ?v"
    by (simp add: stats_object_def)
  have run: "checkQuotaLimits rt clk s = (Inr (denied call_limit_reason None), marked_exceeded rt s)"
    using a by (simp add: checkQuotaLimits_same_day)
  have st: "localStorage (marked_exceeded rt s) = store_attempt (localStorage s) stats_key ?v"
    using v by simp
  have acc: "\<not> setItem_throws (localStorage s) \<longrightarrow>
      items (localStorage (marked_exceeded rt s)) stats_key = Some ?v"
    using st by (simp add: store_attempt_accepts)
  show "\<exists>s'. checkQuotaLimits rt clk s =
              (Inr \<lparr>canMakeCall = False,
                    reason = Some ''Daily call limit reached (50/day). Quota resets at 12:00 AM Pacific Time.'',
                    waitTime = None\<rparr>, s')
         \<and> isQuotaExceeded s'
         \<and> localStorage s' = store_attempt (localStorage s) stats_key ?v
         \<and> (\<not> setItem_throws (localStorage s) \<longrightarrow> items (localStorage s') stats_key = Some ?v)"
    using run st acc by (simp add: denied_def call_limit_reason_text)
next
  assume b: "dailyCallCount s = 49 \<and> dailyTokenCount s < DAILY_TOKEN_LIMIT
        \<and> recentCalls (now_ms clk1) (callHistory s) = []
        \<and> toDateString clk1 = lastResetDate s \<and> toDateString clk3 = lastResetDate s"
  have first: "checkQuotaLimits rt clk1 s = (Inr allowed, s)"
    using b by (simp add: checkQuotaLimits_same_day DAILY_CALL_LIMIT_def)
  obtain s2 where upd: "updateQuotaUsage rt clk2 100 s = (Inr (), s2)"
    and c2: "dailyCallCount s2 = 50" and d2: "lastResetDate s2 = lastResetDate s"
    using b by (simp add: updateQuotaUsage_eq Let_def)
  have second: "checkQuotaLimits rt clk3 s2 = (Inr (denied call_limit_reason None), marked_exceeded rt s2)"
    using b c2 d2 by (simp add: checkQuotaLimits_same_day DAILY_CALL_LIMIT_def)
  show "\<exists>s2 r s3.
         checkQuotaLimits rt clk1 s = (Inr \<lparr>canMakeCall = True, reason = None, waitTime = None\<rparr>, s)
         \<and> updateQuotaUsage rt clk2 100 s = (Inr (), s2) \<and> dailyCallCount s2 = 50
         \<and> checkQuotaLimits rt clk3 s2 = (Inr r, s3)
         \<and> \<not> canMakeCall r
         \<and> reason r = Some ''Daily call limit reached (50/day). Quota resets at 12:00 AM Pacific Time.''
         \<and> isQuotaExceeded s3"
    using first upd c2 second by (simp add: allowed_def denied_def call_limit_reason_text)
qed


theorem daily_call_limit_denies_witness:
  "(\<exists>s'. checkQuotaLimits example_runtime (clock_at ''Mon Nov 02 2026'' 5000)
             (example_service 50 1200 []) =
              (Inr \<lparr>canMakeCall = False,
                    reason = Some ''Daily call limit reached (50/day). Quota resets at 12:00 AM Pacific Time.'',
                    waitTime = None\<rparr>, s')
         \<and> isQuotaExceeded s'
         \<and> items (localStorage s') stats_key = Some persisted_example)
   \<and> (\<exists>s2 r s3.
         checkQuotaLimits example_runtime (clock_at ''Mon Nov 02 2026'' 5000) (example_service 49 1200 [])
           = (Inr \<lparr>canMakeCall = True, reason = None, waitTime = None\<rparr>, example_service 49 1200 [])
         \<and> updateQuotaUsage example_runtime (clock_at ''Mon Nov 02 2026'' 6000) 100
              (example_service 49 1200 []) = (Inr (), s2)
         \<and> dailyCallCount s2 = 50
         \<and> checkQuotaLimits example_runtime (clock_at ''Mon Nov 02 2026'' 7000) s2 = (Inr r, s3)
         \<and> \<not> canMakeCall r
         \<and> isQuotaExceeded s3)"
proof -
  have v: "example_stringify (JObj
                 [(''callCount'', JNum (of_int (dailyCallCount (example_service 50 1200 [])))),
                  (''tokenCount'', JNum (of_int (dailyTokenCount (example_service 50 1200 [])))),
                  (''lastResetDate'', JStr (lastResetDate (example_service 50 1200 []))),
                  (''isQuotaExceeded'', JBool True)]) = persisted_example"
    by (simp add: example_service_def persisted_example_def dq_def show_int_def show_nat.simps)
  have a: "DAILY_CALL_LIMIT \<le> dailyCallCount (example_service 50 1200 [])
      \<and> toDateString (clock_at ''Mon Nov 02 2026'' 5000) = lastResetDate (example_service 50 1200 [])"
    by (simp add: example_service_def clock_at_def DAILY_CALL_LIMIT_def)
  have w: "\<not> setItem_throws (localStorage (example_service 50 1200 []))"
    by (simp add: example_service_def empty_store_def)
  have b: "dailyCallCount (example_service 49 1200 []) = 49
      \<and> dailyTokenCount (example_service 49 1200 []) < DAILY_TOKEN_LIMIT
      \<and> recentCalls (now_ms (clock_at ''Mon Nov 02 2026'' 5000)) (callHistory (example_service 49 1200 [])) = []
      \<and> toDateString (clock_at ''Mon Nov 02 2026'' 5000) = lastResetDate (example_service 49 1200 [])
      \<and> toDateString (clock_at ''Mon Nov 02 2026'' 7000) = lastResetDate (example_service 49 1200 [])"
    by (simp add: example_service_def clock_at_def DAILY_TOKEN_LIMIT_def recentCalls_def)
  have r: "JSON_stringify example_runtime = example_stringify"
    by (simp add: example_runtime_def)
  let ?obj = "JObj
                 [(''callCount'', JNum (of_int (dailyCallCount (example_service 50 1200 [])))),
                  (''tokenCount'', JNum (of_int (dailyTokenCount (example_service 50 1200 [])))),
                  (''lastResetDate'', JStr (lastResetDate (example_service 50 1200 []))),
                  (''isQuotaExceeded'', JBool True)]"
  from daily_call_limit_denies
         [of "example_service 50 1200 []" "clock_at ''Mon Nov 02 2026'' 5000" example_runtime]
       a w
  obtain s' where
    run: "checkQuotaLimits example_runtime (clock_at ''Mon Nov 02 2026'' 5000)
             (example_service 50 1200 []) =
              (Inr \<lparr>canMakeCall = False,
                    reason = Some ''Daily call limit reached (50/day). Quota resets at 12:00 AM Pacific Time.'',
                    waitTime = None\<rparr>, s')"
    and ex: "isQuotaExceeded s'"
    and it: "items (localStorage s') stats_key = Some (JSON_stringify example_runtime ?obj)"
    by blast
  have it': "items (localStorage s') stats_key = Some persisted_example"
    using it unfolding r v .
  have first: "\<exists>s'. checkQuotaLimits example_runtime (clock_at ''Mon Nov 02 2026'' 5000)
             (example_service 50 1200 []) =
              (Inr \<lparr>canMakeCall = False,
                    reason = Some ''Daily call limit reached (50/day). Quota resets at 12:00 AM Pacific Time.'',
                    waitTime = None\<rparr>, s')
         \<and> isQuotaExceeded s'
         \<and> items (localStorage s') stats_key = Some persisted_example"
    using run ex it' by blast
  from daily_call_limit_denies
         [of "example_service 49 1200 []" _ example_runtime "clock_at ''Mon Nov 02 2026'' 5000"
             "clock_at ''Mon Nov 02 2026'' 7000" "clock_at ''Mon Nov 02 2026'' 6000"]
       b
  have second: "\<exists>s2 r s3.
         checkQuotaLimits example_runtime (clock_at ''Mon Nov 02 2026'' 5000) (example_service 49 1200 [])
           = (Inr \<lparr>canMakeCall = True, reason = None, waitTime = None\<rparr>, example_service 49 1200 [])
         \<and> updateQuotaUsage example_runtime (clock_at ''Mon Nov 02 2026'' 6000) 100
              (example_service 49 1200 []) = (Inr (), s2)
         \<and> dailyCallCount s2 = 50
         \<and> checkQuotaLimits example_runtime (clock_at ''Mon Nov 02 2026'' 7000) s2 = (Inr r, s3)
         \<and> \<not> canMakeCall r
         \<and> isQuotaExceeded s3"
    by blast
  from first second show ?thesis by blast
qed

subsection \<open>The daily rollover\<close>

lemma rolled_over_fields [simp]:
  "dailyCallCount (rolled_over rt clk s) = 0"
  "dailyTokenCount (rolled_over rt clk s) = 0"
  "\<not> isQuotaExceeded (rolled_over rt clk s)"
  "callHistory (rolled_over rt clk s) = callHistory s"
  "generateContent_log (rolled_over rt clk s) = generateContent_log s"
  by (simp_all add: rolled_over_def Let_def)

lemma getQuotaStatus_same_day:
  assumes "lastResetDate s = toDateString clk"
  shows "\<exists>q. getQuotaStatus rt clk s = (Inr q, s)
     \<and> status_dailyCallCount q = dailyCallCount s \<and> status_dailyTokenCount q = dailyTokenCount s
     \<and> callsRemaining q = max 0 (50 - dailyCallCount s)
     \<and> tokensRemaining q = max 0 (15000 - dailyTokenCount s)
     \<and> status_isQuotaExceeded q = isQuotaExceeded s"
  using assms
  by (simp add: getQuotaStatus_def js_then_def js_bind_def js_read_def resetDailyStatsIfNeeded_same
      DAILY_CALL_LIMIT_def DAILY_TOKEN_LIMIT_def)

lemma getQuotaStatus_other_day:
  assumes "lastResetDate s \<noteq> toDateString clk"
  shows "\<exists>q. getQuotaStatus rt clk s = (Inr q, rolled_over rt clk s)
     \<and> status_dailyCallCount q = 0 \<and> status_dailyTokenCount q = 0
     \<and> callsRemaining q = 50 \<and> tokensRemaining q = 15000 \<and> \<not> status_isQuotaExceeded q"
  using assms
  by (simp add: getQuotaStatus_def js_then_def js_bind_def js_read_def resetDailyStatsIfNeeded_other
      DAILY_CALL_LIMIT_def DAILY_TOKEN_LIMIT_def)

lemma checkQuotaLimits_rolled_over:
  assumes "lastResetDate s \<noteq> toDateString clk"
  shows "checkQuotaLimits rt clk s =
     (if recentCalls (now_ms clk) (callHistory s) \<noteq> [] then
        (let w = \<lceil>(of_int (min_list (map timestamp (recentCalls (now_ms clk) (callHistory s)))
                        + 60 * 1000 - now_ms clk) :: rat) / 1000\<rceil>
         in (Inr (denied (rate_limit_reason w) (Some w)), rolled_over rt clk s))
      else (Inr allowed, rolled_over rt clk s))"
  using assms
  by (simp add: checkQuotaLimits_other_day checkQuotaLimits_same_day DAILY_CALL_LIMIT_def
      DAILY_TOKEN_LIMIT_def)

lemma checkQuotaLimits_keeps_counters:
  assumes "lastResetDate t = toDateString clk"
  shows "\<exists>r t'. checkQuotaLimits rt clk t = (Inr r, t')
     \<and> dailyCallCount t' = dailyCallCount t \<and> dailyTokenCount t' = dailyTokenCount t
     \<and> lastResetDate t' = lastResetDate t \<and> callHistory t' = callHistory t"
  using assms by (simp add: checkQuotaLimits_same_day Let_def)

text \<open>
  Claim C2. When the current date differs from \<open>lastResetDate\<close>, \<open>checkQuotaLimits\<close> and
  \<open>getQuotaStatus\<close> each reset \<open>dailyCallCount\<close> and \<open>dailyTokenCount\<close> to 0 and
  \<open>isQuotaExceeded\<close> to false and set \<open>lastResetDate\<close> to the current date, and
  \<open>checkQuotaLimits\<close> then allows the call when no recorded call lies in the last 60
  seconds. The reset happens once: in any state whose \<open>lastResetDate\<close> is the current
  date (the state after the reset, and every state reached from it on that day by
  recording usage), \<open>resetDailyStatsIfNeeded\<close> changes nothing, \<open>checkQuotaLimits\<close> keeps
  both counters and \<open>getQuotaStatus\<close> leaves the state as it is.
\<close>

theorem daily_rollover:
  "(toDateString clk \<noteq> lastResetDate s \<longrightarrow>
      (\<exists>r s'. checkQuotaLimits rt clk s = (Inr r, s')
         \<and> dailyCallCount s' = 0 \<and> dailyTokenCount s' = 0 \<and> \<not> isQuotaExceeded s'
         \<and> lastResetDate s' = toDateString clk
         \<and> (recentCalls (now_ms clk) (callHistory s) = [] \<longrightarrow> canMakeCall r))
    \<and> (\<exists>q s'. getQuotaStatus rt clk s = (Inr q, s')
         \<and> dailyCallCount s' = 0 \<and> dailyTokenCount s' = 0 \<and> \<not> isQuotaExceeded s'
         \<and> lastResetDate s' = toDateString clk
         \<and> status_dailyCallCount q = 0 \<and> status_dailyTokenCount q = 0
         \<and> \<not> status_isQuotaExceeded q))
   \<and> (toDateString clk = lastResetDate t \<longrightarrow>
        resetDailyStatsIfNeeded rt clk t = (Inr (), t)
      \<and> (\<exists>r t'. checkQuotaLimits rt clk t = (Inr r, t')
            \<and> dailyCallCount t' = dailyCallCount t \<and> dailyTokenCount t' = dailyTokenCount t
            \<and> lastResetDate t' = lastResetDate t)
      \<and> (\<exists>q. getQuotaStatus rt clk t = (Inr q, t)
            \<and> status_dailyCallCount q = dailyCallCount t
            \<and> status_dailyTokenCount q = dailyTokenCount t))"
proof (intro conjI impI)
  assume d: "toDateString clk \<noteq> lastResetDate s"
  then have d': "lastResetDate s \<noteq> toDateString clk" by simp
  show "\<exists>r s'. checkQuotaLimits rt clk s = (Inr r, s')
         \<and> dailyCallCount s' = 0 \<and> dailyTokenCount s' = 0 \<and> \<not> isQuotaExceeded s'
         \<and> lastResetDate s' = toDateString clk
         \<and> (recentCalls (now_ms clk) (callHistory s) = [] \<longrightarrow> canMakeCall r)"
    by (simp add: checkQuotaLimits_rolled_over [OF d'] Let_def allowed_def)
  from getQuotaStatus_other_day [OF d', of rt]
  show "\<exists>q s'. getQuotaStatus rt clk s = (Inr q, s')
         \<and> dailyCallCount s' = 0 \<and> dailyTokenCount s' = 0 \<and> \<not> isQuotaExceeded s'
         \<and> lastResetDate s' = toDateString clk
         \<and> status_dailyCallCount q = 0 \<and> status_dailyTokenCount q = 0
         \<and> \<not> status_isQuotaExceeded q"
    by auto
next
  assume e: "toDateString clk = lastResetDate t"
  then have e': "lastResetDate t = toDateString clk" by simp
  show "resetDailyStatsIfNeeded rt clk t = (Inr (), t)"
    by (rule resetDailyStatsIfNeeded_same [OF e'])
  from checkQuotaLimits_keeps_counters [OF e', of rt]
  show "\<exists>r t'. checkQuotaLimits rt clk t = (Inr r, t')
            \<and> dailyCallCount t' = dailyCallCount t \<and> dailyTokenCount t' = dailyTokenCount t
            \<and> lastResetDate t' = lastResetDate t"
    by blast
  from getQuotaStatus_same_day [OF e', of rt]
  show "\<exists>q. getQuotaStatus rt clk t = (Inr q, t)
            \<and> status_dailyCallCount q = dailyCallCount t
            \<and> status_dailyTokenCount q = dailyTokenCount t"
    by blast
qed


theorem daily_rollover_witness:
  "(\<exists>r s'. checkQuotaLimits example_runtime (clock_at ''Tue Nov 03 2026'' 90000000)
               ((example_service 50 15000 [])\<lparr>isQuotaExceeded := True\<rparr>) = (Inr r, s')
         \<and> canMakeCall r
         \<and> dailyCallCount s' = 0 \<and> dailyTokenCount s' = 0 \<and> \<not> isQuotaExceeded s'
         \<and> lastResetDate s' = ''Tue Nov 03 2026'')
   \<and> (\<exists>r t'. checkQuotaLimits example_runtime (clock_at ''Mon Nov 02 2026'' 5000)
                (example_service 7 900 []) = (Inr r, t')
         \<and> dailyCallCount t' = 7 \<and> dailyTokenCount t' = 900)"
proof -
  let ?s = "(example_service 50 15000 [])\<lparr>isQuotaExceeded := True\<rparr>"
  let ?t = "example_service 7 900 []"
  have d: "toDateString (clock_at ''Tue Nov 03 2026'' 90000000) \<noteq> lastResetDate ?s"
    by (simp add: clock_at_def example_service_def)
  have w: "recentCalls (now_ms (clock_at ''Tue Nov 03 2026'' 90000000)) (callHistory ?s) = []"
    by (simp add: recentCalls_def example_service_def)
  have e: "toDateString (clock_at ''Mon Nov 02 2026'' 5000) = lastResetDate ?t"
    by (simp add: clock_at_def example_service_def)
  from daily_rollover [of "clock_at ''Tue Nov 03 2026'' 90000000" ?s example_runtime] d w
  have first: "\<exists>r s'. checkQuotaLimits example_runtime (clock_at ''Tue Nov 03 2026'' 90000000) ?s
                 = (Inr r, s')
         \<and> canMakeCall r
         \<and> dailyCallCount s' = 0 \<and> dailyTokenCount s' = 0 \<and> \<not> isQuotaExceeded s'
         \<and> lastResetDate s' = toDateString (clock_at ''Tue Nov 03 2026'' 90000000)"
    by blast
  from daily_rollover [of "clock_at ''Mon Nov 02 2026'' 5000" _ example_runtime ?t] e
  have second: "\<exists>r t'. checkQuotaLimits example_runtime (clock_at ''Mon Nov 02 2026'' 5000) ?t
                 = (Inr r, t')
         \<and> dailyCallCount t' = dailyCallCount ?t \<and> dailyTokenCount t' = dailyTokenCount ?t"
    by blast
  have c: "dailyCallCount ?t = 7" "dailyTokenCount ?t = 900"
      "toDateString (clock_at ''Tue Nov 03 2026'' 90000000) = ''Tue Nov 03 2026''"
    by (simp_all add: example_service_def clock_at_def)
  from first second show ?thesis unfolding c by blast
qed

subsection \<open>The per-minute window\<close>

lemma keep_last_60_keeps_newest: "e \<in> set (keep_last_60 (h @ [e]))"
proof -
  have "keep_last_60 (h @ [e]) \<noteq> []" by (simp add: keep_last_60_def)
  moreover have "last (keep_last_60 (h @ [e])) = e" by (simp add: keep_last_60_def)
  ultimately show ?thesis using last_in_set by metis
qed

lemma wait_positive:
  assumes "recentCalls now h \<noteq> []"
  shows "min_list (map timestamp (recentCalls now h)) = Min (timestamp ` set (recentCalls now h))"
    and "0 < \<lceil>(of_int (min_list (map timestamp (recentCalls now h)) + 60 * 1000 - now) :: rat) / 1000\<rceil>"
proof -
  let ?ts = "map timestamp (recentCalls now h)"
  have ne: "?ts \<noteq> []" using assms by simp
  show m: "min_list ?ts = Min (timestamp ` set (recentCalls now h))"
    using min_list_Min [OF ne] by simp
  have "Min (set ?ts) \<in> set ?ts" using ne by (intro Min_in) simp_all
  then obtain c where c: "c \<in> set (recentCalls now h)" and tc: "timestamp c = Min (set ?ts)"
    by auto
  from c have "timestamp c > now - 60 * 1000" by (simp add: recentCalls_def)
  then have "0 < min_list ?ts + 60 * 1000 - now" using tc min_list_Min [OF ne] by simp
  then have "0 < (of_int (min_list ?ts + 60 * 1000 - now) :: rat) / 1000" by simp
  then show "0 < \<lceil>(of_int (min_list ?ts + 60 * 1000 - now) :: rat) / 1000\<rceil>"
    by (simp only: zero_less_ceiling)
qed

text \<open>
  Claim C4, as amended. \<open>checkQuotaLimits\<close> only reads \<open>callHistory\<close>; entries are pushed by
  \<open>updateQuotaUsage\<close>, which the service calls after the provider has answered. With the
  daily limits unmet on the current date, a check is allowed exactly when no recorded call
  lies in its trailing 60 seconds, and otherwise it is denied with a \<open>waitTime > 0\<close> that is
  the ceiling of the seconds until the oldest call of the window leaves it. So of two
  checks within 60 seconds the first is allowed and the second is denied when a usage was
  recorded between them (and the daily limits are still unmet after it); with no usage
  recorded, the second check is allowed like the first.
\<close>

theorem rate_limit_window:
  "(toDateString clk = lastResetDate s \<and> dailyCallCount s < DAILY_CALL_LIMIT
      \<and> dailyTokenCount s < DAILY_TOKEN_LIMIT \<longrightarrow>
      (recentCalls (now_ms clk) (callHistory s) = [] \<longrightarrow>
         checkQuotaLimits rt clk s = (Inr \<lparr>canMakeCall = True, reason = None, waitTime = None\<rparr>, s))
    \<and> (recentCalls (now_ms clk) (callHistory s) \<noteq> [] \<longrightarrow>
         (\<exists>w. checkQuotaLimits rt clk s =
                 (Inr \<lparr>canMakeCall = False, reason = Some (rate_limit_reason w), waitTime = Some w\<rparr>, s)
            \<and> 0 < w
            \<and> w = \<lceil>(of_int (Min (timestamp ` set (recentCalls (now_ms clk) (callHistory s)))
                          + 60 * 1000 - now_ms clk) :: rat) / 1000\<rceil>)))
   \<and> (toDateString clk1 = lastResetDate s \<and> toDateString clk2 = lastResetDate s
        \<and> dailyCallCount s + 1 < DAILY_CALL_LIMIT
        \<and> dailyTokenCount s < DAILY_TOKEN_LIMIT \<and> dailyTokenCount s + toks < DAILY_TOKEN_LIMIT
        \<and> recentCalls (now_ms clk1) (callHistory s) = []
        \<and> now_ms clk2 - 60 * 1000 < now_ms clk_u \<longrightarrow>
      checkQuotaLimits rt clk1 s = (Inr \<lparr>canMakeCall = True, reason = None, waitTime = None\<rparr>, s)
    \<and> (\<exists>u w. updateQuotaUsage rt clk_u toks s = (Inr (), u)
          \<and> checkQuotaLimits rt clk2 u =
                 (Inr \<lparr>canMakeCall = False, reason = Some (rate_limit_reason w), waitTime = Some w\<rparr>, u)
          \<and> 0 < w
          \<and> w = \<lceil>(of_int (Min (timestamp ` set (recentCalls (now_ms clk2) (callHistory u)))
                        + 60 * 1000 - now_ms clk2) :: rat) / 1000\<rceil>))"
proof (intro conjI impI)
  assume a: "toDateString clk = lastResetDate s \<and> dailyCallCount s < DAILY_CALL_LIMIT
      \<and> dailyTokenCount s < DAILY_TOKEN_LIMIT"
  {
    assume "recentCalls (now_ms clk) (callHistory s) = []"
    then show "checkQuotaLimits rt clk s = (Inr \<lparr>canMakeCall = True, reason = None, waitTime = None\<rparr>, s)"
      using a by (simp add: checkQuotaLimits_same_day allowed_def)
  }
  {
    assume ne: "recentCalls (now_ms clk) (callHistory s) \<noteq> []"
    let ?w = "\<lceil>(of_int (min_list (map timestamp (recentCalls (now_ms clk) (callHistory s)))
                        + 60 * 1000 - now_ms clk) :: rat) / 1000\<rceil>"
    have run: "checkQuotaLimits rt clk s = (Inr (denied (rate_limit_reason ?w) (Some ?w)), s)"
      using a ne by (simp add: checkQuotaLimits_same_day Let_def)
    show "\<exists>w. checkQuotaLimits rt clk s =
                 (Inr \<lparr>canMakeCall = False, reason = Some (rate_limit_reason w), waitTime = Some w\<rparr>, s)
            \<and> 0 < w
            \<and> w = \<lceil>(of_int (Min (timestamp ` set (recentCalls (now_ms clk) (callHistory s)))
                          + 60 * 1000 - now_ms clk) :: rat) / 1000\<rceil>"
      using run wait_positive [OF ne] by (simp add: denied_def)
  }
next
  assume b: "toDateString clk1 = lastResetDate s \<and> toDateString clk2 = lastResetDate s
        \<and> dailyCallCount s + 1 < DAILY_CALL_LIMIT
        \<and> dailyTokenCount s < DAILY_TOKEN_LIMIT \<and> dailyTokenCount s + toks < DAILY_TOKEN_LIMIT
        \<and> recentCalls (now_ms clk1) (callHistory s) = []
        \<and> now_ms clk2 - 60 * 1000 < now_ms clk_u"
  show "checkQuotaLimits rt clk1 s = (Inr \<lparr>canMakeCall = True, reason = None, waitTime = None\<rparr>, s)"
    using b by (simp add: checkQuotaLimits_same_day allowed_def)
  obtain u where upd: "updateQuotaUsage rt clk_u toks s = (Inr (), u)"
    and u1: "dailyCallCount u = dailyCallCount s + 1"
    and u2: "dailyTokenCount u = dailyTokenCount s + toks"
    and u3: "callHistory u = keep_last_60 (callHistory s @ [\<lparr>timestamp = now_ms clk_u, tokens = toks\<rparr>])"
    and u4: "lastResetDate u = lastResetDate s"
    by (simp add: updateQuotaUsage_eq Let_def)
  have m: "\<lparr>timestamp = now_ms clk_u, tokens = toks\<rparr> \<in> set (callHistory u)"
    unfolding u3 by (rule keep_last_60_keeps_newest)
  have "now_ms clk2 - 60 * 1000 < timestamp \<lparr>timestamp = now_ms clk_u, tokens = toks\<rparr>"
    using b by simp
  with m have "\<exists>c \<in> set (callHistory u). now_ms clk2 - 60 * 1000 < timestamp c"
    by (rule rev_bexI)
  then have ne: "recentCalls (now_ms clk2) (callHistory u) \<noteq> []"
    by (simp add: recentCalls_def filter_empty_conv)
  let ?w = "\<lceil>(of_int (min_list (map timestamp (recentCalls (now_ms clk2) (callHistory u)))
                        + 60 * 1000 - now_ms clk2) :: rat) / 1000\<rceil>"
  have run: "checkQuotaLimits rt clk2 u = (Inr (denied (rate_limit_reason ?w) (Some ?w)), u)"
    using b ne u1 u2 u4 by (simp add: checkQuotaLimits_same_day Let_def)
  show "\<exists>u w. updateQuotaUsage rt clk_u toks s = (Inr (), u)
          \<and> checkQuotaLimits rt clk2 u =
                 (Inr \<lparr>canMakeCall = False, reason = Some (rate_limit_reason w), waitTime = Some w\<rparr>, u)
          \<and> 0 < w
          \<and> w = \<lceil>(of_int (Min (timestamp ` set (recentCalls (now_ms clk2) (callHistory u)))
                        + 60 * 1000 - now_ms clk2) :: rat) / 1000\<rceil>"
    using upd run wait_positive [OF ne] by (simp add: denied_def)
qed


theorem rate_limit_window_witness:
  "checkQuotaLimits example_runtime (clock_at ''Mon Nov 02 2026'' 1000) (example_service 0 0 [])
     = (Inr \<lparr>canMakeCall = True, reason = None, waitTime = None\<rparr>, example_service 0 0 [])
   \<and> (\<exists>u. updateQuotaUsage example_runtime (clock_at ''Mon Nov 02 2026'' 3000) 120
              (example_service 0 0 []) = (Inr (), u)
        \<and> callHistory u = [\<lparr>timestamp = 3000, tokens = 120\<rparr>]
        \<and> checkQuotaLimits example_runtime (clock_at ''Mon Nov 02 2026'' 4000) u
             = (Inr \<lparr>canMakeCall = False, reason = Some (rate_limit_reason 59), waitTime = Some 59\<rparr>, u))"
proof -
  let ?s = "example_service 0 0 []"
  let ?c1 = "clock_at ''Mon Nov 02 2026'' 1000"
  let ?cu = "clock_at ''Mon Nov 02 2026'' 3000"
  let ?c2 = "clock_at ''Mon Nov 02 2026'' 4000"
  have b: "toDateString ?c1 = lastResetDate ?s \<and> toDateString ?c2 = lastResetDate ?s
        \<and> dailyCallCount ?s + 1 < DAILY_CALL_LIMIT
        \<and> dailyTokenCount ?s < DAILY_TOKEN_LIMIT \<and> dailyTokenCount ?s + 120 < DAILY_TOKEN_LIMIT
        \<and> recentCalls (now_ms ?c1) (callHistory ?s) = []
        \<and> now_ms ?c2 - 60 * 1000 < now_ms ?cu"
    by (simp add: example_service_def clock_at_def DAILY_CALL_LIMIT_def DAILY_TOKEN_LIMIT_def
        recentCalls_def)
  from rate_limit_window [where s = ?s and rt = example_runtime and ?clk1.0 = ?c1 and ?clk2.0 = ?c2
      and toks = 120 and clk_u = ?cu] b
  obtain u w where first: "checkQuotaLimits example_runtime ?c1 ?s
        = (Inr \<lparr>canMakeCall = True, reason = None, waitTime = None\<rparr>, ?s)"
    and upd: "updateQuotaUsage example_runtime ?cu 120 ?s = (Inr (), u)"
    and chk: "checkQuotaLimits example_runtime ?c2 u
        = (Inr \<lparr>canMakeCall = False, reason = Some (rate_limit_reason w), waitTime = Some w\<rparr>, u)"
    and w: "w = \<lceil>(of_int (Min (timestamp ` set (recentCalls (now_ms ?c2) (callHistory u)))
                        + 60 * 1000 - now_ms ?c2) :: rat) / 1000\<rceil>"
    by blast
  have h: "callHistory u = [\<lparr>timestamp = 3000, tokens = 120\<rparr>]"
    using upd by (auto simp add: updateQuotaUsage_eq Let_def keep_last_60_def example_service_def
        clock_at_def)
  have "w = 59"
    unfolding w h by (simp add: recentCalls_def clock_at_def)
  with first upd chk h show ?thesis by simp
qed

text \<open>
  Claim C4 as stated fails: \<open>checkQuotaLimits\<close> records nothing, so two checks one second
  apart, with no usage recorded between them, are both allowed.
\<close>

theorem two_checks_both_allowed:
  "checkQuotaLimits example_runtime (clock_at ''Mon Nov 02 2026'' 1000) (example_service 0 0 [])
     = (Inr \<lparr>canMakeCall = True, reason = None, waitTime = None\<rparr>, example_service 0 0 [])
   \<and> checkQuotaLimits example_runtime (clock_at ''Mon Nov 02 2026'' 2000)
       (snd (checkQuotaLimits example_runtime (clock_at ''Mon Nov 02 2026'' 1000)
               (example_service 0 0 [])))
     = (Inr \<lparr>canMakeCall = True, reason = None, waitTime = None\<rparr>, example_service 0 0 [])"
proof -
  have same: "lastResetDate (example_service 0 0 []) = toDateString (clock_at ''Mon Nov 02 2026'' ms)"
    for ms by (simp add: example_service_def clock_at_def)
  have run: "checkQuotaLimits example_runtime (clock_at ''Mon Nov 02 2026'' ms) (example_service 0 0 [])
     = (Inr \<lparr>canMakeCall = True, reason = None, waitTime = None\<rparr>, example_service 0 0 [])" for ms
    unfolding checkQuotaLimits_same_day [OF same]
    by (simp add: example_service_def DAILY_CALL_LIMIT_def DAILY_TOKEN_LIMIT_def recentCalls_def
        allowed_def)
  show ?thesis by (simp add: run)
qed

subsection \<open>Denied attempts\<close>

lemma checkQuotaLimits_total:
  "\<exists>r s'. checkQuotaLimits rt clk s = (Inr r, s')
     \<and> (canMakeCall r \<longrightarrow> reason r = None \<and> waitTime r = None)
     \<and> (\<not> canMakeCall r \<longrightarrow> reason r \<noteq> None)
     \<and> generateContent_log s' = generateContent_log s
     \<and> callHistory s' = callHistory s
     \<and> (dailyCallCount s', dailyTokenCount s') = counters_after_check clk s
     \<and> callCount s' = callCount s"
proof (cases "lastResetDate s = toDateString clk")
  case True
  then show ?thesis
    by (simp add: checkQuotaLimits_same_day Let_def allowed_def denied_def counters_after_check_def
        marked_exceeded_def)
next
  case False
  then show ?thesis
    by (auto simp add: checkQuotaLimits_rolled_over Let_def allowed_def denied_def
        counters_after_check_def rolled_over_def)
qed

lemma checkQuotaLimits_callCount:
  "fst (checkQuotaLimits rt clk (s\<lparr>callCount := n\<rparr>)) = fst (checkQuotaLimits rt clk s)"
proof (cases "lastResetDate s = toDateString clk")
  case True
  then show ?thesis
    by (simp add: checkQuotaLimits_same_day Let_def)
next
  case False
  then show ?thesis
    by (simp add: checkQuotaLimits_rolled_over Let_def)
qed


lemma generateDebateResponse_denied:
  assumes "fst (checkQuotaLimits rt clk s) = Inr r" and "\<not> canMakeCall r"
  shows "\<exists>e s2. generateDebateResponse tp rt clk clk_done gen subject arg side n
                  hist s = (Inl e, s2)
     \<and> generateContent_log s2 = generateContent_log s \<and> callHistory s2 = callHistory s
     \<and> (dailyCallCount s2, dailyTokenCount s2) =
         (if isConfigured s then counters_after_check clk s
          else (dailyCallCount s, dailyTokenCount s))"
proof -
  let ?s0 = "s\<lparr>callCount := callCount s + 1\<rparr>"
  from checkQuotaLimits_total [of rt clk ?s0] obtain r0 s1 where
    chk: "checkQuotaLimits rt clk ?s0 = (Inr r0, s1)"
    and lg: "generateContent_log s1 = generateContent_log ?s0"
    and hs: "callHistory s1 = callHistory ?s0"
    and cn: "(dailyCallCount s1, dailyTokenCount s1) = counters_after_check clk ?s0"
    by blast
  have "fst (checkQuotaLimits rt clk ?s0) = Inr r"
    using assms(1) by (simp only: checkQuotaLimits_callCount)
  then have r0: "r0 = r" using chk by simp
  have cc: "counters_after_check clk ?s0 = counters_after_check clk s"
    by (simp add: counters_after_check_def)
  have conf: "isConfigured ?s0 = isConfigured s" by (simp add: isConfigured_def)
  show ?thesis
    using chk r0 assms(2) lg hs cn cc conf
    by (simp add: generateDebateResponse_def js_then_def js_bind_def js_modify_def js_read_def
        js_throw_def Let_def)
qed

lemma analyzeFeedback_denied:
  assumes "fst (checkQuotaLimits rt clk s) = Inr r" and "\<not> canMakeCall r"
  shows "\<exists>e s2. analyzeFeedback tp rt clk clk_done gen arg subject side n s
                  = (Inl e, s2)
     \<and> generateContent_log s2 = generateContent_log s \<and> callHistory s2 = callHistory s
     \<and> (dailyCallCount s2, dailyTokenCount s2) =
         (if isConfigured s then counters_after_check clk s
          else (dailyCallCount s, dailyTokenCount s))"
proof -
  let ?s0 = "s\<lparr>callCount := callCount s + 1\<rparr>"
  from checkQuotaLimits_total [of rt clk ?s0] obtain r0 s1 where
    chk: "checkQuotaLimits rt clk ?s0 = (Inr r0, s1)"
    and lg: "generateContent_log s1 = generateContent_log ?s0"
    and hs: "callHistory s1 = callHistory ?s0"
    and cn: "(dailyCallCount s1, dailyTokenCount s1) = counters_after_check clk ?s0"
    by blast
  have "fst (checkQuotaLimits rt clk ?s0) = Inr r"
    using assms(1) by (simp only: checkQuotaLimits_callCount)
  then have r0: "r0 = r" using chk by simp
  have cc: "counters_after_check clk ?s0 = counters_after_check clk s"
    by (simp add: counters_after_check_def)
  have conf: "isConfigured ?s0 = isConfigured s" by (simp add: isConfigured_def)
  show ?thesis
    using chk r0 assms(2) lg hs cn cc conf
    by (simp add: analyzeFeedback_def js_then_def js_bind_def js_modify_def js_read_def
        js_throw_def Let_def)
qed

text \<open>
  Claim C3, as amended. \<open>checkQuotaLimits\<close> never throws: it always returns a result,
  which is an allowance or carries a reason. Whenever it returns \<open>canMakeCall = false\<close>,
  \<open>generateDebateResponse\<close> and \<open>analyzeFeedback\<close> raise an error without invoking the
  provider's \<open>generateContent\<close> and without recording usage: \<open>callHistory\<close> is unchanged and
  \<open>dailyCallCount\<close> and \<open>dailyTokenCount\<close> keep their values, except that the lazy rollover
  of the check sets them to 0 when the current date differs from \<open>lastResetDate\<close> (the
  check is made only when the service is configured).
\<close>

theorem denied_attempt_records_nothing:
  "(\<exists>r s'. checkQuotaLimits rt clk s = (Inr r, s') \<and> (canMakeCall r \<or> reason r \<noteq> None))
   \<and> (fst (checkQuotaLimits rt clk s) = Inr q \<and> \<not> canMakeCall q \<longrightarrow>
        (\<exists>e s2. generateDebateResponse tp rt clk clk_done gen subject arg side n
                   hist s = (Inl e, s2)
           \<and> generateContent_log s2 = generateContent_log s
           \<and> callHistory s2 = callHistory s
           \<and> dailyCallCount s2 =
               (if isConfigured s \<and> toDateString clk \<noteq> lastResetDate s then 0 else dailyCallCount s)
           \<and> dailyTokenCount s2 =
               (if isConfigured s \<and> toDateString clk \<noteq> lastResetDate s then 0 else dailyTokenCount s))
      \<and> (\<exists>e s2. analyzeFeedback tp rt clk clk_done gen arg subject side n s
                   = (Inl e, s2)
           \<and> generateContent_log s2 = generateContent_log s
           \<and> callHistory s2 = callHistory s
           \<and> dailyCallCount s2 =
               (if isConfigured s \<and> toDateString clk \<noteq> lastResetDate s then 0 else dailyCallCount s)
           \<and> dailyTokenCount s2 =
               (if isConfigured s \<and> toDateString clk \<noteq> lastResetDate s then 0 else dailyTokenCount s)))"
proof (intro conjI impI)
  from checkQuotaLimits_total [of rt clk s]
  show "\<exists>r s'. checkQuotaLimits rt clk s = (Inr r, s') \<and> (canMakeCall r \<or> reason r \<noteq> None)"
    by blast
next
  assume d: "fst (checkQuotaLimits rt clk s) = Inr q \<and> \<not> canMakeCall q"
  from generateDebateResponse_denied [of rt clk s q tp clk_done gen subject arg side
      n hist] d
  show "\<exists>e s2. generateDebateResponse tp rt clk clk_done gen subject arg side n
                   hist s = (Inl e, s2)
           \<and> generateContent_log s2 = generateContent_log s
           \<and> callHistory s2 = callHistory s
           \<and> dailyCallCount s2 =
               (if isConfigured s \<and> toDateString clk \<noteq> lastResetDate s then 0 else dailyCallCount s)
           \<and> dailyTokenCount s2 =
               (if isConfigured s \<and> toDateString clk \<noteq> lastResetDate s then 0 else dailyTokenCount s)"
    by (auto simp add: counters_after_check_def split: if_splits)
next
  assume d: "fst (checkQuotaLimits rt clk s) = Inr q \<and> \<not> canMakeCall q"
  from analyzeFeedback_denied [of rt clk s q tp clk_done gen arg subject side n] d
  show "\<exists>e s2. analyzeFeedback tp rt clk clk_done gen arg subject side n s
                   = (Inl e, s2)
           \<and> generateContent_log s2 = generateContent_log s
           \<and> callHistory s2 = callHistory s
           \<and> dailyCallCount s2 =
               (if isConfigured s \<and> toDateString clk \<noteq> lastResetDate s then 0 else dailyCallCount s)
           \<and> dailyTokenCount s2 =
               (if isConfigured s \<and> toDateString clk \<noteq> lastResetDate s then 0 else dailyTokenCount s)"
    by (auto simp add: counters_after_check_def split: if_splits)
qed


theorem denied_attempt_records_nothing_witness:
  "(\<exists>e s2. generateDebateResponse example_templates example_runtime
               (clock_at ''Mon Nov 02 2026'' 5000) (clock_at ''Mon Nov 02 2026'' 6000)
               example_provider ''Homework should be banned'' ''It wastes time'' con 1 []
               (example_service 50 700 []) = (Inl e, s2)
       \<and> generateContent_log s2 = [] \<and> callHistory s2 = []
       \<and> dailyCallCount s2 = 50 \<and> dailyTokenCount s2 = 700)
   \<and> (\<exists>e s2. analyzeFeedback example_templates example_runtime
               (clock_at ''Mon Nov 02 2026'' 5000) (clock_at ''Mon Nov 02 2026'' 6000)
               example_provider ''It wastes time'' ''Homework should be banned'' pro 1
               (example_service 50 700 []) = (Inl e, s2)
       \<and> generateContent_log s2 = [] \<and> callHistory s2 = []
       \<and> dailyCallCount s2 = 50 \<and> dailyTokenCount s2 = 700)"
proof -
  let ?s = "example_service 50 700 []"
  let ?c = "clock_at ''Mon Nov 02 2026'' 5000"
  have same: "lastResetDate ?s = toDateString ?c"
    by (simp add: example_service_def clock_at_def)
  have d: "fst (checkQuotaLimits example_runtime ?c ?s) = Inr (denied call_limit_reason None)
      \<and> \<not> canMakeCall (denied call_limit_reason None)"
    unfolding checkQuotaLimits_same_day [OF same]
    by (simp add: example_service_def DAILY_CALL_LIMIT_def denied_def)
  have f: "generateContent_log ?s = []" "callHistory ?s = []" "dailyCallCount ?s = 50"
      "dailyTokenCount ?s = 700" "toDateString ?c = lastResetDate ?s"
    by (simp_all add: example_service_def clock_at_def)
  from denied_attempt_records_nothing [where rt = example_runtime and clk = ?c and s = ?s
      and q = "denied call_limit_reason None" and tp = example_templates
      and clk_done = "clock_at ''Mon Nov 02 2026'' 6000" and gen = example_provider
      and subject = "''Homework should be banned''" and arg = "''It wastes time''"
      and side = con and n = 1 and hist = "[]"] d
  have g: "\<exists>e s2. generateDebateResponse example_templates example_runtime ?c
               (clock_at ''Mon Nov 02 2026'' 6000)
               example_provider ''Homework should be banned'' ''It wastes time'' con 1 [] ?s
                 = (Inl e, s2)
       \<and> generateContent_log s2 = [] \<and> callHistory s2 = []
       \<and> dailyCallCount s2 = 50 \<and> dailyTokenCount s2 = 700"
    unfolding f by simp
  from denied_attempt_records_nothing [where rt = example_runtime and clk = ?c and s = ?s
      and q = "denied call_limit_reason None" and tp = example_templates
      and clk_done = "clock_at ''Mon Nov 02 2026'' 6000" and gen = example_provider
      and subject = "''Homework should be banned''" and arg = "''It wastes time''"
      and side = pro and n = 1 and hist = "[]"] d
  have a: "\<exists>e s2. analyzeFeedback example_templates example_runtime ?c
               (clock_at ''Mon Nov 02 2026'' 6000)
               example_provider ''It wastes time'' ''Homework should be banned'' pro 1 ?s
                 = (Inl e, s2)
       \<and> generateContent_log s2 = [] \<and> callHistory s2 = []
       \<and> dailyCallCount s2 = 50 \<and> dailyTokenCount s2 = 700"
    unfolding f by simp
  from g a show ?thesis by blast
qed

text \<open>
  Claim C3 as stated fails in its last part: a denied attempt changes the daily counters
  when it is the first operation of a new day. Here a call was recorded at 23:59:50, and
  fifteen seconds later, on the next date, an attempt is denied by the rate limit (45
  seconds to wait) while the rollover of its check has reset \<open>dailyCallCount\<close> from 5 to 0
  and \<open>dailyTokenCount\<close> from 700 to 0.
\<close>

theorem denied_attempt_resets_counters:
  "fst (checkQuotaLimits example_runtime (clock_at ''Tue Nov 03 2026'' 86405000) late_call_service)
     = Inr \<lparr>canMakeCall = False, reason = Some (rate_limit_reason 45), waitTime = Some 45\<rparr>
   \<and> dailyCallCount late_call_service = 5
   \<and> dailyTokenCount late_call_service = 700
   \<and> dailyCallCount (snd (generateDebateResponse example_templates example_runtime
        (clock_at ''Tue Nov 03 2026'' 86405000) (clock_at ''Tue Nov 03 2026'' 86406000)
        example_provider ''Homework should be banned'' ''It wastes time'' con 1 []
        late_call_service)) = 0
   \<and> dailyTokenCount (snd (analyzeFeedback example_templates example_runtime
        (clock_at ''Tue Nov 03 2026'' 86405000) (clock_at ''Tue Nov 03 2026'' 86406000)
        example_provider ''It wastes time'' ''Homework should be banned'' pro 1
        late_call_service)) = 0"
proof -
  let ?s = late_call_service
  let ?c = "clock_at ''Tue Nov 03 2026'' 86405000"
  let ?q = "\<lparr>canMakeCall = False, reason = Some (rate_limit_reason 45), waitTime = Some 45\<rparr>"
  have other: "lastResetDate ?s \<noteq> toDateString ?c"
    by (simp add: late_call_service_def example_service_def clock_at_def)
  have chk: "fst (checkQuotaLimits example_runtime ?c ?s) = Inr ?q"
    unfolding checkQuotaLimits_rolled_over [OF other]
    by (simp add: late_call_service_def example_service_def clock_at_def recentCalls_def denied_def)
  have cnt: "counters_after_check ?c ?s = (0, 0)" "isConfigured ?s"
    "dailyCallCount ?s = 5" "dailyTokenCount ?s = 700"
    by (simp_all add: counters_after_check_def late_call_service_def example_service_def
        clock_at_def isConfigured_def)
  have nq: "\<not> canMakeCall ?q" by simp
  from generateDebateResponse_denied [OF chk nq, of example_templates
      "clock_at ''Tue Nov 03 2026'' 86406000" example_provider "''Homework should be banned''"
      "''It wastes time''" con 1 "[]"]
  have g: "dailyCallCount (snd (generateDebateResponse example_templates example_runtime ?c
        (clock_at ''Tue Nov 03 2026'' 86406000)
        example_provider ''Homework should be banned'' ''It wastes time'' con 1 [] ?s)) = 0"
    using cnt by auto
  from analyzeFeedback_denied [OF chk nq, of example_templates
      "clock_at ''Tue Nov 03 2026'' 86406000" example_provider "''It wastes time''"
      "''Homework should be banned''" pro 1]
  have a: "dailyTokenCount (snd (analyzeFeedback example_templates example_runtime ?c
        (clock_at ''Tue Nov 03 2026'' 86406000)
        example_provider ''It wastes time'' ''Homework should be banned'' pro 1 ?s)) = 0"
    using cnt by auto
  from chk cnt g a show ?thesis by simp
qed

subsection \<open>Sanitised feedback\<close>

lemma clamp_score:
  "\<exists>q. Math_max (Fin 0) (Math_min (Fin 100) (or_zero x)) = Fin q \<and> 0 \<le> q \<and> q \<le> 100"
  by (cases x) auto

lemma clamp_NaN: "Math_max (Fin 0) (Math_min (Fin 100) (or_zero NaN)) = Fin 0"
  by simp

lemma array_slice3_length: "length (array_slice3 v) \<le> 3"
  by (simp add: array_slice3_def split: option.splits jsval.splits)

lemma array_slice3_not_array: "(\<forall>xs. v \<noteq> Some (JArr xs)) \<Longrightarrow> array_slice3 v = []"
  by (simp add: array_slice3_def split: option.splits jsval.splits)

lemma array_or_empty_not_array: "(\<forall>xs. v \<noteq> Some (JArr xs)) \<Longrightarrow> array_or_empty v = []"
  by (simp add: array_or_empty_def split: option.splits jsval.splits)

lemma validatedFeedback_Inr:
  assumes "validatedFeedback rt json = Inr fb"
  shows "\<exists>sc st im fa su.
      get_prop json ''score'' = Inr sc \<and> get_prop json ''strengths'' = Inr st
    \<and> get_prop json ''improvements'' = Inr im \<and> get_prop json ''fallaciesDetected'' = Inr fa
    \<and> get_prop json ''suggestions'' = Inr su
    \<and> fb = \<lparr>score = Math_max (Fin 0) (Math_min (Fin 100) (or_zero (Number rt sc))),
             strengths = array_slice3 st, improvements = array_slice3 im,
             fallaciesDetected = array_or_empty fa, suggestions = array_slice3 su\<rparr>"
  using assms
  by (auto simp add: validatedFeedback_def sum_bind_def split: sum.splits)

lemma feedback_catch_throws: "\<exists>e' s'. feedback_catch cid e s = (Inl e', s')"
  by (simp add: feedback_catch_def js_then_def js_bind_def js_throw_def invalidate_key_def
      js_modify_def Let_def)

lemma js_try_feedback_catch:
  assumes "js_try m (feedback_catch cid) s = (Inr fb, s')"
  shows "m s = (Inr fb, s')"
proof (cases "m s")
  case (Pair res t)
  show ?thesis
  proof (cases res)
    case (Inl e)
    from feedback_catch_throws [of cid e t] obtain e' t' where "feedback_catch cid e t = (Inl e', t')"
      by blast
    with assms Pair Inl show ?thesis by (simp add: js_try_def)
  next
    case (Inr x)
    with assms Pair show ?thesis by (simp add: js_try_def)
  qed
qed

lemma analyzeFeedback_success:
  assumes "analyzeFeedback tp rt clk clk_done gen arg subject side n s = (Inr fb, s')"
  shows "\<exists>prompt raw. gen prompt = Inr raw \<and> parse_feedback rt (String_trim rt raw) = Inr fb"
proof -
  let ?s0 = "s\<lparr>callCount := callCount s + 1\<rparr>"
  let ?cid = "''FEEDBACK-'' @ show_int (callCount s + 1) @ ''-'' @ show_int (now_ms clk)"
  let ?prompt = "feedbackPrompt tp arg subject side n ?cid"
  from checkQuotaLimits_total [of rt clk ?s0] obtain r s1 where
    chk: "checkQuotaLimits rt clk ?s0 = (Inr r, s1)" by blast
  have conf: "isConfigured ?s0" and can: "canMakeCall r"
    using assms chk
    by (auto simp add: analyzeFeedback_def js_then_def js_bind_def js_modify_def js_read_def
        js_throw_def Let_def split: if_splits)
  let ?body = "js_bind (call_provider gen ?prompt) (\<lambda>raw.
                    let text = String_trim rt raw;
                        estimatedTokens = estimateTokens ?prompt text
                    in js_then (updateQuotaUsage rt clk_done estimatedTokens)
                         (js_try (js_lift (parse_feedback rt text))
                            (\<lambda>parseError. js_throw (Error (tag ?cid
                               @ ''Failed to parse feedback from AI API. Please try again.'')))))"
  have "js_try ?body (feedback_catch ?cid) s1 = (Inr fb, s')"
    using assms chk conf can
    by (simp add: analyzeFeedback_def js_then_def js_bind_def js_modify_def js_read_def Let_def)
  then have body: "?body s1 = (Inr fb, s')" by (rule js_try_feedback_catch)
  then obtain raw where raw: "gen ?prompt = Inr raw"
    by (cases "gen ?prompt") (auto simp add: js_bind_def call_provider_def)
  from body raw have "parse_feedback rt (String_trim rt raw) = Inr fb"
    by (auto simp add: js_bind_def call_provider_def js_then_def updateQuotaUsage_eq Let_def
        js_try_def js_lift_def js_throw_def split: sum.splits)
  with raw show ?thesis by blast
qed


text \<open>
  Claim C10. Whatever the provider answers and whatever \<open>JSON.parse\<close> makes of it, a
  \<open>Feedback\<close> that \<open>analyzeFeedback\<close> returns is the sanitised form of a value \<open>json\<close> that
  \<open>JSON.parse\<close> returned: its score is a finite number in the closed interval from 0 to
  100, and is 0 when \<open>Number(json.score)\<close> is not a number; \<open>strengths\<close>, \<open>improvements\<close>
  and \<open>suggestions\<close> are the first three entries of the corresponding array, so have at
  most 3 entries; and each of the four list fields is the empty list when the
  corresponding property of \<open>json\<close> is not an array.
\<close>

theorem analyzeFeedback_sanitized:
  "analyzeFeedback tp rt clk clk_done gen arg subject side n s = (Inr fb, s') \<longrightarrow>
     (\<exists>q. score fb = Fin q \<and> 0 \<le> q \<and> q \<le> 100)
   \<and> length (strengths fb) \<le> 3 \<and> length (improvements fb) \<le> 3 \<and> length (suggestions fb) \<le> 3
   \<and> (\<exists>jsonText json sc st im fa su.
         JSON_parse rt jsonText = Inr json
       \<and> get_prop json ''score'' = Inr sc \<and> get_prop json ''strengths'' = Inr st
       \<and> get_prop json ''improvements'' = Inr im \<and> get_prop json ''fallaciesDetected'' = Inr fa
       \<and> get_prop json ''suggestions'' = Inr su
       \<and> (Number rt sc = NaN \<longrightarrow> score fb = Fin 0)
       \<and> strengths fb = (case st of Some (JArr xs) \<Rightarrow> take 3 xs | _ \<Rightarrow> [])
       \<and> improvements fb = (case im of Some (JArr xs) \<Rightarrow> take 3 xs | _ \<Rightarrow> [])
       \<and> fallaciesDetected fb = (case fa of Some (JArr xs) \<Rightarrow> xs | _ \<Rightarrow> [])
       \<and> suggestions fb = (case su of Some (JArr xs) \<Rightarrow> take 3 xs | _ \<Rightarrow> []))"
proof
  assume run: "analyzeFeedback tp rt clk clk_done gen arg subject side n s = (Inr fb, s')"
  from analyzeFeedback_success [OF run] obtain raw where
    p: "parse_feedback rt (String_trim rt raw) = Inr fb" by blast
  then obtain jsonText json where j: "JSON_parse rt jsonText = Inr json"
    and v: "validatedFeedback rt json = Inr fb"
    by (auto simp add: parse_feedback_def sum_bind_def split: sum.splits)
  from validatedFeedback_Inr [OF v] obtain sc st im fa su where
    g: "get_prop json ''score'' = Inr sc" "get_prop json ''strengths'' = Inr st"
       "get_prop json ''improvements'' = Inr im" "get_prop json ''fallaciesDetected'' = Inr fa"
       "get_prop json ''suggestions'' = Inr su"
    and fb: "fb = \<lparr>score = Math_max (Fin 0) (Math_min (Fin 100) (or_zero (Number rt sc))),
             strengths = array_slice3 st, improvements = array_slice3 im,
             fallaciesDetected = array_or_empty fa, suggestions = array_slice3 su\<rparr>"
    by blast
  have range: "\<exists>q. score fb = Fin q \<and> 0 \<le> q \<and> q \<le> 100"
    using clamp_score [of "Number rt sc"] by (simp add: fb)
  have lens: "length (strengths fb) \<le> 3" "length (improvements fb) \<le> 3"
      "length (suggestions fb) \<le> 3"
    by (simp_all add: fb array_slice3_length)
  have nan: "Number rt sc = NaN \<longrightarrow> score fb = Fin 0"
    by (simp add: fb)
  have lists: "strengths fb = (case st of Some (JArr xs) \<Rightarrow> take 3 xs | _ \<Rightarrow> [])"
      "improvements fb = (case im of Some (JArr xs) \<Rightarrow> take 3 xs | _ \<Rightarrow> [])"
      "fallaciesDetected fb = (case fa of Some (JArr xs) \<Rightarrow> xs | _ \<Rightarrow> [])"
      "suggestions fb = (case su of Some (JArr xs) \<Rightarrow> take 3 xs | _ \<Rightarrow> [])"
    by (simp_all add: fb array_slice3_def array_or_empty_def)
  from j g nan lists have
    "\<exists>jsonText json sc st im fa su.
         JSON_parse rt jsonText = Inr json
       \<and> get_prop json ''score'' = Inr sc \<and> get_prop json ''strengths'' = Inr st
       \<and> get_prop json ''improvements'' = Inr im \<and> get_prop json ''fallaciesDetected'' = Inr fa
       \<and> get_prop json ''suggestions'' = Inr su
       \<and> (Number rt sc = NaN \<longrightarrow> score fb = Fin 0)
       \<and> strengths fb = (case st of Some (JArr xs) \<Rightarrow> take 3 xs | _ \<Rightarrow> [])
       \<and> improvements fb = (case im of Some (JArr xs) \<Rightarrow> take 3 xs | _ \<Rightarrow> [])
       \<and> fallaciesDetected fb = (case fa of Some (JArr xs) \<Rightarrow> xs | _ \<Rightarrow> [])
       \<and> suggestions fb = (case su of Some (JArr xs) \<Rightarrow> take 3 xs | _ \<Rightarrow> [])"
    by blast
  with range lens show
    "(\<exists>q. score fb = Fin q \<and> 0 \<le> q \<and> q \<le> 100)
   \<and> length (strengths fb) \<le> 3 \<and> length (improvements fb) \<le> 3 \<and> length (suggestions fb) \<le> 3
   \<and> (\<exists>jsonText json sc st im fa su.
         JSON_parse rt jsonText = Inr json
       \<and> get_prop json ''score'' = Inr sc \<and> get_prop json ''strengths'' = Inr st
       \<and> get_prop json ''improvements'' = Inr im \<and> get_prop json ''fallaciesDetected'' = Inr fa
       \<and> get_prop json ''suggestions'' = Inr su
       \<and> (Number rt sc = NaN \<longrightarrow> score fb = Fin 0)
       \<and> strengths fb = (case st of Some (JArr xs) \<Rightarrow> take 3 xs | _ \<Rightarrow> [])
       \<and> improvements fb = (case im of Some (JArr xs) \<Rightarrow> take 3 xs | _ \<Rightarrow> [])
       \<and> fallaciesDetected fb = (case fa of Some (JArr xs) \<Rightarrow> xs | _ \<Rightarrow> [])
       \<and> suggestions fb = (case su of Some (JArr xs) \<Rightarrow> take 3 xs | _ \<Rightarrow> []))"
    by blast
qed

lemma analyzeFeedback_run:
  assumes conf: "isConfigured s" and same: "lastResetDate s = toDateString clk"
    and lim: "dailyCallCount s < DAILY_CALL_LIMIT" "dailyTokenCount s < DAILY_TOKEN_LIMIT"
    and win: "recentCalls (now_ms clk) (callHistory s) = []"
    and ans: "\<And>prompt. gen prompt = Inr raw"
    and pf: "parse_feedback rt (String_trim rt raw) = Inr fb"
  shows "\<exists>s'. analyzeFeedback tp rt clk clk_done gen arg subject side n s = (Inr fb, s')
     \<and> dailyCallCount s' = dailyCallCount s + 1 \<and> length (generateContent_log s') = Suc (length (generateContent_log s))"
proof -
  let ?s0 = "s\<lparr>callCount := callCount s + 1\<rparr>"
  have same0: "lastResetDate ?s0 = toDateString clk" using same by simp
  have chk: "checkQuotaLimits rt clk ?s0 = (Inr allowed, ?s0)"
    unfolding checkQuotaLimits_same_day [OF same0] using lim win by simp
  have conf0: "isConfigured ?s0" using conf by (simp add: isConfigured_def)
  show ?thesis
    using conf0
    by (simp add: analyzeFeedback_def js_then_def js_bind_def js_modify_def js_read_def Let_def
        chk allowed_def js_try_def call_provider_def ans pf updateQuotaUsage_eq js_lift_def)
qed

lemma example_feedback_run:
  "\<exists>s'. analyzeFeedback example_templates example_runtime
           (clock_at ''Mon Nov 02 2026'' 5000) (clock_at ''Mon Nov 02 2026'' 6000)
           example_provider ''It wastes time'' ''Homework should be banned'' pro 1
           (example_service 0 0 [])
      = (Inr \<lparr>score = Fin 100, strengths = [JStr ''a'', JStr ''b'', JStr ''c''],
              improvements = [], fallaciesDetected = [], suggestions = []\<rparr>, s')"
proof -
  have tr: "String_trim example_runtime feedback_text = feedback_text"
    by (simp add: example_runtime_def ascii_trim_def feedback_text_def is_ascii_space_def)
  have nf: "\<not> str_includes feedback_text fence"
    by (simp add: feedback_text_def fence_def numeral_3_eq_3)
  have nfj: "\<not> str_includes feedback_text (fence @ ''json'')"
    by (simp add: feedback_text_def fence_def numeral_3_eq_3)
  have ex: "extract_json example_runtime feedback_text = Inr feedback_text"
    using nf nfj by (simp add: extract_json_def)
  have ne: "feedback_text \<noteq> wrong_shape_text"
    by (simp add: feedback_text_def wrong_shape_text_def)
  have pf: "parse_feedback example_runtime (String_trim example_runtime feedback_text)
      = Inr \<lparr>score = Fin 100, strengths = [JStr ''a'', JStr ''b'', JStr ''c''],
              improvements = [], fallaciesDetected = [], suggestions = []\<rparr>"
    unfolding tr parse_feedback_def ex
    by (simp add: sum_bind_def example_runtime_def example_parse_def ne
        validatedFeedback_def array_slice3_def array_or_empty_def)
  have "\<exists>s'. analyzeFeedback example_templates example_runtime
           (clock_at ''Mon Nov 02 2026'' 5000) (clock_at ''Mon Nov 02 2026'' 6000)
           example_provider ''It wastes time'' ''Homework should be banned'' pro 1
           (example_service 0 0 [])
      = (Inr \<lparr>score = Fin 100, strengths = [JStr ''a'', JStr ''b'', JStr ''c''],
              improvements = [], fallaciesDetected = [], suggestions = []\<rparr>, s')
      \<and> dailyCallCount s' = dailyCallCount (example_service 0 0 []) + 1
      \<and> length (generateContent_log s') = Suc (length (generateContent_log (example_service 0 0 [])))"
  proof (rule analyzeFeedback_run [where raw = feedback_text])
    show "isConfigured (example_service 0 0 [])"
      by (simp add: isConfigured_def example_service_def)
    show "lastResetDate (example_service 0 0 []) = toDateString (clock_at ''Mon Nov 02 2026'' 5000)"
      by (simp add: example_service_def clock_at_def)
    show "dailyCallCount (example_service 0 0 []) < DAILY_CALL_LIMIT"
      by (simp add: example_service_def DAILY_CALL_LIMIT_def)
    show "dailyTokenCount (example_service 0 0 []) < DAILY_TOKEN_LIMIT"
      by (simp add: example_service_def DAILY_TOKEN_LIMIT_def)
    show "recentCalls (now_ms (clock_at ''Mon Nov 02 2026'' 5000))
        (callHistory (example_service 0 0 [])) = []"
      by (simp add: example_service_def recentCalls_def)
    show "example_provider prompt = Inr feedback_text" for prompt
      by (simp add: example_provider_def)
    show "parse_feedback example_runtime (String_trim example_runtime feedback_text)
      = Inr \<lparr>score = Fin 100, strengths = [JStr ''a'', JStr ''b'', JStr ''c''],
              improvements = [], fallaciesDetected = [], suggestions = []\<rparr>"
      by (rule pf)
  qed
  then show ?thesis by blast
qed

theorem analyzeFeedback_sanitized_witness:
  "\<exists>fb s'. analyzeFeedback example_templates example_runtime
           (clock_at ''Mon Nov 02 2026'' 5000) (clock_at ''Mon Nov 02 2026'' 6000)
           example_provider ''It wastes time'' ''Homework should be banned'' pro 1
           (example_service 0 0 []) = (Inr fb, s')
      \<and> score fb = Fin 100
      \<and> strengths fb = [JStr ''a'', JStr ''b'', JStr ''c'']
      \<and> improvements fb = []
      \<and> (\<exists>q. score fb = Fin q \<and> 0 \<le> q \<and> q \<le> 100)
      \<and> length (strengths fb) \<le> 3 \<and> length (improvements fb) \<le> 3 \<and> length (suggestions fb) \<le> 3"
proof -
  from example_feedback_run obtain s' where
    run: "analyzeFeedback example_templates example_runtime
           (clock_at ''Mon Nov 02 2026'' 5000) (clock_at ''Mon Nov 02 2026'' 6000)
           example_provider ''It wastes time'' ''Homework should be banned'' pro 1
           (example_service 0 0 [])
      = (Inr \<lparr>score = Fin 100, strengths = [JStr ''a'', JStr ''b'', JStr ''c''],
              improvements = [], fallaciesDetected = [], suggestions = []\<rparr>, s')"
    by blast
  from analyzeFeedback_sanitized [where tp = example_templates and rt = example_runtime
      and clk = "clock_at ''Mon Nov 02 2026'' 5000" and clk_done = "clock_at ''Mon Nov 02 2026'' 6000"
      and gen = example_provider and arg = "''It wastes time''"
      and subject = "''Homework should be banned''" and side = pro and n = 1
      and s = "example_service 0 0 []" and s' = s'
      and fb = "\<lparr>score = Fin 100, strengths = [JStr ''a'', JStr ''b'', JStr ''c''],
              improvements = [], fallaciesDetected = [], suggestions = []\<rparr>"] run
  have "(\<exists>q. score \<lparr>score = Fin 100, strengths = [JStr ''a'', JStr ''b'', JStr ''c''],
              improvements = [], fallaciesDetected = [], suggestions = []\<rparr> = Fin q \<and> 0 \<le> q \<and> q \<le> 100)
      \<and> length (strengths \<lparr>score = Fin 100, strengths = [JStr ''a'', JStr ''b'', JStr ''c''],
              improvements = [], fallaciesDetected = [], suggestions = []\<rparr>) \<le> 3"
    by blast
  with run show ?thesis by simp
qed

subsection \<open>Loading the persisted record\<close>

lemma loadDailyStats_object:
  assumes "getItem store stats_key = Inr (Some text)" and "text \<noteq> []"
    and "JSON_parse rt text = Inr (JObj kvs)"
  shows "loadDailyStats rt clk store f =
     (Inr (), \<lparr>loaded_dailyCallCount = js_or (map_of kvs ''callCount'') (JNum 0),
               loaded_dailyTokenCount = js_or (map_of kvs ''tokenCount'') (JNum 0),
               loaded_lastResetDate = js_or (map_of kvs ''lastResetDate'') (JStr (toDateString clk)),
               loaded_isQuotaExceeded = js_or (map_of kvs ''isQuotaExceeded'') (JBool False)\<rparr>)"
  using assms
  by (simp add: loadDailyStats_def js_try_def js_bind_def js_then_def js_lift_def js_modify_def
      js_return_def)

lemma loadDailyStats_not_object:
  assumes "getItem store stats_key = Inr (Some text)" and "text \<noteq> []"
    and "JSON_parse rt text = Inr json" and "\<forall>kvs. json \<noteq> JObj kvs"
  shows "loadDailyStats rt clk store f = (Inr (), if json = JNull then f else initial_fields clk)"
  using assms
  by (cases json)
    (simp_all add: loadDailyStats_def js_try_def js_bind_def js_then_def js_lift_def js_modify_def
      js_return_def js_or_def initial_fields_def)

lemma loadDailyStats_nothing:
  assumes "getItem store stats_key = Inl e \<or> getItem store stats_key = Inr None
     \<or> getItem store stats_key = Inr (Some [])
     \<or> (\<exists>text e'. getItem store stats_key = Inr (Some text) \<and> JSON_parse rt text = Inl e')"
  shows "loadDailyStats rt clk store f = (Inr (), f)"
  using assms
  by (auto simp add: loadDailyStats_def js_try_def js_bind_def js_then_def js_lift_def js_modify_def
      js_return_def)

lemma loadDailyStats_total: "\<exists>f'. loadDailyStats rt clk store f = (Inr (), f')"
proof (cases "getItem store stats_key")
  case (Inl e)
  then show ?thesis by (simp add: loadDailyStats_nothing)
next
  case (Inr saved)
  show ?thesis
  proof (cases saved)
    case None
    with Inr show ?thesis by (simp add: loadDailyStats_nothing)
  next
    case (Some str)
    show ?thesis
    proof (cases "str = []")
      case True
      with Inr Some show ?thesis by (simp add: loadDailyStats_nothing)
    next
      case False
      show ?thesis
      proof (cases "JSON_parse rt str")
        case (Inl e')
        with Inr Some show ?thesis by (simp add: loadDailyStats_nothing)
      next
        case parsed: (Inr json)
        show ?thesis
        proof (cases "\<exists>kvs. json = JObj kvs")
          case True
          then obtain kvs where "json = JObj kvs" by blast
          with Inr Some False parsed show ?thesis by (simp add: loadDailyStats_object)
        next
          case nobj: False
          with Inr Some False parsed show ?thesis by (simp add: loadDailyStats_not_object)
        qed
      qed
    qed
  qed
qed


text \<open>
  Claim C9, as amended. \<open>loadDailyStats\<close> never throws, whatever the store holds under the
  key and even when \<open>getItem\<close> itself throws. Called on the initial fields, as the
  constructor does, it leaves them zeroed (0, 0, today, false) when the value is missing,
  is the empty string, is not JSON, or is JSON that is not an object (\<open>null\<close>, a boolean, a
  number, a string, an array). When the value is a JSON object, each of \<open>callCount\<close>,
  \<open>tokenCount\<close>, \<open>lastResetDate\<close> and \<open>isQuotaExceeded\<close> is taken from it when it is present
  and truthy, whatever its type, and defaults to 0, 0, today and false otherwise.
\<close>

theorem loadDailyStats_never_throws:
  "(\<exists>f'. loadDailyStats rt clk store f = (Inr (), f'))
   \<and> ((\<forall>str kvs. getItem store stats_key = Inr (Some str) \<and> str \<noteq> []
           \<longrightarrow> JSON_parse rt str \<noteq> Inr (JObj kvs)) \<longrightarrow>
        loadDailyStats rt clk store (initial_fields clk) = (Inr (), initial_fields clk))
   \<and> (\<forall>str kvs. getItem store stats_key = Inr (Some str) \<and> str \<noteq> []
           \<and> JSON_parse rt str = Inr (JObj kvs) \<longrightarrow>
        loadDailyStats rt clk store f =
          (Inr (), \<lparr>loaded_dailyCallCount = js_or (map_of kvs ''callCount'') (JNum 0),
                    loaded_dailyTokenCount = js_or (map_of kvs ''tokenCount'') (JNum 0),
                    loaded_lastResetDate = js_or (map_of kvs ''lastResetDate'') (JStr (toDateString clk)),
                    loaded_isQuotaExceeded = js_or (map_of kvs ''isQuotaExceeded'') (JBool False)\<rparr>))"
proof (intro conjI impI allI)
  show "\<exists>f'. loadDailyStats rt clk store f = (Inr (), f')"
    by (rule loadDailyStats_total)
next
  assume no: "\<forall>str kvs. getItem store stats_key = Inr (Some str) \<and> str \<noteq> []
           \<longrightarrow> JSON_parse rt str \<noteq> Inr (JObj kvs)"
  show "loadDailyStats rt clk store (initial_fields clk) = (Inr (), initial_fields clk)"
  proof (cases "getItem store stats_key")
    case (Inl e)
    then show ?thesis by (simp add: loadDailyStats_nothing)
  next
    case (Inr saved)
    show ?thesis
    proof (cases saved)
      case None
      with Inr show ?thesis by (simp add: loadDailyStats_nothing)
    next
      case (Some str)
      show ?thesis
      proof (cases "str = []")
        case True
        with Inr Some show ?thesis by (simp add: loadDailyStats_nothing)
      next
        case False
        show ?thesis
        proof (cases "JSON_parse rt str")
          case (Inl e')
          with Inr Some show ?thesis by (simp add: loadDailyStats_nothing)
        next
          case parsed: (Inr json)
          from no Inr Some False parsed have "\<forall>kvs. json \<noteq> JObj kvs" by auto
          with Inr Some False parsed show ?thesis by (simp add: loadDailyStats_not_object)
        qed
      qed
    qed
  qed
next
  fix str kvs
  assume "getItem store stats_key = Inr (Some str) \<and> str \<noteq> []
           \<and> JSON_parse rt str = Inr (JObj kvs)"
  then show "loadDailyStats rt clk store f =
          (Inr (), \<lparr>loaded_dailyCallCount = js_or (map_of kvs ''callCount'') (JNum 0),
                    loaded_dailyTokenCount = js_or (map_of kvs ''tokenCount'') (JNum 0),
                    loaded_lastResetDate = js_or (map_of kvs ''lastResetDate'') (JStr (toDateString clk)),
                    loaded_isQuotaExceeded = js_or (map_of kvs ''isQuotaExceeded'') (JBool False)\<rparr>)"
    by (simp add: loadDailyStats_object)
qed

theorem loadDailyStats_never_throws_witness:
  "loadDailyStats example_runtime (clock_at ''Mon Nov 02 2026'' 5000)
      (empty_store\<lparr>items := [stats_key \<mapsto> ''not json'']\<rparr>)
      (initial_fields (clock_at ''Mon Nov 02 2026'' 5000))
     = (Inr (), initial_fields (clock_at ''Mon Nov 02 2026'' 5000))
   \<and> loaded_dailyCallCount (initial_fields (clock_at ''Mon Nov 02 2026'' 5000)) = JNum 0
   \<and> loaded_dailyTokenCount (initial_fields (clock_at ''Mon Nov 02 2026'' 5000)) = JNum 0
   \<and> loaded_isQuotaExceeded (initial_fields (clock_at ''Mon Nov 02 2026'' 5000)) = JBool False"
proof -
  let ?store = "empty_store\<lparr>items := [stats_key \<mapsto> ''not json'']\<rparr>"
  have g: "getItem ?store stats_key = Inr (Some ''not json'')"
    by (simp add: getItem_def empty_store_def)
  have p: "JSON_parse example_runtime ''not json'' = Inl (SyntaxError ''Unexpected token'')"
    by (simp add: example_runtime_def example_parse_def wrong_shape_text_def feedback_text_def)
  have no: "\<forall>str kvs. getItem ?store stats_key = Inr (Some str) \<and> str \<noteq> []
           \<longrightarrow> JSON_parse example_runtime str \<noteq> Inr (JObj kvs)"
    using g p by simp
  from loadDailyStats_never_throws [where rt = example_runtime and store = ?store
      and clk = "clock_at ''Mon Nov 02 2026'' 5000"] no
  have "loadDailyStats example_runtime (clock_at ''Mon Nov 02 2026'' 5000) ?store
      (initial_fields (clock_at ''Mon Nov 02 2026'' 5000))
     = (Inr (), initial_fields (clock_at ''Mon Nov 02 2026'' 5000))"
    by blast
  then show ?thesis by (simp add: initial_fields_def)
qed

text \<open>
  Claim C9 as stated fails for a stored text of the wrong shape: from
  \<open>{"callCount":"abc"}\<close> the load does not throw, but it leaves \<open>dailyCallCount\<close> holding
  the string \<open>"abc"\<close> instead of 0.
\<close>

theorem wrong_shape_is_loaded:
  "loadDailyStats example_runtime (clock_at ''Mon Nov 02 2026'' 5000) wrong_shape_store
      (initial_fields (clock_at ''Mon Nov 02 2026'' 5000))
     = (Inr (), \<lparr>loaded_dailyCallCount = JStr ''abc'', loaded_dailyTokenCount = JNum 0,
                 loaded_lastResetDate = JStr ''Mon Nov 02 2026'',
                 loaded_isQuotaExceeded = JBool False\<rparr>)
   \<and> JStr ''abc'' \<noteq> JNum 0"
proof -
  have g: "getItem wrong_shape_store stats_key = Inr (Some wrong_shape_text)"
    by (simp add: getItem_def wrong_shape_store_def empty_store_def)
  have ne: "wrong_shape_text \<noteq> []" by (simp add: wrong_shape_text_def)
  have p: "JSON_parse example_runtime wrong_shape_text = Inr (JObj [(''callCount'', JStr ''abc'')])"
    by (simp add: example_runtime_def example_parse_def)
  show ?thesis
    by (simp add: loadDailyStats_object [OF g ne p] js_or_def clock_at_def)
qed

section \<open>Properties of the turn state machine\<close>

subsection \<open>One request at a time in a typed session\<close>

lemma requests_append [simp]: "requests (xs @ ys) = requests xs @ requests ys"
  by (simp add: requests_def)

lemma requests_Cons_request [simp]: "is_request x \<Longrightarrow> requests (x # xs) = x # requests xs"
  by (simp add: requests_def)

lemma requests_Cons_other [simp]: "\<not> is_request x \<Longrightarrow> requests (x # xs) = requests xs"
  by (simp add: requests_def)

lemma requests_Nil [simp]: "requests [] = []"
  by (simp add: requests_def)

lemma requests_without_ticks [simp]:
  "requests (filter (\<lambda>x. \<not> is_tick x) xs) = requests xs"
proof (induction xs)
  case Nil
  show ?case by simp
next
  case (Cons x xs)
  then show ?case by (cases x) (simp_all add: requests_def)
qed

lemma requests_without_recognition [simp]:
  "requests (filter (\<lambda>x. \<not> is_webcam_recognition x) xs) = requests xs"
proof (induction xs)
  case Nil
  show ?case by simp
next
  case (Cons x xs)
  then show ?case by (cases x) (simp_all add: requests_def)
qed

lemma remove_at_split:
  "i < length xs \<Longrightarrow> xs = take i xs @ xs ! i # drop (Suc i) xs"
  by (rule id_take_nth_drop)

lemma requests_remove_at_request:
  assumes "i < length xs" and "is_request (xs ! i)" and "length (requests xs) \<le> 1"
  shows "requests (remove_at i xs) = []"
proof -
  have "requests xs = requests (take i xs) @ xs ! i # requests (drop (Suc i) xs)"
    using assms(1,2) by (subst remove_at_split [of i xs]) simp_all
  with assms(3) show ?thesis by (simp add: remove_at_def)
qed

lemma requests_remove_at_other:
  assumes "i < length xs" and "\<not> is_request (xs ! i)"
  shows "requests (remove_at i xs) = requests xs"
proof -
  have "requests xs = requests (take i xs) @ requests (drop (Suc i) xs)"
    using assms by (subst remove_at_split [of i xs]) simp_all
  then show ?thesis by (simp add: remove_at_def)
qed

lemma list_all_remove_at: "list_all P xs \<Longrightarrow> list_all P (remove_at i xs)"
  by (auto simp add: remove_at_def list_all_iff dest: in_set_takeD in_set_dropD)

lemma list_all_filter_keep: "list_all P xs \<Longrightarrow> list_all P (filter Q xs)"
  by (simp add: list_all_iff)

lemma render_one_request:
  assumes "list_all (\<lambda>x. \<not> speech_item x) (pending c)"
    and "list_all (\<lambda>x. \<not> speech_item x) (snd r)"
    and "length (requests (pending c)) + length (requests (snd r)) \<le> 1"
    and "requests (pending c) \<noteq> [] \<or> requests (snd r) \<noteq> []
           \<Longrightarrow> \<not> userTurn (fst r) \<and> debateStarted (fst r)"
  shows "one_request_at_a_time (render c r)"
  using assms by (auto simp add: one_request_at_a_time_def render_def list_all_iff)

lemma sendMessage_noop:
  "String_trim rt (currentMessage st) = [] \<or> \<not> userTurn st \<Longrightarrow> sendMessage rt st = (st, [])"
  by (auto simp add: sendMessage_def)

lemma settle_request:
  assumes "is_request x" and "\<not> speech_item x"
    and "settle rt clk random x out st = Some r"
  shows "list_all (\<lambda>x. \<not> speech_item x) (snd r) \<and> length (requests (snd r)) \<le> 1
         \<and> (requests (snd r) \<noteq> [] \<longrightarrow> userTurn (fst r) = userTurn st)
         \<and> debateStarted (fst r) = debateStarted st"
  using assms
  apply (cases x; cases out)
  apply (simp_all add: settle_def)
  apply (auto simp add: sendMessage_fulfilled_def sendMessage_rejected_def
            generateAIResponse_def generateAIResponse_fulfilled_def
            generateAIResponse_rejected_def Let_def)
  done

lemma settle_other:
  assumes "\<not> is_request x" and "\<not> speech_item x"
    and "settle rt clk random x out st = Some r"
  shows "snd r = [] \<and> userTurn (fst r) = userTurn st
         \<and> debateStarted (fst r) = debateStarted st"
  using assms
  apply (cases x; cases out)
  apply (simp_all add: settle_def)
  apply (auto simp add: mic_onresult_def utterance_onend_def tick_def)
  done

lemma settle_one_request:
  assumes inv: "one_request_at_a_time c" and i: "i < length (pending c)"
    and s: "settle rt clk random (pending c ! i) out (component c) = Some r"
  shows "one_request_at_a_time (render (c\<lparr>pending := remove_at i (pending c)\<rparr>) r)"
proof -
  let ?c = "c\<lparr>pending := remove_at i (pending c)\<rparr>"
  from inv have quiet: "list_all (\<lambda>x. \<not> speech_item x) (pending c)"
    and one: "length (requests (pending c)) \<le> 1"
    and turn: "requests (pending c) \<noteq> [] \<Longrightarrow> \<not> userTurn (component c) \<and> debateStarted (component c)"
    by (simp_all add: one_request_at_a_time_def)
  from quiet i have nx: "\<not> speech_item (pending c ! i)" by (simp add: list_all_length)
  have quiet': "list_all (\<lambda>x. \<not> speech_item x) (pending ?c)"
    using quiet by (simp add: list_all_remove_at)
  show ?thesis
  proof (cases "is_request (pending c ! i)")
    case True
    then have gone: "requests (pending ?c) = []"
      using i one by (simp add: requests_remove_at_request)
    from True i have "requests (pending c) \<noteq> []"
      by (auto simp add: requests_def filter_empty_conv)
    with turn have t: "\<not> userTurn (component c)" "debateStarted (component c)" by simp_all
    from settle_request [OF True nx s]
    have r: "list_all (\<lambda>x. \<not> speech_item x) (snd r)" "length (requests (snd r)) \<le> 1"
      "requests (snd r) \<noteq> [] \<Longrightarrow> userTurn (fst r) = userTurn (component c)"
      "debateStarted (fst r) = debateStarted (component c)"
      by simp_all
    show ?thesis
      by (rule render_one_request [OF quiet' r(1)]) (use gone r t in simp_all)
  next
    case False
    then have same: "requests (pending ?c) = requests (pending c)"
      using i by (simp add: requests_remove_at_other)
    from settle_other [OF False nx s]
    have new: "snd r = []"
      and st: "userTurn (fst r) = userTurn (component c)"
              "debateStarted (fst r) = debateStarted (component c)"
      by simp_all
    show ?thesis
      by (rule render_one_request [OF quiet']) (use new st same one turn in simp_all)
  qed
qed


lemma handle_simps:
  "handle rt sc (ChooseTopic t) c =
     (if screen (component c) = SetupScreen
      then Some (render c ((component c)\<lparr>topic := t\<rparr>, [])) else None)"
  "handle rt sc (ChooseSide sd) c =
     (if screen (component c) = SetupScreen
      then Some (render c ((component c)\<lparr>userSide := sd\<rparr>, [])) else None)"
  "handle rt sc (ChooseFormat f) c =
     (if format_offered (screen (component c)) f
      then Some (render c ((component c)\<lparr>debateFormat := f\<rparr>, [])) else None)"
  "handle rt sc StartDebate c =
     (if screen (component c) = SetupScreen then Some (render c (startDebate (component c)))
      else None)"
  "handle rt sc TimerEffect c =
     (if timer_deps c \<noteq> Some (deps (component c))
      then Some (render (c\<lparr>pending := filter (\<lambda>x. \<not> is_tick x) (pending c),
                            timer_deps := Some (deps (component c))\<rparr>)
                   (timer_effect sc (component c)))
      else None)"
  "handle rt sc (TypeText t) c =
     (if screen (component c) = TextScreen \<and> userTurn (component c)
      then Some (render c ((component c)\<lparr>currentMessage := t\<rparr>, [])) else None)"
  "handle rt sc MicClick c =
     (if screen (component c) = TextScreen \<and> userTurn (component c)
           \<and> \<not> isAiThinking (component c)
      then Some (render c (component c, [MicRecognition])) else None)"
  "handle rt sc SendMessage c =
     (if screen (component c) = TextScreen then Some (render c (sendMessage rt (component c)))
      else None)"
  "handle rt sc WebcamRecord c =
     (if screen (component c) = WebcamScreen
      then Some (render c (component c, [WebcamRecognition (component c)])) else None)"
  "handle rt sc (WebcamAISpeech clk aiResponse) c =
     (if screen (component c) = WebcamScreen
      then Some (render c (onAISpeech clk aiResponse (component c), [])) else None)"
  "handle rt sc DirectMicClick c =
     (if screen (component c) = DirectScreen \<and> directSpeechTurn (component c) = user
           \<and> \<not> isDirectRecording (component c)
      then Some (render c (startDirectRecording (component c))) else None)"
  "handle rt sc AiReplay c =
     (if screen (component c) = DirectScreen \<and> directSpeechTurn (component c) = ai
      then Some (render c (handleAiReplay (component c))) else None)"
  "handle rt sc AiSpeedChange c =
     (if screen (component c) = DirectScreen \<and> directSpeechTurn (component c) = ai
           \<and> aiSpeech (component c) \<noteq> []
      then Some (render c (handleAiSpeedChange (component c))) else None)"
  "handle rt sc EndDebate c =
     (if screen (component c) = WebcamScreen \<or> screen (component c) = DirectScreen
           \<or> screen (component c) = TextScreen
      then Some (render c (endDebate sc (component c))) else None)"
  "handle rt sc ResetDebate c =
     (if screen (component c) = ResultsScreen
      then Some (render c (resetDebate (component c), [])) else None)"
  "handle rt sc (Settle i clk random out) c =
     (if i < length (pending c)
      then (case settle rt clk random (pending c ! i) out (component c) of
              None \<Rightarrow> None
            | Some r \<Rightarrow> Some (render (c\<lparr>pending := remove_at i (pending c)\<rparr>) r))
      else None)"
  by (simp_all add: handle_def Let_def)

lemma handle_one_request:
  assumes inv: "one_request_at_a_time c" and ev: "typed_session ev"
    and h: "handle rt sc ev c = Some c'"
  shows "one_request_at_a_time c'"
proof -
  from inv have quiet: "list_all (\<lambda>x. \<not> speech_item x) (pending c)"
    and one: "length (requests (pending c)) \<le> 1"
    and turn: "requests (pending c) \<noteq> [] \<longrightarrow> \<not> userTurn (component c) \<and> debateStarted (component c)"
    by (simp_all add: one_request_at_a_time_def)
  have unchanged: "one_request_at_a_time (render c (st', new))"
    if "userTurn st' = userTurn (component c)" "debateStarted st' = debateStarted (component c)"
      "requests new = []" "list_all (\<lambda>x. \<not> speech_item x) new" for st' new
    by (rule render_one_request [OF quiet]) (use that one turn in simp_all)
  show ?thesis
  proof (cases ev)
    case (Settle i clk random out)
    with h obtain r where i: "i < length (pending c)"
      and s: "settle rt clk random (pending c ! i) out (component c) = Some r"
      and c': "c' = render (c\<lparr>pending := remove_at i (pending c)\<rparr>) r"
      by (auto simp add: handle_simps split: if_splits option.splits)
    show ?thesis unfolding c' using inv i s by (rule settle_one_request)
  next
    case TimerEffect
    with h have c': "c' = render (c\<lparr>pending := filter (\<lambda>x. \<not> is_tick x) (pending c),
                                timer_deps := Some (deps (component c))\<rparr>)
                              (timer_effect sc (component c))"
      by (simp add: handle_simps split: if_splits)
    have q: "list_all (\<lambda>x. \<not> speech_item x)
        (pending (c\<lparr>pending := filter (\<lambda>x. \<not> is_tick x) (pending c),
                                timer_deps := Some (deps (component c))\<rparr>))"
      using quiet by (simp add: list_all_filter_keep)
    have e: "requests (snd (timer_effect sc (component c))) = []"
      "list_all (\<lambda>x. \<not> speech_item x) (snd (timer_effect sc (component c)))"
      "debateStarted (fst (timer_effect sc (component c))) = debateStarted (component c)"
      "userTurn (fst (timer_effect sc (component c))) \<longrightarrow> userTurn (component c)"
      by (simp_all add: timer_effect_def endDebate_def)
    show ?thesis
      unfolding c' by (rule render_one_request [OF q]) (use e one turn in auto)
  next
    case StartDebate
    with h have c': "c' = render c (startDebate (component c))"
      and fresh: "\<not> debateStarted (component c)"
      by (auto simp add: handle_simps screen_def split: if_splits)
    from turn fresh have idle: "requests (pending c) = []" by blast
    have e: "list_all (\<lambda>x. \<not> speech_item x) (snd (startDebate (component c)))"
      "length (requests (snd (startDebate (component c)))) \<le> 1"
      "requests (snd (startDebate (component c))) \<noteq> [] \<longrightarrow>
         \<not> userTurn (fst (startDebate (component c)))
         \<and> debateStarted (fst (startDebate (component c)))"
      by (simp_all add: startDebate_def)
    show ?thesis
      unfolding c' by (rule render_one_request [OF quiet]) (use e idle in simp_all)
  next
    case SendMessage
    with h have c': "c' = render c (sendMessage rt (component c))"
      and started: "debateStarted (component c)"
      by (auto simp add: handle_simps screen_def split: if_splits)
    show ?thesis
    proof (cases "String_trim rt (currentMessage (component c)) = [] \<or> \<not> userTurn (component c)")
      case True
      then have "sendMessage rt (component c) = (component c, [])" by (rule sendMessage_noop)
      then show ?thesis unfolding c' by (simp add: unchanged)
    next
      case False
      with turn have idle: "requests (pending c) = []" by blast
      from False have sent: "sendMessage rt (component c) =
          ((component c)\<lparr>userTurn := False, apiError := None,
             argumentCount := argumentCount (component c) + 1\<rparr>, [AnalyzeFeedbackCall (component c)])"
        by (simp add: sendMessage_def)
      show ?thesis
        unfolding c' sent
        by (rule render_one_request [OF quiet]) (use idle started in simp_all)
    qed
  next
    case EndDebate
    with h have c': "c' = render c (endDebate sc (component c))"
      and started: "debateStarted (component c)"
      by (auto simp add: handle_simps screen_def split: if_splits)
    show ?thesis
      unfolding c' endDebate_def
      by (rule render_one_request [OF quiet]) (use started one in simp_all)
  next
    case (ChooseTopic t)
    with h have c': "c' = render c ((component c)\<lparr>topic := t\<rparr>, [])"
      by (simp add: handle_simps split: if_splits)
    show ?thesis unfolding c' by (rule unchanged) simp_all
  next
    case (ChooseSide sd)
    with h have c': "c' = render c ((component c)\<lparr>userSide := sd\<rparr>, [])"
      by (simp add: handle_simps split: if_splits)
    show ?thesis unfolding c' by (rule unchanged) simp_all
  next
    case (ChooseFormat f)
    with h have c': "c' = render c ((component c)\<lparr>debateFormat := f\<rparr>, [])"
      by (simp add: handle_simps split: if_splits)
    show ?thesis unfolding c' by (rule unchanged) simp_all
  next
    case (TypeText t)
    with h have c': "c' = render c ((component c)\<lparr>currentMessage := t\<rparr>, [])"
      by (simp add: handle_simps split: if_splits)
    show ?thesis unfolding c' by (rule unchanged) simp_all
  next
    case MicClick
    with h have c': "c' = render c (component c, [MicRecognition])"
      by (simp add: handle_simps split: if_splits)
    show ?thesis unfolding c' by (rule unchanged) simp_all
  next
    case (WebcamAISpeech clk aiResponse)
    with h have c': "c' = render c (onAISpeech clk aiResponse (component c), [])"
      by (simp add: handle_simps split: if_splits)
    show ?thesis unfolding c' by (rule unchanged) (simp_all add: onAISpeech_def)
  next
    case AiReplay
    with h have c': "c' = render c (handleAiReplay (component c))"
      by (simp add: handle_simps split: if_splits)
    obtain st' new where r: "handleAiReplay (component c) = (st', new)" by (cases "handleAiReplay (component c)")
    then have "userTurn st' = userTurn (component c)" "debateStarted st' = debateStarted (component c)"
      "requests new = []" "list_all (\<lambda>x. \<not> speech_item x) new"
      by (auto simp add: handleAiReplay_def playAiSpeech_def split: if_splits)
    then show ?thesis unfolding c' r by (rule unchanged)
  next
    case AiSpeedChange
    with h have c': "c' = render c (handleAiSpeedChange (component c))"
      by (simp add: handle_simps split: if_splits)
    obtain st' new where r: "handleAiSpeedChange (component c) = (st', new)"
      by (cases "handleAiSpeedChange (component c)")
    then have "userTurn st' = userTurn (component c)" "debateStarted st' = debateStarted (component c)"
      "requests new = []" "list_all (\<lambda>x. \<not> speech_item x) new"
      by (auto simp add: handleAiSpeedChange_def playAiSpeech_def split: if_splits)
    then show ?thesis unfolding c' r by (rule unchanged)
  next
    case WebcamRecord
    with ev show ?thesis by simp
  next
    case DirectMicClick
    with ev show ?thesis by simp
  next
    case ResetDebate
    with ev show ?thesis by simp
  qed
qed

lemma run_one_request:
  "one_request_at_a_time c \<Longrightarrow> list_all typed_session evs \<Longrightarrow> run rt sc evs c = Some c'
     \<Longrightarrow> one_request_at_a_time c'"
proof (induction evs arbitrary: c)
  case Nil
  then show ?case by simp
next
  case (Cons ev evs)
  then obtain c1 where h: "handle rt sc ev c = Some c1" and r: "run rt sc evs c1 = Some c'"
    by (auto split: option.splits)
  from Cons.prems h have "one_request_at_a_time c1" by (auto intro: handle_one_request)
  with Cons r show ?case by auto
qed

lemma mounted_one_request: "one_request_at_a_time (mounted key)"
  by (simp add: one_request_at_a_time_def mounted_def)

subsection \<open>The results screen\<close>

lemma component_render [simp]: "component (render c r) = fst r"
  by (simp add: render_def)

lemma settle_keeps_end:
  assumes "settle rt clk random x out st = Some r"
  shows "debateEnded (fst r) = debateEnded st \<and> finalFeedback (fst r) = finalFeedback st"
  using assms
  apply (cases x; cases out)
  apply (simp_all add: settle_def)
  apply (auto simp add: sendMessage_fulfilled_def sendMessage_rejected_def
      generateAIResponse_def generateAIResponse_fulfilled_def generateAIResponse_rejected_def
      handleWebcamSpeechDetected_def handleWebcamSpeechDetected_fulfilled_def
      handleWebcamSpeechDetected_rejected_def direct_onresult_def direct_onresult_fulfilled_def
      playAiSpeech_def direct_onend_def mic_onresult_def utterance_onend_def tick_def Let_def
      split: if_splits prod.splits)
  done


lemma handle_ended:
  assumes inv: "ended_shows_results c" and h: "handle rt sc ev c = Some c'"
  shows "ended_shows_results c'"
proof (cases ev)
  case (Settle i clk random out)
  with h obtain r where s: "settle rt clk random (pending c ! i) out (component c) = Some r"
    and c': "c' = render (c\<lparr>pending := remove_at i (pending c)\<rparr>) r"
    by (auto simp add: handle_simps split: if_splits option.splits)
  from settle_keeps_end [OF s] inv show ?thesis
    by (simp add: c' ended_shows_results_def)
next
  case TimerEffect
  with h inv show ?thesis
    by (auto simp add: handle_simps ended_shows_results_def timer_effect_def endDebate_def
        split: if_splits)
next
  case StartDebate
  with h inv show ?thesis
    by (auto simp add: handle_simps ended_shows_results_def startDebate_def split: if_splits)
next
  case SendMessage
  with h inv show ?thesis
    by (auto simp add: handle_simps ended_shows_results_def sendMessage_def split: if_splits)
next
  case EndDebate
  with h inv show ?thesis
    by (auto simp add: handle_simps ended_shows_results_def endDebate_def split: if_splits)
next
  case ResetDebate
  with h inv show ?thesis
    by (auto simp add: handle_simps ended_shows_results_def resetDebate_def split: if_splits)
next
  case (ChooseTopic t)
  with h inv show ?thesis
    by (auto simp add: handle_simps ended_shows_results_def split: if_splits)
next
  case (ChooseSide sd)
  with h inv show ?thesis
    by (auto simp add: handle_simps ended_shows_results_def split: if_splits)
next
  case (ChooseFormat f)
  with h inv show ?thesis
    by (auto simp add: handle_simps ended_shows_results_def split: if_splits)
next
  case (TypeText t)
  with h inv show ?thesis
    by (auto simp add: handle_simps ended_shows_results_def split: if_splits)
next
  case MicClick
  with h inv show ?thesis
    by (auto simp add: handle_simps ended_shows_results_def split: if_splits)
next
  case WebcamRecord
  with h inv show ?thesis
    by (auto simp add: handle_simps ended_shows_results_def split: if_splits)
next
  case (WebcamAISpeech clk aiResponse)
  with h inv show ?thesis
    by (auto simp add: handle_simps ended_shows_results_def onAISpeech_def split: if_splits)
next
  case DirectMicClick
  with h inv show ?thesis
    by (auto simp add: handle_simps ended_shows_results_def startDirectRecording_def
        split: if_splits)
next
  case AiReplay
  with h inv show ?thesis
    by (auto simp add: handle_simps ended_shows_results_def handleAiReplay_def playAiSpeech_def
        split: if_splits)
next
  case AiSpeedChange
  with h inv show ?thesis
    by (auto simp add: handle_simps ended_shows_results_def handleAiSpeedChange_def
        playAiSpeech_def split: if_splits)
qed

lemma run_ended:
  "ended_shows_results c \<Longrightarrow> run rt sc evs c = Some c' \<Longrightarrow> ended_shows_results c'"
proof (induction evs arbitrary: c)
  case Nil
  then show ?case by simp
next
  case (Cons ev evs)
  then obtain c1 where h: "handle rt sc ev c = Some c1" and r: "run rt sc evs c1 = Some c'"
    by (auto split: option.splits)
  from Cons.prems h have "ended_shows_results c1" by (auto intro: handle_ended)
  with Cons r show ?case by auto
qed

lemma ended_results:
  assumes "run rt sc evs (mounted key) = Some c" and "debateEnded (component c)"
  shows "screen (component c) = ResultsScreen"
proof -
  have "ended_shows_results (mounted key)"
    by (simp add: ended_shows_results_def mounted_def mount_def)
  from run_ended [OF this assms(1)] assms(2) show ?thesis
    by (simp add: ended_shows_results_def screen_def)
qed





subsection \<open>The example sessions\<close>

lemmas session_defs =
  session_def mounted_def mount_def handle_simps screen_def format_offered_def
  render_def deps_def remove_at_def settle_def startDebate_def timer_effect_def endDebate_def
  sendMessage_def sendMessage_fulfilled_def sendMessage_rejected_def generateAIResponse_def
  generateAIResponse_fulfilled_def generateAIResponse_rejected_def startDirectRecording_def
  direct_onresult_def other_side_def speaker_name_def Let_def
  example_runtime_def ascii_trim_def is_ascii_space_def example_scoring_def example_debate_def
  example_feedback_def clock_at_def

lemma show_int_6000: "show_int 6000 = ''6000''"
  by (simp add: show_int_def show_nat.simps)


lemma run_append:
  "run rt sc (xs @ ys) c = (case run rt sc xs c of None \<Rightarrow> None | Some c' \<Rightarrow> run rt sc ys c')"
  by (induction xs arbitrary: c) (simp_all split: option.splits)

lemma session_append:
  "session xs = Some c \<Longrightarrow> session (xs @ ys) = run example_runtime example_scoring ys c"
  by (simp add: session_def run_append)

lemma session_typed: "session typed_events = Some sent_config"
  by (simp add: typed_events_def sent_config_def session_defs)

lemma session_ended: "session ended_events = Some ended_config"
  unfolding ended_events_def answered_events_def append_assoc session_append [OF session_typed]
  by (simp add: sent_config_def ended_config_def ended_debate_def session_defs show_int_6000)

lemma session_spoken: "session spoken_events = Some spoken_config"
  by (simp add: spoken_events_def spoken_config_def spoken_debate_def session_defs)

lemma example_debate_accepts:
  "String_trim example_runtime (currentMessage example_debate) \<noteq> []" "userTurn example_debate"
  "argumentCount example_debate = 0"
  by (simp_all add: example_debate_def mount_def example_runtime_def ascii_trim_def
      is_ascii_space_def)


subsection \<open>The guard of sendMessage\<close>

text \<open>
  Claim C6, as amended. A call of \<open>sendMessage\<close> with a text that is empty after trimming,
  or with \<open>userTurn\<close> false, is a no-op: the state (and with it \<open>messages\<close>, \<open>argumentCount\<close>
  and \<open>userTurn\<close>) is unchanged and nothing is dispatched. Whether that keeps a second
  request from being dispatched depends on the session. In a session from the first
  render that stays with typed submissions (no recording is started in the direct-speech
  or the webcam format, and the session is not reset), at most one request of an
  exchange (a call of \<open>analyzeFeedback\<close> or \<open>generateDebateResponse\<close>, or the timer that
  will make it) is in flight in every configuration, and while one is in flight
  \<open>userTurn\<close> is false and \<open>sendMessage\<close> is a no-op. And in every session, once the
  debate has ended the results screen is shown, which does not offer \<open>sendMessage\<close>,
  whatever \<open>userTurn\<close> is.
\<close>

theorem sendMessage_guard:
  "(String_trim rt (currentMessage st) = [] \<or> \<not> userTurn st \<longrightarrow> sendMessage rt st = (st, []))
   \<and> (run rt sc evs (mounted key) = Some c \<and> list_all typed_session evs \<longrightarrow>
        length (requests (pending c)) \<le> 1
        \<and> (requests (pending c) \<noteq> [] \<longrightarrow>
             \<not> userTurn (component c) \<and> sendMessage rt (component c) = (component c, [])))
   \<and> (run rt sc evs (mounted key) = Some c \<and> debateEnded (component c) \<longrightarrow>
        handle rt sc SendMessage c = None)"
proof (intro conjI impI)
  assume "String_trim rt (currentMessage st) = [] \<or> \<not> userTurn st"
  then show "sendMessage rt st = (st, [])" by (rule sendMessage_noop)
next
  assume r: "run rt sc evs (mounted key) = Some c \<and> list_all typed_session evs"
  then have inv: "one_request_at_a_time c"
    using run_one_request [OF mounted_one_request] by blast
  then show "length (requests (pending c)) \<le> 1" by (simp add: one_request_at_a_time_def)
  assume "requests (pending c) \<noteq> []"
  with inv show "\<not> userTurn (component c)" by (simp add: one_request_at_a_time_def)
  then show "sendMessage rt (component c) = (component c, [])" by (simp add: sendMessage_noop)
next
  assume "run rt sc evs (mounted key) = Some c \<and> debateEnded (component c)"
  then have "screen (component c) = ResultsScreen" using ended_results by blast
  then show "handle rt sc SendMessage c = None" by (simp add: handle_simps)
qed

theorem sendMessage_guard_witness:
  "sendMessage example_runtime (example_debate\<lparr>currentMessage := ''   ''\<rparr>)
     = (example_debate\<lparr>currentMessage := ''   ''\<rparr>, [])
   \<and> length (requests (pending sent_config)) \<le> 1
   \<and> \<not> userTurn (component sent_config)
   \<and> sendMessage example_runtime (component sent_config) = (component sent_config, [])
   \<and> handle example_runtime example_scoring SendMessage ended_config = None"
proof -
  let ?blank = "example_debate\<lparr>currentMessage := ''   ''\<rparr>"
  have b: "String_trim example_runtime (currentMessage ?blank) = [] \<or> \<not> userTurn ?blank"
    by (simp add: example_runtime_def ascii_trim_def is_ascii_space_def)
  have typed: "run example_runtime example_scoring typed_events (mounted True) = Some sent_config
      \<and> list_all typed_session typed_events"
    using session_typed by (simp add: session_def typed_events_def)
  have req: "requests (pending sent_config) \<noteq> []" by (simp add: sent_config_def)
  have ended: "run example_runtime example_scoring ended_events (mounted True) = Some ended_config
      \<and> debateEnded (component ended_config)"
    using session_ended by (simp add: session_def ended_config_def ended_debate_def)
  from sendMessage_guard [of example_runtime ?blank] b
  have first: "sendMessage example_runtime ?blank = (?blank, [])" by blast
  from sendMessage_guard [where rt = example_runtime and sc = example_scoring
      and evs = typed_events and key = True and c = sent_config] typed req
  have second: "length (requests (pending sent_config)) \<le> 1
      \<and> \<not> userTurn (component sent_config)
      \<and> sendMessage example_runtime (component sent_config) = (component sent_config, [])"
    by blast
  from sendMessage_guard [where rt = example_runtime and sc = example_scoring
      and evs = ended_events and key = True and c = ended_config] ended
  have third: "handle example_runtime example_scoring SendMessage ended_config = None"
    by blast
  from first second third show ?thesis by blast
qed

text \<open>
  Claim C6 as stated fails in its last part: a second request can be dispatched while
  one is in flight. In the session \<open>spoken_events\<close> the user speaks an argument in the
  direct-speech format; \<open>onresult\<close> calls \<open>generateDebateResponse\<close> and leaves \<open>userTurn\<close>
  true. With that call in flight the user switches to the text format and types an
  argument, and \<open>sendMessage\<close> passes its guard and dispatches \<open>analyzeFeedback\<close>: two
  requests are in flight.
\<close>

theorem second_dispatch_in_flight:
  "session spoken_events = Some spoken_config
   \<and> requests (pending spoken_config)
       = [DirectSpeechCall ''Homework should be banned'' ''It wastes time'' con 1]
   \<and> userTurn (component spoken_config)
   \<and> sendMessage example_runtime (component spoken_config)
       = (spoken_debate\<lparr>userTurn := False, argumentCount := 1\<rparr>,
          [AnalyzeFeedbackCall spoken_debate])
   \<and> session (spoken_events @ [SendMessage])
       = Some (spoken_config\<lparr>component := spoken_debate\<lparr>userTurn := False, argumentCount := 1\<rparr>,
                 pending := [TickTimer 300,
                   DirectSpeechCall ''Homework should be banned'' ''It wastes time'' con 1,
                   AnalyzeFeedbackCall spoken_debate]\<rparr>)"
proof (intro conjI)
  show "session spoken_events = Some spoken_config" by (rule session_spoken)
  show "requests (pending spoken_config)
       = [DirectSpeechCall ''Homework should be banned'' ''It wastes time'' con 1]"
    by (simp add: spoken_config_def)
  show "userTurn (component spoken_config)"
    by (simp add: spoken_config_def spoken_debate_def mount_def)
  show "sendMessage example_runtime (component spoken_config)
       = (spoken_debate\<lparr>userTurn := False, argumentCount := 1\<rparr>,
          [AnalyzeFeedbackCall spoken_debate])"
    by (simp add: spoken_config_def spoken_debate_def mount_def sendMessage_def
        example_runtime_def ascii_trim_def is_ascii_space_def)
  show "session (spoken_events @ [SendMessage])
       = Some (spoken_config\<lparr>component := spoken_debate\<lparr>userTurn := False, argumentCount := 1\<rparr>,
                 pending := [TickTimer 300,
                   DirectSpeechCall ''Homework should be banned'' ''It wastes time'' con 1,
                   AnalyzeFeedbackCall spoken_debate]\<rparr>)"
    unfolding session_append [OF session_spoken]
    by (simp add: spoken_config_def spoken_debate_def session_defs)
qed


subsection \<open>The argument counter\<close>

lemma argumentCount_sendMessage:
  "String_trim rt (currentMessage st) \<noteq> [] \<Longrightarrow> userTurn st \<Longrightarrow>
   sendMessage rt st =
     (st\<lparr>userTurn := False, apiError := None, argumentCount := argumentCount st + 1\<rparr>,
      [AnalyzeFeedbackCall st])"
  by (simp add: sendMessage_def)

lemma exchange_argumentCount:
  assumes "String_trim rt (currentMessage st) \<noteq> []" and "userTurn st"
  shows "argumentCount (exchange rt clk random fb resp st) = argumentCount st + 1"
proof -
  have sent: "sendMessage rt st =
      (st\<lparr>userTurn := False, apiError := None, argumentCount := argumentCount st + 1\<rparr>,
       [AnalyzeFeedbackCall st])"
    using assms by (simp add: argumentCount_sendMessage)
  show ?thesis
    by (simp add: exchange_def sent sendMessage_rejected_def sendMessage_fulfilled_def
        generateAIResponse_def generateAIResponse_rejected_def generateAIResponse_fulfilled_def
        Let_def split: sum.splits)
qed

text \<open>
  Claim C7, as amended. \<open>argumentCount\<close> increases by exactly 1 for every submission that
  \<open>sendMessage\<close> accepts (a non-empty text on the human's turn), at the submission itself:
  the exchange that follows leaves it at that value when it succeeds and also when
  \<open>analyzeFeedback\<close> or \<open>generateDebateResponse\<close> raises, since neither \<open>catch\<close> branch
  restores it. It is unchanged only for a submission that is a no-op.
\<close>

theorem argumentCount_per_submission:
  "(String_trim rt (currentMessage st) \<noteq> [] \<and> userTurn st \<longrightarrow>
      argumentCount (fst (sendMessage rt st)) = argumentCount st + 1
    \<and> argumentCount (exchange rt clk random fb resp st) = argumentCount st + 1)
   \<and> (String_trim rt (currentMessage st) = [] \<or> \<not> userTurn st \<longrightarrow>
        exchange rt clk random fb resp st = st)"
proof (intro conjI impI)
  assume a: "String_trim rt (currentMessage st) \<noteq> [] \<and> userTurn st"
  then show "argumentCount (fst (sendMessage rt st)) = argumentCount st + 1"
    by (simp add: argumentCount_sendMessage)
  from a show "argumentCount (exchange rt clk random fb resp st) = argumentCount st + 1"
    by (simp add: exchange_argumentCount)
next
  assume "String_trim rt (currentMessage st) = [] \<or> \<not> userTurn st"
  then have "sendMessage rt st = (st, [])" by (rule sendMessage_noop)
  then show "exchange rt clk random fb resp st = st" by (simp add: exchange_def)
qed

theorem argumentCount_per_submission_witness:
  "argumentCount (exchange example_runtime (clock_at ''Mon Nov 02 2026'' 6000) 0
      (Inr example_feedback) (Inr ''Homework builds discipline'') example_debate) = 1
   \<and> exchange example_runtime (clock_at ''Mon Nov 02 2026'' 6000) 0
      (Inr example_feedback) (Inr ''Homework builds discipline'')
      (example_debate\<lparr>userTurn := False\<rparr>)
     = example_debate\<lparr>userTurn := False\<rparr>"
proof -
  let ?fb = "Inr example_feedback :: error + Feedback"
  let ?resp = "Inr ''Homework builds discipline'' :: error + string"
  let ?clk = "clock_at ''Mon Nov 02 2026'' 6000"
  from argumentCount_per_submission [of example_runtime example_debate ?clk 0 ?fb ?resp]
    example_debate_accepts
  have first: "argumentCount (exchange example_runtime ?clk 0 ?fb ?resp example_debate) = 1"
    by simp
  have off: "String_trim example_runtime (currentMessage (example_debate\<lparr>userTurn := False\<rparr>)) = []
      \<or> \<not> userTurn (example_debate\<lparr>userTurn := False\<rparr>)" by simp
  from argumentCount_per_submission [of example_runtime "example_debate\<lparr>userTurn := False\<rparr>"
      ?clk 0 ?fb ?resp] off
  have second: "exchange example_runtime ?clk 0 ?fb ?resp (example_debate\<lparr>userTurn := False\<rparr>)
      = example_debate\<lparr>userTurn := False\<rparr>" by blast
  from first second show ?thesis by blast
qed

text \<open>
  Claim C7 as stated fails for a failed exchange. With the daily call limit reached,
  \<open>analyzeFeedback\<close> throws the quota denial, and the exchange ends with \<open>argumentCount\<close> at 1
  where it was 0; the same holds when the feedback succeeds and \<open>generateDebateResponse\<close>
  fails with a provider error.
\<close>

theorem failed_exchange_counts:
  "isl (fst (analyzeFeedback example_templates example_runtime
          (clock_at ''Mon Nov 02 2026'' 5000) (clock_at ''Mon Nov 02 2026'' 6000)
          example_provider ''It wastes time'' ''Homework should be banned'' pro 1
          (example_service 50 700 [])))
   \<and> argumentCount example_debate = 0
   \<and> argumentCount (exchange example_runtime (clock_at ''Mon Nov 02 2026'' 6000) 0
        (fst (analyzeFeedback example_templates example_runtime
          (clock_at ''Mon Nov 02 2026'' 5000) (clock_at ''Mon Nov 02 2026'' 6000)
          example_provider ''It wastes time'' ''Homework should be banned'' pro 1
          (example_service 50 700 [])))
        (Inr ''Homework builds discipline'') example_debate) = 1
   \<and> argumentCount (exchange example_runtime (clock_at ''Mon Nov 02 2026'' 6000) 0
        (Inr example_feedback)
        (Inl (Error ''[CALL-2-6000] AI API error: service unavailable'')) example_debate) = 1"
proof -
  let ?s = "example_service 50 700 []"
  let ?c = "clock_at ''Mon Nov 02 2026'' 5000"
  have same: "lastResetDate ?s = toDateString ?c"
    by (simp add: example_service_def clock_at_def)
  have chk: "fst (checkQuotaLimits example_runtime ?c ?s) = Inr (denied call_limit_reason None)"
    unfolding checkQuotaLimits_same_day [OF same]
    by (simp add: example_service_def DAILY_CALL_LIMIT_def)
  have nq: "\<not> canMakeCall (denied call_limit_reason None)" by (simp add: denied_def)
  from analyzeFeedback_denied [OF chk nq, of example_templates
      "clock_at ''Mon Nov 02 2026'' 6000" example_provider "''It wastes time''"
      "''Homework should be banned''" pro 1]
  have thrown: "isl (fst (analyzeFeedback example_templates example_runtime ?c
          (clock_at ''Mon Nov 02 2026'' 6000)
          example_provider ''It wastes time'' ''Homework should be banned'' pro 1 ?s))"
    by auto
  show ?thesis
    using thrown by (simp add: exchange_argumentCount example_debate_accepts)
qed


subsection \<open>Requests that settle after the end of the debate\<close>







end
